theory Spec2Isabelle
  imports Main "HOL-Library.Word"
begin

section \<open>Strings and Python conventions\<close>

text \<open>Python exceptions that the generator can raise, as values.\<close>

datatype error = IndexError | KeyError | UnboundLocalError | RecursionError

text \<open>\<open>startswith p s\<close>: the string \<open>s\<close> begins with \<open>p\<close>.\<close>

fun startswith :: "string \<Rightarrow> string \<Rightarrow> bool" where
  "startswith [] s = True"
| "startswith (p # ps) [] = False"
| "startswith (p # ps) (c # cs) = (p = c \<and> startswith ps cs)"

text \<open>Python's \<open>p in s\<close> on strings: \<open>p\<close> occurs in \<open>s\<close> as a contiguous substring.\<close>

fun str_in :: "string \<Rightarrow> string \<Rightarrow> bool" where
  "str_in p [] = (p = [])"
| "str_in p (c # cs) = (startswith p (c # cs) \<or> str_in p cs)"

text \<open>\<open>f'"{s}"'\<close>: the text \<open>s\<close> between two double quote characters.\<close>

definition quoted :: "string \<Rightarrow> string" where
  "quoted s = CHR 0x22 # s @ [CHR 0x22]"

text \<open>Python's \<open>k in d\<close> on a dictionary kept as an association list (insertion order is
  the order of \<open>d.values()\<close>).\<close>

definition in_dict :: "'k \<Rightarrow> ('k \<times> 'v) list \<Rightarrow> bool" where
  "in_dict k d = (map_of d k \<noteq> None)"

text \<open>Truthiness of an optional string: \<open>None\<close> and the empty string are false.\<close>

fun truthy :: "string option \<Rightarrow> bool" where
  "truthy None = False"
| "truthy (Some s) = (s \<noteq> [])"

text \<open>\<open>xs[-1]\<close> and \<open>xs[-2]\<close>, which raise \<open>IndexError\<close> on a list that is too short.\<close>

definition last_item :: "'a list \<Rightarrow> error + 'a" where
  "last_item xs = (if xs = [] then Inl IndexError else Inr (last xs))"

definition second_last_item :: "'a list \<Rightarrow> error + 'a" where
  "second_last_item xs = (if length xs < 2 then Inl IndexError else Inr (last (butlast xs)))"

section \<open>The registry objects read by the generator\<close>

text \<open>The fields of \<open>Handle\<close>, \<open>Member\<close>/\<open>Param\<close>, \<open>Struct\<close> and \<open>Command\<close> that
  \<open>object_tracker_generator.py\<close> reads. \<open>Param\<close> and \<open>Member\<close> are read through the same
  fields (\<open>validateObjects\<close> is called on both), so one record serves both.\<close>

datatype Handle = Handle (h_name: string) (h_dispatchable: bool) (h_parent: "Handle option")

record Member =
  m_name :: string
  m_type :: string
  m_noAutoValidity :: bool
  m_length :: "string option"
  m_pointer :: bool
  m_optional :: bool
  m_optionalPointer :: bool

record Struct =
  s_name :: string
  s_members :: "Member list"

record Command =
  c_name :: string
  c_alias :: "string option"
  c_returnType :: string
  c_params :: "Member list"

record VulkanObject =
  handles :: "(string \<times> Handle) list"
  structs :: "(string \<times> Struct) list"
  commands :: "(string \<times> Command) list"

text \<open>The generator object: \<open>self.targetApiName\<close>, \<open>self.valid_vuids\<close>, \<open>self.vk\<close>, and the
  imported helper \<open>getVUID\<close> of \<open>generators.generator_utils\<close>, whose body is not part of
  this file and is therefore a parameter.\<close>

record Generator =
  targetApiName :: string
  valid_vuids :: "string set"
  vk :: VulkanObject
  getVUID :: "string set \<Rightarrow> string \<Rightarrow> string"

section \<open>APISpecific\<close>

text \<open>\<open>getUndestroyedObjectVUID\<close>: the \<open>match\<close> binds \<open>per_scope\<close> only for \<open>'vulkan'\<close>; any other
  target leaves it unbound and the \<open>return\<close> raises.\<close>

definition getUndestroyedObjectVUID :: "string \<Rightarrow> string \<Rightarrow> error + string" where
  "getUndestroyedObjectVUID targetApi scope =
     (if targetApi = ''vulkan'' then
        (case map_of [(''instance'', ''VUID-vkDestroyInstance-instance-00629''),
                      (''device'', ''VUID-vkDestroyDevice-device-00378'')] scope of
           None \<Rightarrow> Inl KeyError
         | Some v \<Rightarrow> Inr v)
      else Inl UnboundLocalError)"

definition IsImplicitlyDestroyed :: "string \<Rightarrow> string \<Rightarrow> error + bool" where
  "IsImplicitlyDestroyed targetApi handleType =
     (if targetApi = ''vulkan'' then Inr (handleType \<in> set [''VkDisplayKHR'', ''VkDisplayModeKHR''])
      else Inl UnboundLocalError)"

text \<open>\<open>AreAllocVUIDsEnabled\<close> returns \<open>True\<close> for \<open>'vulkan'\<close> and falls off the end of the
  function (Python's \<open>None\<close>) for every other target.\<close>

definition AreAllocVUIDsEnabled :: "string \<Rightarrow> bool option" where
  "AreAllocVUIDsEnabled targetApi = (if targetApi = ''vulkan'' then Some True else None)"

section \<open>ObjectTrackerOutputGenerator: tables\<close>

definition no_autogen_list :: "string list" where
  "no_autogen_list =
    [''vkDestroyInstance'', ''vkCreateInstance'', ''vkCreateDevice'', ''vkEnumeratePhysicalDevices'',
     ''vkGetPhysicalDeviceQueueFamilyProperties'', ''vkGetPhysicalDeviceQueueFamilyProperties2'',
     ''vkGetPhysicalDeviceQueueFamilyProperties2KHR'', ''vkGetDeviceQueue'', ''vkGetDeviceQueue2'',
     ''vkCreateDescriptorSetLayout'', ''vkDestroyDescriptorPool'', ''vkDestroyCommandPool'',
     ''vkAllocateCommandBuffers'', ''vkAllocateDescriptorSets'', ''vkFreeDescriptorSets'',
     ''vkFreeCommandBuffers'', ''vkUpdateDescriptorSets'', ''vkBeginCommandBuffer'',
     ''vkGetDescriptorSetLayoutSupport'', ''vkGetDescriptorSetLayoutSupportKHR'',
     ''vkDestroySwapchainKHR'', ''vkGetSwapchainImagesKHR'', ''vkCmdPushDescriptorSetKHR'',
     ''vkDestroyDevice'', ''vkResetDescriptorPool'', ''vkGetPhysicalDeviceDisplayPropertiesKHR'',
     ''vkGetPhysicalDeviceDisplayProperties2KHR'', ''vkGetDisplayModePropertiesKHR'',
     ''vkGetDisplayModeProperties2KHR'', ''vkCreateFramebuffer'', ''vkSetDebugUtilsObjectNameEXT'',
     ''vkSetDebugUtilsObjectTagEXT'', ''vkCreateDescriptorUpdateTemplate'',
     ''vkCreateDescriptorUpdateTemplateKHR'', ''vkCmdBuildAccelerationStructuresKHR'',
     ''vkCmdBuildAccelerationStructuresIndirectKHR'', ''vkBuildAccelerationStructuresKHR'',
     ''vkCreateRayTracingPipelinesKHR'', ''vkExportMetalObjectsEXT'', ''vkGetDescriptorEXT'']"

definition manual_vuids :: "(string \<times> string) list" where
  "manual_vuids =
  [
    (''fence-compatalloc'', quoted ''VUID-vkDestroyFence-fence-01121''),
    (''fence-nullalloc'', quoted ''VUID-vkDestroyFence-fence-01122''),
    (''event-compatalloc'', quoted ''VUID-vkDestroyEvent-event-01146''),
    (''event-nullalloc'', quoted ''VUID-vkDestroyEvent-event-01147''),
    (''buffer-compatalloc'', quoted ''VUID-vkDestroyBuffer-buffer-00923''),
    (''buffer-nullalloc'', quoted ''VUID-vkDestroyBuffer-buffer-00924''),
    (''image-compatalloc'', quoted ''VUID-vkDestroyImage-image-01001''),
    (''image-nullalloc'', quoted ''VUID-vkDestroyImage-image-01002''),
    (''shaderModule-compatalloc'', quoted ''VUID-vkDestroyShaderModule-shaderModule-01092''),
    (''shaderModule-nullalloc'', quoted ''VUID-vkDestroyShaderModule-shaderModule-01093''),
    (''pipeline-compatalloc'', quoted ''VUID-vkDestroyPipeline-pipeline-00766''),
    (''pipeline-nullalloc'', quoted ''VUID-vkDestroyPipeline-pipeline-00767''),
    (''sampler-compatalloc'', quoted ''VUID-vkDestroySampler-sampler-01083''),
    (''sampler-nullalloc'', quoted ''VUID-vkDestroySampler-sampler-01084''),
    (''renderPass-compatalloc'', quoted ''VUID-vkDestroyRenderPass-renderPass-00874''),
    (''renderPass-nullalloc'', quoted ''VUID-vkDestroyRenderPass-renderPass-00875''),
    (''descriptorUpdateTemplate-compatalloc'', quoted ''VUID-vkDestroyDescriptorUpdateTemplate-descriptorSetLayout-00356''),
    (''descriptorUpdateTemplate-nullalloc'', quoted ''VUID-vkDestroyDescriptorUpdateTemplate-descriptorSetLayout-00357''),
    (''imageView-compatalloc'', quoted ''VUID-vkDestroyImageView-imageView-01027''),
    (''imageView-nullalloc'', quoted ''VUID-vkDestroyImageView-imageView-01028''),
    (''pipelineCache-compatalloc'', quoted ''VUID-vkDestroyPipelineCache-pipelineCache-00771''),
    (''pipelineCache-nullalloc'', quoted ''VUID-vkDestroyPipelineCache-pipelineCache-00772''),
    (''pipelineLayout-compatalloc'', quoted ''VUID-vkDestroyPipelineLayout-pipelineLayout-00299''),
    (''pipelineLayout-nullalloc'', quoted ''VUID-vkDestroyPipelineLayout-pipelineLayout-00300''),
    (''descriptorSetLayout-compatalloc'', quoted ''VUID-vkDestroyDescriptorSetLayout-descriptorSetLayout-00284''),
    (''descriptorSetLayout-nullalloc'', quoted ''VUID-vkDestroyDescriptorSetLayout-descriptorSetLayout-00285''),
    (''semaphore-compatalloc'', quoted ''VUID-vkDestroySemaphore-semaphore-01138''),
    (''semaphore-nullalloc'', quoted ''VUID-vkDestroySemaphore-semaphore-01139''),
    (''queryPool-compatalloc'', quoted ''VUID-vkDestroyQueryPool-queryPool-00794''),
    (''queryPool-nullalloc'', quoted ''VUID-vkDestroyQueryPool-queryPool-00795''),
    (''bufferView-compatalloc'', quoted ''VUID-vkDestroyBufferView-bufferView-00937''),
    (''bufferView-nullalloc'', quoted ''VUID-vkDestroyBufferView-bufferView-00938''),
    (''surface-compatalloc'', quoted ''VUID-vkDestroySurfaceKHR-surface-01267''),
    (''surface-nullalloc'', quoted ''VUID-vkDestroySurfaceKHR-surface-01268''),
    (''framebuffer-compatalloc'', quoted ''VUID-vkDestroyFramebuffer-framebuffer-00893''),
    (''framebuffer-nullalloc'', quoted ''VUID-vkDestroyFramebuffer-framebuffer-00894''),
    (''VkGraphicsPipelineCreateInfo-basePipelineHandle'', quoted ''VUID-VkGraphicsPipelineCreateInfo-flags-07984''),
    (''VkComputePipelineCreateInfo-basePipelineHandle'', quoted ''VUID-VkComputePipelineCreateInfo-flags-07984''),
    (''VkRayTracingPipelineCreateInfoNV-basePipelineHandle'', quoted ''VUID-VkRayTracingPipelineCreateInfoNV-flags-07984''),
    (''VkRayTracingPipelineCreateInfoKHR-basePipelineHandle'', quoted ''VUID-VkRayTracingPipelineCreateInfoKHR-flags-07984''),
    (''VkVideoSessionKHR-videoSession-compatalloc'', quoted ''VUID-vkDestroyVideoSessionKHR-videoSession-07193''),
    (''VkVideoSessionKHR-videoSession-nullalloc'', quoted ''VUID-vkDestroyVideoSessionKHR-videoSession-07194''),
    (''VkVideoSessionParametersKHR-videoSessionParameters-compatalloc'', quoted ''VUID-vkDestroyVideoSessionParametersKHR-videoSessionParameters-07213''),
    (''VkVideoSessionParametersKHR-videoSessionParameters-nullalloc'', quoted ''VUID-vkDestroyVideoSessionParametersKHR-videoSessionParameters-07214''),
    (''VkAccelerationStructureKHR-accelerationStructure-compatalloc'', quoted ''VUID-vkDestroyAccelerationStructureKHR-accelerationStructure-02443''),
    (''VkAccelerationStructureKHR-accelerationStructure-nullalloc'', quoted ''VUID-vkDestroyAccelerationStructureKHR-accelerationStructure-02444''),
    (''VkAccelerationStructureNV-accelerationStructure-compatalloc'', quoted ''VUID-vkDestroyAccelerationStructureNV-accelerationStructure-03753''),
    (''VkAccelerationStructureNV-accelerationStructure-nullalloc'', quoted ''VUID-vkDestroyAccelerationStructureNV-accelerationStructure-03754''),
    (''shader-compatalloc'', quoted ''VUID-vkDestroyShaderEXT-pAllocator-08483''),
    (''shader-nullalloc'', quoted ''VUID-vkDestroyShaderEXT-pAllocator-08484'')
  ]"

definition kVUIDUndefined :: string where
  "kVUIDUndefined = ''kVUIDUndefined''"

section \<open>ObjectTrackerOutputGenerator: helpers\<close>

text \<open>\<open>isParentDevice\<close>: the \<open>while\<close> loop walks the chain of \<open>parent\<close> references.\<close>

fun isParentDevice :: "Handle \<Rightarrow> bool" where
  "isParentDevice (Handle n d None) = False"
| "isParentDevice (Handle n d (Some p)) = (if h_name p = ''VkDevice'' then True else isParentDevice p)"

text \<open>\<open>structContainsObject\<close>. The loop over \<open>struct.members\<close> is the recursion on the list; the
  recursive call on a member struct spends one unit of fuel, since only a direct
  self-reference is guarded and a cycle through two structs recurses until Python raises
  \<open>RecursionError\<close>.\<close>

fun structContainsObject_loop :: "nat \<Rightarrow> VulkanObject \<Rightarrow> string \<Rightarrow> Member list \<Rightarrow> error + bool" where
  "structContainsObject_loop fuel v sname [] = Inr False"
| "structContainsObject_loop fuel v sname (member # rest) =
     (if in_dict (m_type member) (handles v) then Inr True
      else (case map_of (structs v) (m_type member) of
              None \<Rightarrow> structContainsObject_loop fuel v sname rest
            | Some st \<Rightarrow>
                if m_type member \<noteq> sname then
                  (case fuel of
                     0 \<Rightarrow> Inl RecursionError
                   | Suc n \<Rightarrow>
                       (case structContainsObject_loop n v (s_name st) (s_members st) of
                          Inl e \<Rightarrow> Inl e
                        | Inr True \<Rightarrow> Inr True
                        | Inr False \<Rightarrow> structContainsObject_loop fuel v sname rest))
                else structContainsObject_loop fuel v sname rest))"

definition structContainsObject :: "nat \<Rightarrow> VulkanObject \<Rightarrow> Struct \<Rightarrow> error + bool" where
  "structContainsObject fuel v st = structContainsObject_loop fuel v (s_name st) (s_members st)"

text \<open>\<open>getAllocVUID\<close>. \<open>not None\<close> is true in Python, so a target for which
  \<open>AreAllocVUIDsEnabled\<close> returns nothing takes the first branch.\<close>

definition getAllocVUID :: "Generator \<Rightarrow> Member \<Rightarrow> string \<Rightarrow> string" where
  "getAllocVUID self param allocType =
     (if AreAllocVUIDsEnabled (targetApiName self) \<noteq> Some True then kVUIDUndefined
      else (case map_of manual_vuids (m_name param @ ''-'' @ allocType) of
              Some vuid \<Rightarrow> vuid
            | None \<Rightarrow>
                (case map_of manual_vuids (m_type param @ ''-'' @ m_name param @ ''-'' @ allocType) of
                   Some vuid \<Rightarrow> vuid
                 | None \<Rightarrow> kVUIDUndefined)))"

section \<open>The emitted validation code\<close>

text \<open>The generator writes C++ text. The model keeps the structure of that text: one
  constructor per emitted statement, with the same operands. Indentation has no meaning in
  C++ and is not kept.

  A \<open>prefix\<close> is the access path in front of a member name: \<open>PIdx n k\<close> is the text
  \<open>n[index<k>].\<close>, \<open>PArrow n\<close> is \<open>n->\<close> and \<open>PDot n\<close> is \<open>n.\<close>. The loop variable
  \<open>index<k>\<close> is identified by the number \<open>k\<close> (\<open>arrayIndex\<close>).\<close>

datatype pstep = PIdx string nat | PArrow string | PDot string

text \<open>\<open>CVar p n\<close> is \<open>{prefix}{n}\<close>; \<open>CIdx p n k\<close> is \<open>{prefix}{n}[index<k>]\<close>.\<close>

datatype cexpr = CVar "pstep list" string | CIdx "pstep list" string nat

text \<open>Location variables: \<open>error_obj.location\<close>, \<open>index<k>_loc\<close>, \<open><member>_loc\<close>; and location
  expressions: the variable itself, \<open>v.dot(Field::f)\<close>, \<open>v.dot(Field::f, index<k>)\<close>.\<close>

datatype locvar = ErrorObjLocation | IndexLoc nat | MemberLoc string

datatype loc = LVar locvar | LDot locvar string | LDotIdx locvar string nat

text \<open>Conditions of the emitted \<open>if\<close> statements:
  \<open>CountAndPtr c p\<close> is \<open>(c > 0) && (p)\<close>, \<open>NonNull p\<close> is \<open>(p)\<close>, and \<open>Derivative prefix\<close> is
  \<open>({prefix}flags & VK_PIPELINE_CREATE_DERIVATIVE_BIT) && ({prefix}basePipelineIndex == -1)\<close>.\<close>

datatype vcond = CountAndPtr cexpr cexpr | NonNull cexpr | Derivative "pstep list"

text \<open>Statements of a \<open>PreCallValidate\<close> body:
  \<^item> \<open>ValidateObject e t nullAllowed paramVUID parentVUID l\<close> is
    \<open>skip |= ValidateObject(e, t, nullAllowed, paramVUID, parentVUID, l);\<close>
  \<^item> \<open>VIf c body\<close> is \<open>if (c) { body }\<close>
  \<^item> \<open>VFor k e body\<close> is \<open>for (uint32_t index<k> = 0; index<k> < e; ++index<k>) { body }\<close>
  \<^item> \<open>DeclLocation v l\<close> is \<open>const Location v = l;\<close>
  \<^item> \<open>ValidateDestroyObject n t allocator compat null\<close> is
    \<open>skip |= ValidateDestroyObject(n, t, allocator, compat, null, error_obj.location);\<close>\<close>

datatype vstmt =
    ValidateObject cexpr string bool string string loc
  | VIf vcond "vstmt list"
  | VFor nat cexpr "vstmt list"
  | DeclLocation locvar loc
  | ValidateDestroyObject string string string string string

section \<open>validateObjects\<close>

definition parent_exception_list :: "string list" where
  "parent_exception_list =
     [''VkPhysicalDevice'', ''VkSwapchainKHR'', ''VkDisplayKHR'', ''VkSurfaceKHR'',
      ''VkDisplayModeKHR'', ''VkDebugReportCallbackEXT'', ''VkDebugUtilsMessengerEXT'']"

text \<open>\<open>kVulkanObjectType{type[2:]}\<close>.\<close>

definition kVulkanObjectType :: "string \<Rightarrow> string" where
  "kVulkanObjectType t = ''kVulkanObjectType'' @ drop 2 t"

text \<open>Lines 409-410 (and again 430-431): the name used in the identifiers is the alias of the
  command \<open>parentName\<close> when it is a command with a non-empty alias, else \<open>parentName\<close>.\<close>

definition vuid_parent :: "Generator \<Rightarrow> string \<Rightarrow> string" where
  "vuid_parent self parentName =
     (case map_of (commands (vk self)) parentName of
        None \<Rightarrow> parentName
      | Some c \<Rightarrow> (if truthy (c_alias c) then the (c_alias c) else parentName))"

text \<open>Lines 401-406.\<close>

definition nullAllowed_of :: "Member \<Rightarrow> bool" where
  "nullAllowed_of member =
     (if m_noAutoValidity member then True
      else if truthy (m_length member) then m_optionalPointer member
      else m_optional member)"

text \<open>Lines 411-413.\<close>

definition paramVUID_of :: "Generator \<Rightarrow> string \<Rightarrow> Member \<Rightarrow> string" where
  "paramVUID_of self parentName member =
     (let vuid_string = ''VUID-'' @ vuid_parent self parentName @ ''-'' @ m_name member @ ''-parameter''
      in if vuid_string \<in> valid_vuids self then quoted vuid_string else kVUIDUndefined)"

text \<open>Lines 418-445. \<open>members\<close> is the list being walked and is not empty here (the code runs
  inside the loop over it), so \<open>members[0]\<close> is \<open>hd members\<close>.\<close>

definition parentVUID_of :: "Generator \<Rightarrow> Member list \<Rightarrow> string \<Rightarrow> string \<Rightarrow> Member \<Rightarrow> string" where
  "parentVUID_of self members parentName topCommand member =
     (if m_type member \<notin> set parent_exception_list \<and> member \<noteq> hd members then
        (if m_type (hd members) = ''VkDevice'' then
           getVUID self (valid_vuids self)
             (''VUID-'' @ vuid_parent self parentName @ ''-'' @ m_name member @ ''-parent'')
         else if length (filter (\<lambda>x. in_dict (m_type x) (handles (vk self))) members) > 1 then
           getVUID self (valid_vuids self) (''VUID-'' @ vuid_parent self parentName @ ''-commonparent'')
         else if topCommand \<noteq> parentName then
           (if topCommand = ''vkCreateImageView'' \<and> m_name member = ''image''
            then quoted ''VUID-vkCreateImageView-image-09179'' else kVUIDUndefined)
         else kVUIDUndefined)
      else kVUIDUndefined)"

text \<open>Lines 400-463: the text emitted for a member whose type is a handle.\<close>

definition validateHandle ::
  "Generator \<Rightarrow> Member list \<Rightarrow> pstep list \<Rightarrow> nat \<Rightarrow> string \<Rightarrow> string \<Rightarrow> locvar \<Rightarrow> Member \<Rightarrow> vstmt list" where
  "validateHandle self members prefix index parentName topCommand errorLoc member =
     (let nullAllowed = nullAllowed_of member;
          paramVUID = paramVUID_of self parentName member;
          parentVUID = parentVUID_of self members parentName topCommand member
      in if truthy (m_length member) then
           [VIf (CountAndPtr (CVar prefix (the (m_length member))) (CVar prefix (m_name member)))
              [VFor index (CVar prefix (the (m_length member)))
                 [ValidateObject (CIdx prefix (m_name member) index) (kVulkanObjectType (m_type member))
                    nullAllowed paramVUID parentVUID (LDotIdx errorLoc (m_name member) index)]]]
         else if str_in ''basePipelineHandle'' (m_name member) then
           [VIf (Derivative prefix)
              [ValidateObject (CVar prefix (m_name member)) (kVulkanObjectType (m_type member)) False
                 (case map_of manual_vuids (parentName @ ''-'' @ m_name member) of
                    None \<Rightarrow> kVUIDUndefined | Some v \<Rightarrow> v)
                 parentVUID (LVar ErrorObjLocation)]]
         else
           [ValidateObject (CVar prefix (m_name member)) (kVulkanObjectType (m_type member))
              nullAllowed paramVUID parentVUID (LDot errorLoc (m_name member))])"

text \<open>Concatenation of the text of the loop iterations; the first exception ends the loop.\<close>

fun concat_results :: "(error + 'a list) list \<Rightarrow> error + 'a list" where
  "concat_results [] = Inr []"
| "concat_results (Inl e # rs) = Inl e"
| "concat_results (Inr x # rs) = (case concat_results rs of Inl e \<Rightarrow> Inl e | Inr y \<Rightarrow> Inr (x @ y))"

text \<open>Lines 466-506: the three shapes of a member struct that contains a handle, around the
  text \<open>body\<close> that the recursive call returned for its members.\<close>

definition wrapStruct :: "pstep list \<Rightarrow> nat \<Rightarrow> locvar \<Rightarrow> Member \<Rightarrow> vstmt list \<Rightarrow> vstmt list" where
  "wrapStruct prefix index errorLoc member body =
     (if m_length member \<noteq> None then
        [VIf (NonNull (CVar prefix (m_name member)))
           [VFor index (CVar prefix (the (m_length member)))
              (DeclLocation (IndexLoc index) (LDotIdx errorLoc (m_name member) index) # body)]]
      else if m_pointer member then
        [VIf (NonNull (CVar prefix (m_name member)))
           (DeclLocation (MemberLoc (m_name member)) (LDot errorLoc (m_name member)) # body)]
      else
        DeclLocation (MemberLoc (m_name member)) (LDot errorLoc (m_name member)) # body)"

definition structPrefix :: "pstep list \<Rightarrow> nat \<Rightarrow> Member \<Rightarrow> pstep list" where
  "structPrefix prefix index member =
     (if m_length member \<noteq> None then prefix @ [PIdx (m_name member) index]
      else if m_pointer member then prefix @ [PArrow (m_name member)]
      else prefix @ [PDot (m_name member)])"

definition structLoc :: "nat \<Rightarrow> Member \<Rightarrow> locvar" where
  "structLoc index member =
     (if m_length member \<noteq> None then IndexLoc index else MemberLoc (m_name member))"

text \<open>\<open>validateObjects\<close> (lines 391-507). \<open>validateMember\<close> is the body of its \<open>for member in
  members\<close> loop. \<open>arrayIndex\<close> is the value on entry: the loop variable is \<open>index<arrayIndex>\<close>
  and the recursive calls receive \<open>arrayIndex + 1\<close>. A recursive call spends one unit of
  fuel; a struct that contains itself through a handle-bearing member recurses without end
  in Python.\<close>

fun validateObjects ::
  "nat \<Rightarrow> Generator \<Rightarrow> Member list \<Rightarrow> pstep list \<Rightarrow> nat \<Rightarrow> string \<Rightarrow> string \<Rightarrow> locvar \<Rightarrow> bool
     \<Rightarrow> error + vstmt list"
and validateMember ::
  "nat \<Rightarrow> Generator \<Rightarrow> Member list \<Rightarrow> pstep list \<Rightarrow> nat \<Rightarrow> string \<Rightarrow> string \<Rightarrow> locvar \<Rightarrow> bool
     \<Rightarrow> Member \<Rightarrow> error + vstmt list"
where
  "validateObjects fuel self members prefix arrayIndex parentName topCommand errorLoc isTopLevelCreate =
     concat_results
       (map (validateMember fuel self members prefix arrayIndex parentName topCommand errorLoc
               isTopLevelCreate) members)"
| "validateMember fuel self members prefix arrayIndex parentName topCommand errorLoc isTopLevelCreate member =
     (if isTopLevelCreate \<and> member = last members then Inr []
      else if in_dict (m_type member) (handles (vk self)) then
        Inr (validateHandle self members prefix arrayIndex parentName topCommand errorLoc member)
      else
        (case map_of (structs (vk self)) (m_type member) of
           None \<Rightarrow> Inr []
         | Some struct \<Rightarrow>
             (case structContainsObject fuel (vk self) struct of
                Inl e \<Rightarrow> Inl e
              | Inr False \<Rightarrow> Inr []
              | Inr True \<Rightarrow>
                  (case fuel of
                     0 \<Rightarrow> Inl RecursionError
                   | Suc n \<Rightarrow>
                       (case validateObjects n self (s_members struct)
                               (structPrefix prefix arrayIndex member) (Suc arrayIndex)
                               (m_type member) topCommand (structLoc arrayIndex member) False of
                          Inl e \<Rightarrow> Inl e
                        | Inr body \<Rightarrow> Inr (wrapStruct prefix arrayIndex errorLoc member body))))))"

section \<open>The emitted recording code\<close>

text \<open>Statements of the \<open>PreCallRecord\<close> and \<open>PostCallRecord\<close> bodies:
  \<^item> \<open>ReturnIfFailure [c1, ..., cn]\<close> is
    \<open>if (record_obj.result != c1 && ... && record_obj.result != cn) return;\<close>
  \<^item> \<open>ReturnIfResult c\<close> is \<open>if (c == record_obj.result) return;\<close>
  \<^item> \<open>RIf n body\<close> is \<open>if (n) { body }\<close>
  \<^item> \<open>RFor cnt body\<close> is \<open>for (uint32_t index = 0; index < cnt; index++) { body }\<close>, where
    \<open>cnt\<close> is \<open>n\<close> (\<open>Count n\<close>) or \<open>*n\<close> (\<open>CountDeref n\<close>)
  \<^item> \<open>ContinueIfNull n\<close> is \<open>if (!n[index]) continue;\<close> and \<open>BreakIfNull n\<close> is
    \<open>if (!n[index]) break;\<close>
  \<^item> \<open>CreateObject d t a\<close> is \<open>CreateObject(d, t, a);\<close> where \<open>d\<close> is \<open>n[index]\<close>
    (\<open>DestIdx n\<close>) or \<open>*n\<close> (\<open>DestDeref n\<close>)
  \<^item> \<open>RecordDestroyObject n t\<close> is \<open>RecordDestroyObject(n, t);\<close>
  \<^item> \<open>DeviceGroups last cnt first\<close> is the block of lines 556-561: under \<open>if (last)\<close>, for
    \<open>device_group_index\<close> below \<open>*cnt\<close>, the call of \<open>PostCallRecordEnumeratePhysicalDevices\<close>
    on \<open>first\<close>, \<open>&last[device_group_index].physicalDeviceCount\<close> and
    \<open>last[device_group_index].physicalDevices\<close> with a \<open>VK_SUCCESS\<close> record object.\<close>

datatype rcount = Count string | CountDeref string

datatype rdest = DestIdx string | DestDeref string

datatype rstmt =
    ReturnIfFailure "string list"
  | ReturnIfResult string
  | RIf string "rstmt list"
  | RFor rcount "rstmt list"
  | ContinueIfNull string
  | BreakIfNull string
  | CreateObject rdest string string
  | RecordDestroyObject string string
  | DeviceGroups string string string

section \<open>generateFunctionBody\<close>

definition and_then :: "error + 'a \<Rightarrow> ('a \<Rightarrow> error + 'b) \<Rightarrow> error + 'b" where
  "and_then r f = (case r of Inl e \<Rightarrow> Inl e | Inr x \<Rightarrow> f x)"

text \<open>Line 516. \<open>command.params[-1]\<close> is read only when no name pattern matched and the name
  contains \<open>vkGet\<close>.\<close>

definition isCreate_of :: "Command \<Rightarrow> error + bool" where
  "isCreate_of command =
     (if list_ex (\<lambda>x. str_in x (c_name command))
           [''Create'', ''Allocate'', ''Enumerate'', ''RegisterDeviceEvent'', ''RegisterDisplayEvent'',
            ''AcquirePerformanceConfigurationINTEL'']
      then Inr True
      else if str_in ''vkGet'' (c_name command)
      then and_then (last_item (c_params command)) (\<lambda>p. Inr (m_pointer p))
      else Inr False)"

text \<open>Line 517.\<close>

definition isDestroy_of :: "Command \<Rightarrow> bool" where
  "isDestroy_of command =
     list_ex (\<lambda>x. str_in x (c_name command))
       [''Destroy'', ''Free'', ''ReleasePerformanceConfigurationINTEL'']"

text \<open>Line 524 (and the same test at line 352).\<close>

definition isCreatePipelines_of :: "Command \<Rightarrow> bool" where
  "isCreatePipelines_of command =
     (str_in ''CreateGraphicsPipelines'' (c_name command)
      \<or> str_in ''CreateComputePipelines'' (c_name command)
      \<or> str_in ''CreateRayTracingPipelines'' (c_name command))"

text \<open>Lines 523-561: the text added to \<open>post_call_record\<close> when \<open>isCreate\<close> holds.
  \<open>command.params[-2]\<close> is read on every path through the handle branch (line 546) and in the
  device-group branch. \<open>objectArray\<close> is \<open>command.params[-1].length is not None\<close>: the
  \<open>Some\<close> case below.\<close>

definition createRecord :: "Generator \<Rightarrow> Command \<Rightarrow> error + rstmt list" where
  "createRecord self command =
     and_then (last_item (c_params command)) (\<lambda>lastp.
       let handle_type = m_type lastp;
           isCreatePipelines = isCreatePipelines_of command;
           isCreateShaders = str_in ''CreateShaders'' (c_name command)
       in if in_dict handle_type (handles (vk self)) then
            and_then (second_last_item (c_params command)) (\<lambda>sl.
              let allocator = (if m_type sl = ''VkAllocationCallbacks'' then m_name sl else ''nullptr'');
                  inner = (\<lambda>objectDest.
                             (if isCreatePipelines then [ContinueIfNull ''pPipelines'']
                              else if isCreateShaders then [BreakIfNull ''pShaders'']
                              else [])
                             @ [CreateObject objectDest (kVulkanObjectType handle_type) allocator])
              in Inr (case m_length lastp of
                        Some len \<Rightarrow>
                          (if isCreatePipelines
                           then [ReturnIfResult ''VK_ERROR_VALIDATION_FAILED_EXT''] else [])
                          @ [RIf (m_name lastp)
                               [RFor (if m_type sl = ''uint32_t'' \<and> m_pointer sl
                                      then CountDeref len else Count len)
                                  (inner (DestIdx (m_name lastp)))]]
                      | None \<Rightarrow> inner (DestDeref (m_name lastp))))
          else if handle_type = ''VkPhysicalDeviceGroupProperties'' then
            and_then (second_last_item (c_params command)) (\<lambda>sl.
              Inr [DeviceGroups (m_name lastp) (m_name sl) (m_name (hd (c_params command)))])
          else Inr [])"

text \<open>Lines 563-573: the text added to \<open>pre_call_validate\<close> and to \<open>pre_call_record\<close> when
  \<open>isDestroy\<close> holds.\<close>

definition destroyPart :: "Generator \<Rightarrow> Command \<Rightarrow> error + (vstmt list \<times> rstmt list)" where
  "destroyPart self command =
     and_then (if str_in ''ReleasePerformanceConfigurationINTEL'' (c_name command)
               then last_item (c_params command) else second_last_item (c_params command))
       (\<lambda>handle_param.
          let allocator = (if str_in ''ReleasePerformanceConfigurationINTEL'' (c_name command)
                           then ''nullptr'' else ''pAllocator'');
              compatallocVUID = getAllocVUID self handle_param ''compatalloc'';
              nullallocVUID = getAllocVUID self handle_param ''nullalloc''
          in Inr (if in_dict (m_type handle_param) (handles (vk self)) then
                    ([ValidateDestroyObject (m_name handle_param) (kVulkanObjectType (m_type handle_param))
                        allocator compatallocVUID nullallocVUID],
                     [RecordDestroyObject (m_name handle_param) (kVulkanObjectType (m_type handle_param))])
                  else ([], [])))"

text \<open>\<open>generateFunctionBody\<close> returns \<open>(pre_call_validate, pre_call_record, post_call_record)\<close>.\<close>

definition generateFunctionBody ::
  "nat \<Rightarrow> Generator \<Rightarrow> Command \<Rightarrow> error + (vstmt list \<times> rstmt list \<times> rstmt list)" where
  "generateFunctionBody fuel self command =
     and_then (isCreate_of command) (\<lambda>isCreate.
     and_then (validateObjects fuel self (c_params command) [] 0 (c_name command) (c_name command)
                 ErrorObjLocation isCreate) (\<lambda>validate.
     and_then (if isCreate then createRecord self command else Inr []) (\<lambda>post_call_record.
     and_then (if isDestroy_of command then destroyPart self command else Inr ([], [])) (\<lambda>d.
       Inr (validate @ fst d, snd d, post_call_record)))))"

section \<open>generateSource\<close>

text \<open>Lines 344-353: the codes compared in \<open>failureCondition\<close>, and the early return put at
  the head of \<open>PostCallRecord\<close>.\<close>

definition failureCondition :: "Command \<Rightarrow> string list" where
  "failureCondition command =
     [''VK_SUCCESS'']
     @ (if str_in ''EnumeratePhysicalDeviceGroups'' (c_name command) then [''VK_INCOMPLETE''] else [])
     @ (if str_in ''CreateShadersEXT'' (c_name command)
        then [''VK_ERROR_INCOMPATIBLE_SHADER_BINARY_EXT''] else [])"

definition successGate :: "Command \<Rightarrow> rstmt list" where
  "successGate command =
     (if c_returnType command = ''VkResult'' \<and> \<not> isCreatePipelines_of command
      then [ReturnIfFailure (failureCondition command)] else [])"

text \<open>The three functions emitted for one command (lines 318-357); a function is emitted
  only when its text is not empty.\<close>

record CommandSource =
  PreCallValidate :: "vstmt list option"
  PreCallRecord :: "rstmt list option"
  PostCallRecord :: "rstmt list option"

definition generateCommand :: "nat \<Rightarrow> Generator \<Rightarrow> Command \<Rightarrow> error + CommandSource" where
  "generateCommand fuel self command =
     and_then (generateFunctionBody fuel self command) (\<lambda>(pre_call_validate, pre_call_record, post_call_record).
       Inr \<lparr> PreCallValidate = (if pre_call_validate \<noteq> [] then Some pre_call_validate else None),
             PreCallRecord = (if pre_call_record \<noteq> [] then Some pre_call_record else None),
             PostCallRecord = (if post_call_record \<noteq> []
                               then Some (successGate command @ post_call_record) else None) \<rparr>)"

text \<open>Lines 271-312. A line of a \<open>ReportUndestroyed...Objects\<close> body is either the call
  \<open>skip |= ReportLeaked...Objects(..., t, error_code, loc);\<close> or that call commented out.\<close>

datatype leakline = ReportLeaked string | CommentedOut string

record LeakReport =
  error_code :: string
  report_lines :: "leakline list"

fun map_results :: "('a \<Rightarrow> error + 'b) \<Rightarrow> 'a list \<Rightarrow> error + 'b list" where
  "map_results f [] = Inr []"
| "map_results f (x # xs) =
     (case f x of Inl e \<Rightarrow> Inl e
      | Inr y \<Rightarrow> (case map_results f xs of Inl e \<Rightarrow> Inl e | Inr ys \<Rightarrow> Inr (y # ys)))"

definition reportLine :: "Generator \<Rightarrow> string \<Rightarrow> error + leakline" where
  "reportLine self handleName =
     and_then (IsImplicitlyDestroyed (targetApiName self) handleName) (\<lambda>implicit.
       Inr (if implicit then CommentedOut (kVulkanObjectType handleName)
            else ReportLeaked (kVulkanObjectType handleName)))"

definition instanceHandles :: "Generator \<Rightarrow> Handle list" where
  "instanceHandles self =
     filter (\<lambda>x. \<not> h_dispatchable x \<and> \<not> isParentDevice x) (map snd (handles (vk self)))"

definition deviceHandles :: "Generator \<Rightarrow> Handle list" where
  "deviceHandles self =
     filter (\<lambda>x. \<not> h_dispatchable x \<and> isParentDevice x) (map snd (handles (vk self)))"

record SourceFile =
  ReportUndestroyedInstanceObjects :: LeakReport
  ReportUndestroyedDeviceObjects :: LeakReport
  DestroyLeakedInstanceObjects :: "string list"
  DestroyLeakedDeviceObjects :: "string list"
  command_sources :: "(string \<times> CommandSource) list"

definition generateSource :: "nat \<Rightarrow> Generator \<Rightarrow> error + SourceFile" where
  "generateSource fuel self =
     and_then (getUndestroyedObjectVUID (targetApiName self) ''instance'') (\<lambda>instance_code.
     and_then (map_results (\<lambda>h. reportLine self (h_name h)) (instanceHandles self)) (\<lambda>instance_lines.
     and_then (getUndestroyedObjectVUID (targetApiName self) ''device'') (\<lambda>device_code.
     and_then (reportLine self ''VkCommandBuffer'') (\<lambda>command_buffer_line.
     and_then (map_results (\<lambda>h. reportLine self (h_name h)) (deviceHandles self)) (\<lambda>device_lines.
     and_then (map_results (\<lambda>c. and_then (generateCommand fuel self c) (\<lambda>src. Inr (c_name c, src)))
                 (filter (\<lambda>x. c_name x \<notin> set no_autogen_list) (map snd (commands (vk self)))))
       (\<lambda>cmds.
         Inr \<lparr> ReportUndestroyedInstanceObjects =
                 \<lparr> error_code = instance_code, report_lines = instance_lines \<rparr>,
               ReportUndestroyedDeviceObjects =
                 \<lparr> error_code = device_code, report_lines = command_buffer_line # device_lines \<rparr>,
               DestroyLeakedInstanceObjects =
                 map (\<lambda>h. kVulkanObjectType (h_name h)) (instanceHandles self),
               DestroyLeakedDeviceObjects =
                 kVulkanObjectType ''VkCommandBuffer''
                 # map (\<lambda>h. kVulkanObjectType (h_name h)) (deviceHandles self),
               command_sources = cmds \<rparr>))))))"

section \<open>Running the emitted code\<close>

text \<open>The values that the arguments of an intercepted call hold at run time. A handle is an
  opaque integer and \<open>0\<close> is \<open>VK_NULL_HANDLE\<close>; \<open>uint32_t\<close> and \<open>int32_t\<close> are 32-bit words
  (\<open>-1\<close> is the word of all ones); \<open>VNull\<close> is a null pointer, \<open>VPtr v\<close> a pointer to one
  object, \<open>VArray xs\<close> an array (a pointer to its first element, or an array member);
  a struct is the list of its fields. The arguments of the call are the fields of the root
  struct.\<close>

datatype rval =
    VNull
  | VHandle nat
  | VU32 "32 word"
  | VI32 "32 word"
  | VPtr rval
  | VArray "rval list"
  | VStruct "(string \<times> rval) list"

text \<open>Reading an expression of the emitted code. \<open>None\<close> stands for text that does not
  compile against the arguments (no such field, wrong kind of value) or that reads through
  a null pointer or past the end of an array.\<close>

fun field :: "rval \<Rightarrow> string \<Rightarrow> rval option" where
  "field (VStruct fs) n = map_of fs n"
| "field VNull n = None"
| "field (VHandle h) n = None"
| "field (VU32 w) n = None"
| "field (VI32 w) n = None"
| "field (VPtr v) n = None"
| "field (VArray xs) n = None"

fun element :: "rval option \<Rightarrow> nat \<Rightarrow> rval option" where
  "element (Some (VArray xs)) i = (if i < length xs then Some (xs ! i) else None)"
| "element (Some VNull) i = None"
| "element (Some (VHandle h)) i = None"
| "element (Some (VU32 w)) i = None"
| "element (Some (VI32 w)) i = None"
| "element (Some (VPtr v)) i = None"
| "element (Some (VStruct fs)) i = None"
| "element None i = None"

fun pointee :: "rval option \<Rightarrow> rval option" where
  "pointee (Some (VPtr v)) = Some v"
| "pointee (Some VNull) = None"
| "pointee (Some (VHandle h)) = None"
| "pointee (Some (VU32 w)) = None"
| "pointee (Some (VI32 w)) = None"
| "pointee (Some (VArray xs)) = None"
| "pointee (Some (VStruct fs)) = None"
| "pointee None = None"

text \<open>\<open>if (p)\<close> on a pointer.\<close>

fun non_null :: "rval option \<Rightarrow> bool option" where
  "non_null (Some VNull) = Some False"
| "non_null (Some (VPtr v)) = Some True"
| "non_null (Some (VArray xs)) = Some True"
| "non_null (Some (VHandle h)) = None"
| "non_null (Some (VU32 w)) = None"
| "non_null (Some (VI32 w)) = None"
| "non_null (Some (VStruct fs)) = None"
| "non_null None = None"

fun as_u32 :: "rval option \<Rightarrow> 32 word option" where
  "as_u32 (Some (VU32 w)) = Some w"
| "as_u32 (Some VNull) = None"
| "as_u32 (Some (VHandle h)) = None"
| "as_u32 (Some (VI32 w)) = None"
| "as_u32 (Some (VPtr v)) = None"
| "as_u32 (Some (VArray xs)) = None"
| "as_u32 (Some (VStruct fs)) = None"
| "as_u32 None = None"

fun as_i32 :: "rval option \<Rightarrow> 32 word option" where
  "as_i32 (Some (VI32 w)) = Some w"
| "as_i32 (Some VNull) = None"
| "as_i32 (Some (VHandle h)) = None"
| "as_i32 (Some (VU32 w)) = None"
| "as_i32 (Some (VPtr v)) = None"
| "as_i32 (Some (VArray xs)) = None"
| "as_i32 (Some (VStruct fs)) = None"
| "as_i32 None = None"

fun as_handle :: "rval option \<Rightarrow> nat option" where
  "as_handle (Some (VHandle h)) = Some h"
| "as_handle (Some VNull) = None"
| "as_handle (Some (VU32 w)) = None"
| "as_handle (Some (VI32 w)) = None"
| "as_handle (Some (VPtr v)) = None"
| "as_handle (Some (VArray xs)) = None"
| "as_handle (Some (VStruct fs)) = None"
| "as_handle None = None"

text \<open>The scope that a prefix denotes, from the root; \<open>ix k\<close> is the current value of the
  loop variable \<open>index<k>\<close>.\<close>

fun resolve :: "(nat \<Rightarrow> nat) \<Rightarrow> rval \<Rightarrow> pstep list \<Rightarrow> rval option" where
  "resolve ix scope [] = Some scope"
| "resolve ix scope (PIdx n k # ps) =
     (case element (field scope n) (ix k) of None \<Rightarrow> None | Some v \<Rightarrow> resolve ix v ps)"
| "resolve ix scope (PArrow n # ps) =
     (case pointee (field scope n) of None \<Rightarrow> None | Some v \<Rightarrow> resolve ix v ps)"
| "resolve ix scope (PDot n # ps) =
     (case field scope n of None \<Rightarrow> None | Some v \<Rightarrow> resolve ix v ps)"

fun eval :: "(nat \<Rightarrow> nat) \<Rightarrow> rval \<Rightarrow> cexpr \<Rightarrow> rval option" where
  "eval ix root (CVar p n) = (case resolve ix root p of None \<Rightarrow> None | Some sc \<Rightarrow> field sc n)"
| "eval ix root (CIdx p n k) =
     (case resolve ix root p of None \<Rightarrow> None | Some sc \<Rightarrow> element (field sc n) (ix k))"

text \<open>The conditions. \<open>&&\<close> evaluates its right operand only when the left one holds.
  \<open>derivative_bit\<close> is the value of \<open>VK_PIPELINE_CREATE_DERIVATIVE_BIT\<close>, a constant of the
  Vulkan headers.\<close>

fun eval_cond :: "32 word \<Rightarrow> (nat \<Rightarrow> nat) \<Rightarrow> rval \<Rightarrow> vcond \<Rightarrow> bool option" where
  "eval_cond derivative_bit ix root (CountAndPtr c p) =
     (case as_u32 (eval ix root c) of
        None \<Rightarrow> None
      | Some n \<Rightarrow> if n > 0 then non_null (eval ix root p) else Some False)"
| "eval_cond derivative_bit ix root (NonNull p) = non_null (eval ix root p)"
| "eval_cond derivative_bit ix root (Derivative prefix) =
     (case as_u32 (eval ix root (CVar prefix ''flags'')) of
        None \<Rightarrow> None
      | Some flags \<Rightarrow>
          if and flags derivative_bit \<noteq> 0 then
            (case as_i32 (eval ix root (CVar prefix ''basePipelineIndex'')) of
               None \<Rightarrow> None
             | Some i \<Rightarrow> Some (i = - 1))
          else Some False)"

text \<open>A run of a \<open>PreCallValidate\<close> body is described by the calls it makes, in order, with
  the values of their arguments: \<open>skip\<close> is the disjunction of what these calls return.\<close>

datatype vcall =
    CallValidateObject rval string bool string string loc
  | CallValidateDestroyObject rval string rval string string

fun concat_opt :: "'a list option list \<Rightarrow> 'a list option" where
  "concat_opt [] = Some []"
| "concat_opt (None # rs) = None"
| "concat_opt (Some x # rs) = (case concat_opt rs of None \<Rightarrow> None | Some y \<Rightarrow> Some (x @ y))"

text \<open>The value of an allocator argument: the literal \<open>nullptr\<close> or a parameter.\<close>

definition allocator_value :: "rval \<Rightarrow> string \<Rightarrow> rval option" where
  "allocator_value root a =
     (if a = ''nullptr'' then Some VNull
      else (case non_null (field root a) of None \<Rightarrow> None | Some b \<Rightarrow> field root a))"

fun exec_v :: "32 word \<Rightarrow> (nat \<Rightarrow> nat) \<Rightarrow> rval \<Rightarrow> vstmt \<Rightarrow> vcall list option" where
  "exec_v db ix root (ValidateObject e t nullAllowed paramVUID parentVUID l) =
     (case eval ix root e of
        Some (VHandle h) \<Rightarrow> Some [CallValidateObject (VHandle h) t nullAllowed paramVUID parentVUID l]
      | _ \<Rightarrow> None)"
| "exec_v db ix root (VIf c body) =
     (case eval_cond db ix root c of
        None \<Rightarrow> None
      | Some False \<Rightarrow> Some []
      | Some True \<Rightarrow> concat_opt (map (exec_v db ix root) body))"
| "exec_v db ix root (VFor k e body) =
     (case as_u32 (eval ix root e) of
        None \<Rightarrow> None
      | Some n \<Rightarrow>
          concat_opt (map (\<lambda>i. concat_opt (map (exec_v db (ix(k := i)) root) body)) [0..<unat n]))"
| "exec_v db ix root (DeclLocation v l) = Some []"
| "exec_v db ix root (ValidateDestroyObject n t allocator compatVUID nullVUID) =
     (case (field root n, allocator_value root allocator) of
        (Some (VHandle h), Some a) \<Rightarrow> Some [CallValidateDestroyObject (VHandle h) t a compatVUID nullVUID]
      | _ \<Rightarrow> None)"

definition run_validate :: "32 word \<Rightarrow> rval \<Rightarrow> vstmt list \<Rightarrow> vcall list option" where
  "run_validate db root body = concat_opt (map (exec_v db (\<lambda>k. 0) root) body)"

text \<open>The recording code changes the registry only through \<open>CreateObject\<close>,
  \<open>RecordDestroyObject\<close> and the hand-written \<open>PostCallRecordEnumeratePhysicalDevices\<close>, none
  of which is part of this file: they are parameters over an arbitrary registry type.\<close>

record 'r Externals =
  createObject :: "nat \<Rightarrow> string \<Rightarrow> rval \<Rightarrow> 'r \<Rightarrow> 'r"
  recordDestroyObject :: "nat \<Rightarrow> string \<Rightarrow> 'r \<Rightarrow> 'r"
  enumeratePhysicalDevices :: "rval \<Rightarrow> rval \<Rightarrow> rval \<Rightarrow> 'r \<Rightarrow> 'r"

datatype signal = Normal | Break | Continue | Return

text \<open>Statements in sequence: anything but normal completion ends the sequence.\<close>

fun seq_exec :: "('s \<Rightarrow> (signal \<times> 's) option) list \<Rightarrow> 's \<Rightarrow> (signal \<times> 's) option" where
  "seq_exec [] s = Some (Normal, s)"
| "seq_exec (f # fs) s =
     (case f s of
        None \<Rightarrow> None
      | Some (Normal, s') \<Rightarrow> seq_exec fs s'
      | Some (sig, s') \<Rightarrow> Some (sig, s'))"

text \<open>\<open>for (uint32_t index = 0; index < n; index++)\<close> over the index values in order:
  \<open>continue\<close> goes to the next index, \<open>break\<close> leaves the loop, \<open>return\<close> leaves the function.\<close>

fun loop_exec :: "(nat \<Rightarrow> 's \<Rightarrow> (signal \<times> 's) option) \<Rightarrow> nat list \<Rightarrow> 's \<Rightarrow> (signal \<times> 's) option" where
  "loop_exec body [] s = Some (Normal, s)"
| "loop_exec body (i # is) s =
     (case body i s of
        None \<Rightarrow> None
      | Some (Normal, s') \<Rightarrow> loop_exec body is s'
      | Some (Continue, s') \<Rightarrow> loop_exec body is s'
      | Some (Break, s') \<Rightarrow> Some (Normal, s')
      | Some (Return, s') \<Rightarrow> Some (Return, s'))"

fun count_value :: "rval \<Rightarrow> rcount \<Rightarrow> 32 word option" where
  "count_value root (Count n) = as_u32 (field root n)"
| "count_value root (CountDeref n) = as_u32 (pointee (field root n))"

text \<open>One device group of lines 556-561: the call receives the first argument, the address of
  the group's \<open>physicalDeviceCount\<close> and its \<open>physicalDevices\<close> array.\<close>

definition device_group_step :: "'r Externals \<Rightarrow> rval \<Rightarrow> rval option \<Rightarrow> 'r \<Rightarrow> (signal \<times> 'r) option" where
  "device_group_step ext first g reg =
     (case (g, as_u32 (case g of None \<Rightarrow> None | Some gv \<Rightarrow> field gv ''physicalDeviceCount''),
            non_null (case g of None \<Rightarrow> None | Some gv \<Rightarrow> field gv ''physicalDevices'')) of
        (Some gv, Some c, Some True) \<Rightarrow>
          Some (Normal, enumeratePhysicalDevices ext first (VPtr (VU32 c))
                          (the (field gv ''physicalDevices'')) reg)
      | _ \<Rightarrow> None)"

text \<open>\<open>exec_r ext result root index\<close>: one statement of a recording body, where \<open>result\<close> is the
  name of the code held by \<open>record_obj.result\<close> and \<open>index\<close> the value of the loop variable
  when inside the \<open>for\<close> loop.\<close>

fun exec_r :: "'r Externals \<Rightarrow> string \<Rightarrow> rval \<Rightarrow> nat option \<Rightarrow> rstmt \<Rightarrow> 'r \<Rightarrow> (signal \<times> 'r) option" where
  "exec_r ext result root index (ReturnIfFailure codes) reg =
     (if list_all (\<lambda>c. result \<noteq> c) codes then Some (Return, reg) else Some (Normal, reg))"
| "exec_r ext result root index (ReturnIfResult c) reg =
     (if c = result then Some (Return, reg) else Some (Normal, reg))"
| "exec_r ext result root index (RIf n body) reg =
     (case non_null (field root n) of
        None \<Rightarrow> None
      | Some False \<Rightarrow> Some (Normal, reg)
      | Some True \<Rightarrow> seq_exec (map (exec_r ext result root index) body) reg)"
| "exec_r ext result root index (RFor cnt body) reg =
     (case count_value root cnt of
        None \<Rightarrow> None
      | Some n \<Rightarrow>
          loop_exec (\<lambda>i. seq_exec (map (exec_r ext result root (Some i)) body)) [0..<unat n] reg)"
| "exec_r ext result root index (ContinueIfNull n) reg =
     (case index of
        None \<Rightarrow> None
      | Some i \<Rightarrow>
          (case as_handle (element (field root n) i) of
             None \<Rightarrow> None
           | Some h \<Rightarrow> if h = 0 then Some (Continue, reg) else Some (Normal, reg)))"
| "exec_r ext result root index (BreakIfNull n) reg =
     (case index of
        None \<Rightarrow> None
      | Some i \<Rightarrow>
          (case as_handle (element (field root n) i) of
             None \<Rightarrow> None
           | Some h \<Rightarrow> if h = 0 then Some (Break, reg) else Some (Normal, reg)))"
| "exec_r ext result root index (CreateObject d t a) reg =
     (case (case d of
              DestIdx n \<Rightarrow> (case index of None \<Rightarrow> None | Some i \<Rightarrow> as_handle (element (field root n) i))
            | DestDeref n \<Rightarrow> as_handle (pointee (field root n)),
            allocator_value root a) of
        (Some h, Some av) \<Rightarrow> Some (Normal, createObject ext h t av reg)
      | _ \<Rightarrow> None)"
| "exec_r ext result root index (RecordDestroyObject n t) reg =
     (case as_handle (field root n) of
        None \<Rightarrow> None
      | Some h \<Rightarrow> Some (Normal, recordDestroyObject ext h t reg))"
| "exec_r ext result root index (DeviceGroups lastn cnt first) reg =
     (case non_null (field root lastn) of
        None \<Rightarrow> None
      | Some False \<Rightarrow> Some (Normal, reg)
      | Some True \<Rightarrow>
          (case (as_u32 (pointee (field root cnt)), field root first) of
             (Some n, Some fv) \<Rightarrow>
               loop_exec (\<lambda>i. device_group_step ext fv (element (field root lastn) i)) [0..<unat n] reg
           | _ \<Rightarrow> None))"

text \<open>A whole recording function. \<open>continue\<close> or \<open>break\<close> outside a loop does not compile.\<close>

definition run_record :: "'r Externals \<Rightarrow> string \<Rightarrow> rval \<Rightarrow> rstmt list \<Rightarrow> 'r \<Rightarrow> 'r option" where
  "run_record ext result root body reg =
     (case seq_exec (map (exec_r ext result root None) body) reg of
        Some (Normal, reg') \<Rightarrow> Some reg'
      | Some (Return, reg') \<Rightarrow> Some reg'
      | _ \<Rightarrow> None)"

section \<open>Example inputs\<close>

text \<open>A small registry in the shape of the Vulkan one, used to evaluate the generator on
  concrete commands.\<close>

definition mk_member :: "string \<Rightarrow> string \<Rightarrow> Member" where
  "mk_member n t = \<lparr> m_name = n, m_type = t, m_noAutoValidity = False, m_length = None,
                   m_pointer = False, m_optional = False, m_optionalPointer = False \<rparr>"

definition VkInstance :: Handle where
  "VkInstance = Handle ''VkInstance'' True None"

definition VkPhysicalDevice :: Handle where
  "VkPhysicalDevice = Handle ''VkPhysicalDevice'' True (Some VkInstance)"

definition VkDevice :: Handle where
  "VkDevice = Handle ''VkDevice'' True (Some VkPhysicalDevice)"

definition example_handles :: "(string \<times> Handle) list" where
  "example_handles =
     [(''VkInstance'', VkInstance),
      (''VkPhysicalDevice'', VkPhysicalDevice),
      (''VkDevice'', VkDevice),
      (''VkCommandBuffer'', Handle ''VkCommandBuffer'' True (Some (Handle ''VkCommandPool'' False (Some VkDevice)))),
      (''VkFence'', Handle ''VkFence'' False (Some VkDevice)),
      (''VkBuffer'', Handle ''VkBuffer'' False (Some VkDevice)),
      (''VkPipeline'', Handle ''VkPipeline'' False (Some VkDevice)),
      (''VkPipelineCache'', Handle ''VkPipelineCache'' False (Some VkDevice)),
      (''VkShaderEXT'', Handle ''VkShaderEXT'' False (Some VkDevice)),
      (''VkPerformanceConfigurationINTEL'', Handle ''VkPerformanceConfigurationINTEL'' False (Some VkDevice)),
      (''VkVideoSessionKHR'', Handle ''VkVideoSessionKHR'' False (Some VkDevice)),
      (''VkDeviceMemory'', Handle ''VkDeviceMemory'' False (Some VkDevice)),
      (''VkSurfaceKHR'', Handle ''VkSurfaceKHR'' False (Some VkInstance)),
      (''VkDisplayKHR'', Handle ''VkDisplayKHR'' False (Some VkPhysicalDevice)),
      (''VkShaderModule'', Handle ''VkShaderModule'' False (Some VkDevice)),
      (''VkBufferView'', Handle ''VkBufferView'' False (Some VkDevice))]"

definition example_structs :: "(string \<times> Struct) list" where
  "example_structs =
     [(''VkBufferViewCreateInfo'',
       \<lparr> s_name = ''VkBufferViewCreateInfo'',
          s_members = [mk_member ''sType'' ''VkStructureType'', mk_member ''buffer'' ''VkBuffer''] \<rparr>),
      (''VkGraphicsPipelineCreateInfo'',
       \<lparr> s_name = ''VkGraphicsPipelineCreateInfo'',
          s_members = [mk_member ''sType'' ''VkStructureType'', mk_member ''flags'' ''VkPipelineCreateFlags'',
                       (mk_member ''basePipelineHandle'' ''VkPipeline'')\<lparr> m_optional := True \<rparr>,
                       mk_member ''basePipelineIndex'' ''int32_t''] \<rparr>),
      (''VkPipelineShaderStageCreateInfo'',
       \<lparr> s_name = ''VkPipelineShaderStageCreateInfo'',
          s_members = [mk_member ''sType'' ''VkStructureType'',
                       (mk_member ''module'' ''VkShaderModule'')\<lparr> m_optional := True \<rparr>] \<rparr>),
      (''VkComputePipelineCreateInfo'',
       \<lparr> s_name = ''VkComputePipelineCreateInfo'',
          s_members = [mk_member ''sType'' ''VkStructureType'',
                       mk_member ''stage'' ''VkPipelineShaderStageCreateInfo''] \<rparr>)]"

text \<open>\<open>getVUID\<close> is instantiated with a function that quotes a registered identifier and
  otherwise quotes it with \<open>VUID-\<close> replaced by \<open>UNASSIGNED-\<close>.\<close>

definition example_gen :: Generator where
  "example_gen =
     \<lparr> targetApiName = ''vulkan'',
       valid_vuids = set [''VUID-vkDestroyFence-fence-parameter'', ''VUID-vkDestroyFence-fence-parent'',
                          ''VUID-vkCmdBindPipeline-commonparent''],
       vk = \<lparr> handles = example_handles, structs = example_structs, commands = [] \<rparr>,
       getVUID = (\<lambda>vs v. if v \<in> vs then quoted v else quoted (''UNASSIGNED-'' @ drop 5 v)) \<rparr>"

definition pAllocator :: Member where
  "pAllocator = (mk_member ''pAllocator'' ''VkAllocationCallbacks'')\<lparr> m_pointer := True, m_optional := True \<rparr>"

definition vkCreateFence :: Command where
  "vkCreateFence =
     \<lparr> c_name = ''vkCreateFence'', c_alias = None, c_returnType = ''VkResult'',
       c_params = [mk_member ''device'' ''VkDevice'',
                   (mk_member ''pCreateInfo'' ''VkFenceCreateInfo'')\<lparr> m_pointer := True \<rparr>,
                   pAllocator,
                   (mk_member ''pFence'' ''VkFence'')\<lparr> m_pointer := True \<rparr>] \<rparr>"

definition vkCreateGraphicsPipelines :: Command where
  "vkCreateGraphicsPipelines =
     \<lparr> c_name = ''vkCreateGraphicsPipelines'', c_alias = None, c_returnType = ''VkResult'',
       c_params = [mk_member ''device'' ''VkDevice'',
                   (mk_member ''pipelineCache'' ''VkPipelineCache'')\<lparr> m_optional := True \<rparr>,
                   mk_member ''createInfoCount'' ''uint32_t'',
                   (mk_member ''pCreateInfos'' ''VkGraphicsPipelineCreateInfo'')
                     \<lparr> m_pointer := True, m_length := Some ''createInfoCount'' \<rparr>,
                   pAllocator,
                   (mk_member ''pPipelines'' ''VkPipeline'')
                     \<lparr> m_pointer := True, m_length := Some ''createInfoCount'' \<rparr>] \<rparr>"

definition vkCreateShadersEXT :: Command where
  "vkCreateShadersEXT =
     \<lparr> c_name = ''vkCreateShadersEXT'', c_alias = None, c_returnType = ''VkResult'',
       c_params = [mk_member ''device'' ''VkDevice'',
                   mk_member ''createInfoCount'' ''uint32_t'',
                   (mk_member ''pCreateInfos'' ''VkShaderCreateInfoEXT'')
                     \<lparr> m_pointer := True, m_length := Some ''createInfoCount'' \<rparr>,
                   pAllocator,
                   (mk_member ''pShaders'' ''VkShaderEXT'')
                     \<lparr> m_pointer := True, m_length := Some ''createInfoCount'' \<rparr>] \<rparr>"

definition vkEnumeratePhysicalDeviceGroups :: Command where
  "vkEnumeratePhysicalDeviceGroups =
     \<lparr> c_name = ''vkEnumeratePhysicalDeviceGroups'', c_alias = None, c_returnType = ''VkResult'',
       c_params = [mk_member ''instance'' ''VkInstance'',
                   (mk_member ''pPhysicalDeviceGroupCount'' ''uint32_t'')
                     \<lparr> m_pointer := True, m_optionalPointer := True \<rparr>,
                   (mk_member ''pPhysicalDeviceGroupProperties'' ''VkPhysicalDeviceGroupProperties'')
                     \<lparr> m_pointer := True, m_optional := True,
                       m_length := Some ''pPhysicalDeviceGroupCount'' \<rparr>] \<rparr>"

definition vkCreateComputePipelines :: Command where
  "vkCreateComputePipelines =
     \<lparr> c_name = ''vkCreateComputePipelines'', c_alias = None, c_returnType = ''VkResult'',
       c_params = [mk_member ''device'' ''VkDevice'',
                   (mk_member ''pipelineCache'' ''VkPipelineCache'')\<lparr> m_optional := True \<rparr>,
                   mk_member ''createInfoCount'' ''uint32_t'',
                   (mk_member ''pCreateInfos'' ''VkComputePipelineCreateInfo'')
                     \<lparr> m_pointer := True, m_length := Some ''createInfoCount'' \<rparr>,
                   pAllocator,
                   (mk_member ''pPipelines'' ''VkPipeline'')
                     \<lparr> m_pointer := True, m_length := Some ''createInfoCount'' \<rparr>] \<rparr>"

definition vkCreateBufferView :: Command where
  "vkCreateBufferView =
     \<lparr> c_name = ''vkCreateBufferView'', c_alias = None, c_returnType = ''VkResult'',
       c_params = [mk_member ''device'' ''VkDevice'',
                   (mk_member ''pCreateInfo'' ''VkBufferViewCreateInfo'')\<lparr> m_pointer := True \<rparr>,
                   pAllocator,
                   (mk_member ''pView'' ''VkBufferView'')\<lparr> m_pointer := True \<rparr>] \<rparr>"

definition vkAcquirePerformanceConfigurationINTEL :: Command where
  "vkAcquirePerformanceConfigurationINTEL =
     \<lparr> c_name = ''vkAcquirePerformanceConfigurationINTEL'', c_alias = None, c_returnType = ''VkResult'',
       c_params = [mk_member ''device'' ''VkDevice'',
                   (mk_member ''pAcquireInfo'' ''VkPerformanceConfigurationAcquireInfoINTEL'')
                     \<lparr> m_pointer := True \<rparr>,
                   (mk_member ''pConfiguration'' ''VkPerformanceConfigurationINTEL'')
                     \<lparr> m_pointer := True \<rparr>] \<rparr>"

definition vkCmdBindPipeline :: Command where
  "vkCmdBindPipeline =
     \<lparr> c_name = ''vkCmdBindPipeline'', c_alias = None, c_returnType = ''void'',
       c_params = [mk_member ''commandBuffer'' ''VkCommandBuffer'',
                   mk_member ''pipelineBindPoint'' ''VkPipelineBindPoint'',
                   mk_member ''pipeline'' ''VkPipeline''] \<rparr>"

definition vkDestroySurfaceKHR :: Command where
  "vkDestroySurfaceKHR =
     \<lparr> c_name = ''vkDestroySurfaceKHR'', c_alias = None, c_returnType = ''void'',
       c_params = [mk_member ''instance'' ''VkInstance'',
                   (mk_member ''surface'' ''VkSurfaceKHR'')\<lparr> m_optional := True \<rparr>,
                   pAllocator] \<rparr>"

definition vkWaitForFences :: Command where
  "vkWaitForFences =
     \<lparr> c_name = ''vkWaitForFences'', c_alias = None, c_returnType = ''VkResult'',
       c_params = [mk_member ''device'' ''VkDevice'',
                   mk_member ''fenceCount'' ''uint32_t'',
                   (mk_member ''pFences'' ''VkFence'')\<lparr> m_pointer := True, m_length := Some ''fenceCount'' \<rparr>,
                   mk_member ''waitAll'' ''VkBool32'',
                   mk_member ''timeout'' ''uint64_t''] \<rparr>"

text \<open>A command of the input type that is not in the Vulkan registry: an enumeration, by
  its name, that returns handles in an array.\<close>

definition vkEnumerateDisplaysEXT :: Command where
  "vkEnumerateDisplaysEXT =
     \<lparr> c_name = ''vkEnumerateDisplaysEXT'', c_alias = None, c_returnType = ''VkResult'',
       c_params = [mk_member ''physicalDevice'' ''VkPhysicalDevice'',
                   (mk_member ''pDisplayCount'' ''uint32_t'')
                     \<lparr> m_pointer := True, m_optionalPointer := True \<rparr>,
                   (mk_member ''pDisplays'' ''VkDisplayKHR'')
                     \<lparr> m_pointer := True, m_optional := True, m_length := Some ''pDisplayCount'' \<rparr>] \<rparr>"

text \<open>A registry that is the list of the records created, in order. The hand-written
  \<open>PostCallRecordEnumeratePhysicalDevices\<close> is instantiated with a function that records
  the first \<open>*count\<close> devices of the array.\<close>

definition recorded_devices :: "rval \<Rightarrow> rval \<Rightarrow> (nat \<times> string \<times> rval) list" where
  "recorded_devices cnt devs =
     (case (as_u32 (pointee (Some cnt)), devs) of
        (Some n, VArray xs) \<Rightarrow>
          map (\<lambda>v. (case as_handle (Some v) of Some h \<Rightarrow> h | None \<Rightarrow> 0,
                     ''kVulkanObjectTypePhysicalDevice'', VNull))
              (take (unat n) xs)
      | _ \<Rightarrow> [])"

definition list_registry :: "(nat \<times> string \<times> rval) list Externals" where
  "list_registry =
     \<lparr> createObject = (\<lambda>h t a reg. reg @ [(h, t, a)]),
       recordDestroyObject = (\<lambda>h t reg. filter (\<lambda>r. (fst r, fst (snd r)) \<noteq> (h, t)) reg),
       enumeratePhysicalDevices = (\<lambda>first cnt devs reg. reg @ recorded_devices cnt devs) \<rparr>"

lemmas example_defs =
  example_gen_def example_handles_def example_structs_def mk_member_def pAllocator_def
  VkInstance_def VkPhysicalDevice_def VkDevice_def

lemmas command_defs =
  vkCreateFence_def vkCreateGraphicsPipelines_def vkCreateShadersEXT_def
  vkEnumeratePhysicalDeviceGroups_def vkEnumerateDisplaysEXT_def vkCreateComputePipelines_def
  vkCreateBufferView_def vkAcquirePerformanceConfigurationINTEL_def vkCmdBindPipeline_def
  vkDestroySurfaceKHR_def vkWaitForFences_def

lemmas generator_defs =
  generateCommand_def generateFunctionBody_def and_then_def isCreate_of_def isDestroy_of_def
  createRecord_def destroyPart_def last_item_def second_last_item_def in_dict_def
  validateHandle_def nullAllowed_of_def paramVUID_of_def parentVUID_of_def vuid_parent_def
  kVulkanObjectType_def successGate_def failureCondition_def isCreatePipelines_of_def
  kVUIDUndefined_def parent_exception_list_def getAllocVUID_def
  AreAllocVUIDsEnabled_def structContainsObject_def wrapStruct_def structPrefix_def structLoc_def
  validateObjects.simps validateMember.simps

lemma manual_vuids_lookups:
  "map_of manual_vuids ''fence-compatalloc'' = Some (quoted ''VUID-vkDestroyFence-fence-01121'')"
  "map_of manual_vuids ''fence-nullalloc'' = Some (quoted ''VUID-vkDestroyFence-fence-01122'')"
  "map_of manual_vuids ''videoSession-compatalloc'' = None"
  "map_of manual_vuids ''videoSession-nullalloc'' = None"
  "map_of manual_vuids ''VkVideoSessionKHR-videoSession-compatalloc''
     = Some (quoted ''VUID-vkDestroyVideoSessionKHR-videoSession-07193'')"
  "map_of manual_vuids ''VkVideoSessionKHR-videoSession-nullalloc''
     = Some (quoted ''VUID-vkDestroyVideoSessionKHR-videoSession-07194'')"
  "map_of manual_vuids ''memory-compatalloc'' = None"
  "map_of manual_vuids ''memory-nullalloc'' = None"
  "map_of manual_vuids ''VkDeviceMemory-memory-compatalloc'' = None"
  "map_of manual_vuids ''VkDeviceMemory-memory-nullalloc'' = None"
  "map_of manual_vuids ''configuration-compatalloc'' = None"
  "map_of manual_vuids ''configuration-nullalloc'' = None"
  "map_of manual_vuids ''VkPerformanceConfigurationINTEL-configuration-compatalloc'' = None"
  "map_of manual_vuids ''VkPerformanceConfigurationINTEL-configuration-nullalloc'' = None"
  "map_of manual_vuids ''VkGraphicsPipelineCreateInfo-basePipelineHandle''
     = Some (quoted ''VUID-VkGraphicsPipelineCreateInfo-flags-07984'')"
  by (simp_all only: manual_vuids_def map_of_Cons_code list.inject char.inject list.distinct
        simp_thms if_True if_False)

section \<open>The success gate of PostCallRecord\<close>

lemma successGate_returns:
  "list_all (\<lambda>c. result \<noteq> c) codes \<Longrightarrow>
   run_record ext result root (ReturnIfFailure codes # post) reg = Some reg"
  by (simp add: run_record_def)

lemma PostCallRecord_shape:
  assumes "generateCommand fuel self command = Inr src" and "PostCallRecord src = Some body"
  shows "\<exists>validate pre_record post. generateFunctionBody fuel self command = Inr (validate, pre_record, post)
           \<and> post \<noteq> [] \<and> body = successGate command @ post"
  using assms
  by (auto simp: generateCommand_def and_then_def split: sum.splits prod.splits if_splits)

text \<open>C1. For a command whose return type is \<open>VkResult\<close> and whose name is none of the three
  pipeline creation patterns, the emitted \<open>PostCallRecord\<close> returns with the registry as it
  was whenever the result is not \<open>VK_SUCCESS\<close> (nor \<open>VK_INCOMPLETE\<close> where the name contains
  \<open>EnumeratePhysicalDeviceGroups\<close>, nor \<open>VK_ERROR_INCOMPATIBLE_SHADER_BINARY_EXT\<close> where it
  contains \<open>CreateShadersEXT\<close>): this holds for every argument values \<open>root\<close>, every registry
  and every implementation of \<open>CreateObject\<close>, so no insertion takes place. Only commands
  that create have a \<open>PostCallRecord\<close> at all.\<close>

theorem failed_create_records_nothing:
  assumes "generateCommand fuel self command = Inr src"
    and "PostCallRecord src = Some body"
    and "c_returnType command = ''VkResult''"
    and "\<not> isCreatePipelines_of command"
    and "result \<noteq> ''VK_SUCCESS''"
    and "str_in ''EnumeratePhysicalDeviceGroups'' (c_name command) \<longrightarrow> result \<noteq> ''VK_INCOMPLETE''"
    and "str_in ''CreateShadersEXT'' (c_name command)
           \<longrightarrow> result \<noteq> ''VK_ERROR_INCOMPATIBLE_SHADER_BINARY_EXT''"
  shows "run_record ext result root body reg = Some reg"
proof -
  from PostCallRecord_shape [OF assms(1,2)]
  obtain post where body: "body = successGate command @ post"
    by blast
  have gate: "successGate command = [ReturnIfFailure (failureCondition command)]"
    using assms(3,4) by (simp add: successGate_def)
  have "list_all (\<lambda>c. result \<noteq> c) (failureCondition command)"
    using assms(5,6,7) by (simp add: failureCondition_def)
  then show ?thesis
    unfolding body gate by (simp add: successGate_returns)
qed

lemma vkCreateFence_source:
  "generateCommand 0 example_gen vkCreateFence =
     Inr \<lparr> PreCallValidate =
             Some [ValidateObject (CVar [] ''device'') ''kVulkanObjectTypeDevice'' False
                     ''kVUIDUndefined'' ''kVUIDUndefined'' (LDot ErrorObjLocation ''device'')],
           PreCallRecord = None,
           PostCallRecord =
             Some [ReturnIfFailure [''VK_SUCCESS''],
                   CreateObject (DestDeref ''pFence'') ''kVulkanObjectTypeFence'' ''pAllocator''] \<rparr>"
  by (simp add: generator_defs example_defs vkCreateFence_def)

text \<open>Witness for C1: \<open>vkCreateFence\<close> reporting \<open>VK_ERROR_OUT_OF_HOST_MEMORY\<close> records nothing,
  although the output slot holds a handle; under \<open>VK_SUCCESS\<close> the same body records it.\<close>

theorem failed_create_records_nothing_witness:
  "run_record list_registry ''VK_ERROR_OUT_OF_HOST_MEMORY''
      (VStruct [(''device'', VHandle 1), (''pAllocator'', VNull), (''pFence'', VPtr (VHandle 7))])
      [ReturnIfFailure [''VK_SUCCESS''],
       CreateObject (DestDeref ''pFence'') ''kVulkanObjectTypeFence'' ''pAllocator''] [] = Some []
   \<and> run_record list_registry ''VK_SUCCESS''
      (VStruct [(''device'', VHandle 1), (''pAllocator'', VNull), (''pFence'', VPtr (VHandle 7))])
      [ReturnIfFailure [''VK_SUCCESS''],
       CreateObject (DestDeref ''pFence'') ''kVulkanObjectTypeFence'' ''pAllocator''] []
      = Some [(7, ''kVulkanObjectTypeFence'', VNull)]"
proof -
  have "run_record list_registry ''VK_ERROR_OUT_OF_HOST_MEMORY''
      (VStruct [(''device'', VHandle 1), (''pAllocator'', VNull), (''pFence'', VPtr (VHandle 7))])
      [ReturnIfFailure [''VK_SUCCESS''],
       CreateObject (DestDeref ''pFence'') ''kVulkanObjectTypeFence'' ''pAllocator''] [] = Some []"
    by (rule failed_create_records_nothing [OF vkCreateFence_source])
       (simp_all add: vkCreateFence_def isCreatePipelines_of_def)
  moreover have "run_record list_registry ''VK_SUCCESS''
      (VStruct [(''device'', VHandle 1), (''pAllocator'', VNull), (''pFence'', VPtr (VHandle 7))])
      [ReturnIfFailure [''VK_SUCCESS''],
       CreateObject (DestDeref ''pFence'') ''kVulkanObjectTypeFence'' ''pAllocator''] []
      = Some [(7, ''kVulkanObjectTypeFence'', VNull)]"
    by (simp add: run_record_def allocator_value_def list_registry_def)
  ultimately show ?thesis by simp
qed

section \<open>Accepted result codes\<close>

lemma run_record_gate_passes:
  "\<not> list_all (\<lambda>c. result \<noteq> c) codes \<Longrightarrow>
   run_record ext result root (ReturnIfFailure codes # post) reg = run_record ext result root post reg"
  by (simp add: run_record_def)

lemma run_record_result_differs:
  "c \<noteq> result \<Longrightarrow>
   run_record ext result root (ReturnIfResult c # post) reg = run_record ext result root post reg"
  by (simp add: run_record_def)

text \<open>C2, as amended. The emitted \<open>PostCallRecord\<close> is the gate followed by the recording
  text \<open>post\<close>.
  \<^item> \<open>VK_INCOMPLETE\<close> passes the gate of every command whose name contains
    \<open>EnumeratePhysicalDeviceGroups\<close>, and \<open>VK_ERROR_INCOMPATIBLE_SHADER_BINARY_EXT\<close> passes the
    gate of every command whose name contains \<open>CreateShadersEXT\<close>: under these results
    \<open>PostCallRecord\<close> runs exactly as \<open>post\<close> alone does.
  \<^item> For a command whose name contains neither, the only code compared is \<open>VK_SUCCESS\<close>: where
    a gate is emitted it is the comparison with \<open>VK_SUCCESS\<close> alone, and under every other
    result \<open>PostCallRecord\<close> returns with the registry as it was.\<close>

theorem accepted_codes_pass_gate:
  assumes "generateFunctionBody fuel self command = Inr (validate, pre_record, post)"
    and "post \<noteq> []"
  shows "\<exists>src. generateCommand fuel self command = Inr src
           \<and> PostCallRecord src = Some (successGate command @ post)
           \<and> ((str_in ''EnumeratePhysicalDeviceGroups'' (c_name command) \<and> result = ''VK_INCOMPLETE'')
               \<or> (str_in ''CreateShadersEXT'' (c_name command)
                   \<and> result = ''VK_ERROR_INCOMPATIBLE_SHADER_BINARY_EXT'')
               \<longrightarrow> run_record ext result root (successGate command @ post) reg
                     = run_record ext result root post reg)
           \<and> (\<not> str_in ''EnumeratePhysicalDeviceGroups'' (c_name command)
               \<and> \<not> str_in ''CreateShadersEXT'' (c_name command)
               \<longrightarrow> failureCondition command = [''VK_SUCCESS'']
                   \<and> (c_returnType command = ''VkResult'' \<and> \<not> isCreatePipelines_of command
                       \<longrightarrow> successGate command = [ReturnIfFailure [''VK_SUCCESS'']]
                           \<and> (result \<noteq> ''VK_SUCCESS''
                               \<longrightarrow> run_record ext result root (successGate command @ post) reg
                                     = Some reg)))"
proof -
  have src: "\<exists>src. generateCommand fuel self command = Inr src
               \<and> PostCallRecord src = Some (successGate command @ post)"
    using assms(1,2) by (simp add: generateCommand_def and_then_def)
  have accepted: "run_record ext result root (successGate command @ post) reg
                    = run_record ext result root post reg"
    if "(str_in ''EnumeratePhysicalDeviceGroups'' (c_name command) \<and> result = ''VK_INCOMPLETE'')
        \<or> (str_in ''CreateShadersEXT'' (c_name command)
            \<and> result = ''VK_ERROR_INCOMPATIBLE_SHADER_BINARY_EXT'')"
  proof -
    have "\<not> list_all (\<lambda>c. result \<noteq> c) (failureCondition command)"
      using that by (auto simp: failureCondition_def)
    then show ?thesis
      by (simp add: successGate_def run_record_gate_passes)
  qed
  have plain: "failureCondition command = [''VK_SUCCESS'']"
    if "\<not> str_in ''EnumeratePhysicalDeviceGroups'' (c_name command)
        \<and> \<not> str_in ''CreateShadersEXT'' (c_name command)"
    using that by (simp add: failureCondition_def)
  have gate: "successGate command = [ReturnIfFailure [''VK_SUCCESS'']]"
    if "\<not> str_in ''EnumeratePhysicalDeviceGroups'' (c_name command)
        \<and> \<not> str_in ''CreateShadersEXT'' (c_name command)"
      and "c_returnType command = ''VkResult'' \<and> \<not> isCreatePipelines_of command"
    using that(2) plain [OF that(1)] by (simp add: successGate_def)
  have returns: "run_record ext result root (successGate command @ post) reg = Some reg"
    if "\<not> str_in ''EnumeratePhysicalDeviceGroups'' (c_name command)
        \<and> \<not> str_in ''CreateShadersEXT'' (c_name command)"
      and "c_returnType command = ''VkResult'' \<and> \<not> isCreatePipelines_of command"
      and "result \<noteq> ''VK_SUCCESS''"
    unfolding gate [OF that(1,2)] using that(3) by (simp add: successGate_returns)
  from src obtain s where
    s: "generateCommand fuel self command = Inr s" "PostCallRecord s = Some (successGate command @ post)"
    by blast
  show ?thesis
  proof (intro exI [of _ s] conjI impI)
    show "generateCommand fuel self command = Inr s"
      by (rule s(1))
    show "PostCallRecord s = Some (successGate command @ post)"
      by (rule s(2))
  next
    assume "(str_in ''EnumeratePhysicalDeviceGroups'' (c_name command) \<and> result = ''VK_INCOMPLETE'')
            \<or> (str_in ''CreateShadersEXT'' (c_name command)
                \<and> result = ''VK_ERROR_INCOMPATIBLE_SHADER_BINARY_EXT'')"
    then show "run_record ext result root (successGate command @ post) reg
                 = run_record ext result root post reg"
      by (rule accepted)
  next
    assume "\<not> str_in ''EnumeratePhysicalDeviceGroups'' (c_name command)
            \<and> \<not> str_in ''CreateShadersEXT'' (c_name command)"
    then show "failureCondition command = [''VK_SUCCESS'']"
      by (rule plain)
  next
    assume "\<not> str_in ''EnumeratePhysicalDeviceGroups'' (c_name command)
            \<and> \<not> str_in ''CreateShadersEXT'' (c_name command)"
      and "c_returnType command = ''VkResult'' \<and> \<not> isCreatePipelines_of command"
    then show "successGate command = [ReturnIfFailure [''VK_SUCCESS'']]"
      by (rule gate)
  next
    assume "\<not> str_in ''EnumeratePhysicalDeviceGroups'' (c_name command)
            \<and> \<not> str_in ''CreateShadersEXT'' (c_name command)"
      and "c_returnType command = ''VkResult'' \<and> \<not> isCreatePipelines_of command"
      and "result \<noteq> ''VK_SUCCESS''"
    then show "run_record ext result root (successGate command @ post) reg = Some reg"
      by (rule returns)
  qed
qed

lemma vkEnumeratePhysicalDeviceGroups_body:
  "generateFunctionBody 0 example_gen vkEnumeratePhysicalDeviceGroups =
     Inr ([ValidateObject (CVar [] ''instance'') ''kVulkanObjectTypeInstance'' False
             ''kVUIDUndefined'' ''kVUIDUndefined'' (LDot ErrorObjLocation ''instance'')],
          [],
          [DeviceGroups ''pPhysicalDeviceGroupProperties'' ''pPhysicalDeviceGroupCount'' ''instance''])"
  by (simp add: generator_defs example_defs command_defs)

lemma vkCreateShadersEXT_body:
  "generateFunctionBody 0 example_gen vkCreateShadersEXT =
     Inr ([ValidateObject (CVar [] ''device'') ''kVulkanObjectTypeDevice'' False
             ''kVUIDUndefined'' ''kVUIDUndefined'' (LDot ErrorObjLocation ''device'')],
          [],
          [RIf ''pShaders''
             [RFor (Count ''createInfoCount'')
                [BreakIfNull ''pShaders'',
                 CreateObject (DestIdx ''pShaders'') ''kVulkanObjectTypeShaderEXT'' ''pAllocator'']]])"
  by (simp add: generator_defs example_defs command_defs)

lemma vkEnumerateDisplaysEXT_body:
  "generateFunctionBody 0 example_gen vkEnumerateDisplaysEXT =
     Inr ([ValidateObject (CVar [] ''physicalDevice'') ''kVulkanObjectTypePhysicalDevice'' False
             ''kVUIDUndefined'' ''kVUIDUndefined'' (LDot ErrorObjLocation ''physicalDevice'')],
          [],
          [RIf ''pDisplays''
             [RFor (CountDeref ''pDisplayCount'')
                [CreateObject (DestIdx ''pDisplays'') ''kVulkanObjectTypeDisplayKHR'' ''nullptr'']]])"
  by (simp add: generator_defs example_defs command_defs)

definition device_groups_args :: rval where
  "device_groups_args =
     VStruct [(''instance'', VHandle 1),
              (''pPhysicalDeviceGroupCount'', VPtr (VU32 1)),
              (''pPhysicalDeviceGroupProperties'',
               VArray [VStruct [(''physicalDeviceCount'', VU32 2),
                                (''physicalDevices'', VArray [VHandle 31, VHandle 32])]])]"

definition shaders_args :: rval where
  "shaders_args =
     VStruct [(''device'', VHandle 1), (''createInfoCount'', VU32 3), (''pAllocator'', VNull),
              (''pShaders'', VArray [VHandle 21, VHandle 0, VHandle 23])]"

definition displays_args :: rval where
  "displays_args =
     VStruct [(''physicalDevice'', VHandle 1), (''pDisplayCount'', VPtr (VU32 2)),
              (''pDisplays'', VArray [VHandle 41, VHandle 42])]"

text \<open>Witness for C2: the device groups written under \<open>VK_INCOMPLETE\<close> are recorded, and so is
  the shader written before the first null under the incompatible-binary code; the gate of
  \<open>vkEnumerateDisplaysEXT\<close>, whose name contains neither pattern, compares with \<open>VK_SUCCESS\<close>
  alone and returns under \<open>VK_INCOMPLETE\<close>.\<close>

theorem accepted_codes_pass_gate_witness:
  "run_record list_registry ''VK_INCOMPLETE'' device_groups_args
      (successGate vkEnumeratePhysicalDeviceGroups
       @ [DeviceGroups ''pPhysicalDeviceGroupProperties'' ''pPhysicalDeviceGroupCount'' ''instance'']) []
     = Some [(31, ''kVulkanObjectTypePhysicalDevice'', VNull), (32, ''kVulkanObjectTypePhysicalDevice'', VNull)]
   \<and> run_record list_registry ''VK_ERROR_INCOMPATIBLE_SHADER_BINARY_EXT'' shaders_args
      (successGate vkCreateShadersEXT
       @ [RIf ''pShaders''
            [RFor (Count ''createInfoCount'')
               [BreakIfNull ''pShaders'',
                CreateObject (DestIdx ''pShaders'') ''kVulkanObjectTypeShaderEXT'' ''pAllocator'']]]) []
     = Some [(21, ''kVulkanObjectTypeShaderEXT'', VNull)]
   \<and> failureCondition vkEnumerateDisplaysEXT = [''VK_SUCCESS'']
   \<and> successGate vkEnumerateDisplaysEXT = [ReturnIfFailure [''VK_SUCCESS'']]
   \<and> run_record list_registry ''VK_INCOMPLETE'' displays_args
      (successGate vkEnumerateDisplaysEXT
       @ [RIf ''pDisplays''
            [RFor (CountDeref ''pDisplayCount'')
               [CreateObject (DestIdx ''pDisplays'') ''kVulkanObjectTypeDisplayKHR'' ''nullptr'']]]) []
     = Some []"
proof -
  let ?groups = "[DeviceGroups ''pPhysicalDeviceGroupProperties'' ''pPhysicalDeviceGroupCount''
                    ''instance'']"
  let ?shaders = "[RIf ''pShaders''
                     [RFor (Count ''createInfoCount'')
                        [BreakIfNull ''pShaders'',
                         CreateObject (DestIdx ''pShaders'') ''kVulkanObjectTypeShaderEXT''
                           ''pAllocator'']]]"
  let ?displays = "[RIf ''pDisplays''
                      [RFor (CountDeref ''pDisplayCount'')
                         [CreateObject (DestIdx ''pDisplays'') ''kVulkanObjectTypeDisplayKHR''
                            ''nullptr'']]]"
  have a: "run_record list_registry ''VK_INCOMPLETE'' device_groups_args ?groups []
           = Some [(31, ''kVulkanObjectTypePhysicalDevice'', VNull),
                   (32, ''kVulkanObjectTypePhysicalDevice'', VNull)]"
    by (simp add: run_record_def device_groups_args_def device_group_step_def list_registry_def
          recorded_devices_def upt_conv_Cons)
  have b: "run_record list_registry ''VK_ERROR_INCOMPATIBLE_SHADER_BINARY_EXT'' shaders_args ?shaders []
           = Some [(21, ''kVulkanObjectTypeShaderEXT'', VNull)]"
    by (simp add: run_record_def shaders_args_def allocator_value_def list_registry_def upt_conv_Cons)
  have ne: "?groups \<noteq> []" "?shaders \<noteq> []" "?displays \<noteq> []"
    by simp_all
  have g: "str_in ''EnumeratePhysicalDeviceGroups'' (c_name vkEnumeratePhysicalDeviceGroups)"
    by (simp add: vkEnumeratePhysicalDeviceGroups_def)
  have s: "str_in ''CreateShadersEXT'' (c_name vkCreateShadersEXT)"
    by (simp add: vkCreateShadersEXT_def)
  have e: "\<not> str_in ''EnumeratePhysicalDeviceGroups'' (c_name vkEnumerateDisplaysEXT)
           \<and> \<not> str_in ''CreateShadersEXT'' (c_name vkEnumerateDisplaysEXT)"
          "c_returnType vkEnumerateDisplaysEXT = ''VkResult''
           \<and> \<not> isCreatePipelines_of vkEnumerateDisplaysEXT"
          "''VK_INCOMPLETE'' \<noteq> ''VK_SUCCESS''"
    by (simp_all add: vkEnumerateDisplaysEXT_def isCreatePipelines_of_def)
  from accepted_codes_pass_gate [OF vkEnumeratePhysicalDeviceGroups_body ne(1),
         where result = "''VK_INCOMPLETE''" and ext = list_registry and root = device_groups_args
           and reg = "[]"] g
  have c: "run_record list_registry ''VK_INCOMPLETE'' device_groups_args
             (successGate vkEnumeratePhysicalDeviceGroups @ ?groups) []
           = run_record list_registry ''VK_INCOMPLETE'' device_groups_args ?groups []"
    by blast
  from accepted_codes_pass_gate [OF vkCreateShadersEXT_body ne(2),
         where result = "''VK_ERROR_INCOMPATIBLE_SHADER_BINARY_EXT''" and ext = list_registry
           and root = shaders_args and reg = "[]"] s
  have d: "run_record list_registry ''VK_ERROR_INCOMPATIBLE_SHADER_BINARY_EXT'' shaders_args
             (successGate vkCreateShadersEXT @ ?shaders) []
           = run_record list_registry ''VK_ERROR_INCOMPATIBLE_SHADER_BINARY_EXT'' shaders_args ?shaders []"
    by blast
  from accepted_codes_pass_gate [OF vkEnumerateDisplaysEXT_body ne(3),
         where result = "''VK_INCOMPLETE''" and ext = list_registry and root = displays_args
           and reg = "[]"] e
  have f: "failureCondition vkEnumerateDisplaysEXT = [''VK_SUCCESS'']"
          "successGate vkEnumerateDisplaysEXT = [ReturnIfFailure [''VK_SUCCESS'']]"
          "run_record list_registry ''VK_INCOMPLETE'' displays_args
             (successGate vkEnumerateDisplaysEXT @ ?displays) [] = Some []"
    by blast+
  from a b c d f show ?thesis
    by simp
qed

text \<open>Counterexample to C2 as stated. \<open>vkEnumerateDisplaysEXT\<close> is an enumeration call: its name
  matches the \<open>Enumerate\<close> pattern, so it is treated as a creation call and gets a
  \<open>PostCallRecord\<close>. Its gate compares with \<open>VK_SUCCESS\<close> only: under \<open>VK_INCOMPLETE\<close> the two
  displays that the call wrote are not recorded, under \<open>VK_SUCCESS\<close> they are.\<close>

theorem enumeration_incomplete_counterexample:
  "str_in ''Enumerate'' (c_name vkEnumerateDisplaysEXT)
   \<and> map_sum id PostCallRecord (generateCommand 0 example_gen vkEnumerateDisplaysEXT)
       = Inr (Some [ReturnIfFailure [''VK_SUCCESS''],
                    RIf ''pDisplays''
                      [RFor (CountDeref ''pDisplayCount'')
                         [CreateObject (DestIdx ''pDisplays'') ''kVulkanObjectTypeDisplayKHR'' ''nullptr'']]])
   \<and> run_record list_registry ''VK_INCOMPLETE'' displays_args
         [ReturnIfFailure [''VK_SUCCESS''],
          RIf ''pDisplays''
            [RFor (CountDeref ''pDisplayCount'')
               [CreateObject (DestIdx ''pDisplays'') ''kVulkanObjectTypeDisplayKHR'' ''nullptr'']]] []
       = Some []
   \<and> run_record list_registry ''VK_SUCCESS'' displays_args
         [ReturnIfFailure [''VK_SUCCESS''],
          RIf ''pDisplays''
            [RFor (CountDeref ''pDisplayCount'')
               [CreateObject (DestIdx ''pDisplays'') ''kVulkanObjectTypeDisplayKHR'' ''nullptr'']]] []
       = Some [(41, ''kVulkanObjectTypeDisplayKHR'', VNull), (42, ''kVulkanObjectTypeDisplayKHR'', VNull)]"
proof (intro conjI)
  show "str_in ''Enumerate'' (c_name vkEnumerateDisplaysEXT)"
    by (simp add: vkEnumerateDisplaysEXT_def)
  show "map_sum id PostCallRecord (generateCommand 0 example_gen vkEnumerateDisplaysEXT)
       = Inr (Some [ReturnIfFailure [''VK_SUCCESS''],
                    RIf ''pDisplays''
                      [RFor (CountDeref ''pDisplayCount'')
                         [CreateObject (DestIdx ''pDisplays'') ''kVulkanObjectTypeDisplayKHR'' ''nullptr'']]])"
    by (simp add: generator_defs example_defs command_defs)
  show "run_record list_registry ''VK_INCOMPLETE'' displays_args
         [ReturnIfFailure [''VK_SUCCESS''],
          RIf ''pDisplays''
            [RFor (CountDeref ''pDisplayCount'')
               [CreateObject (DestIdx ''pDisplays'') ''kVulkanObjectTypeDisplayKHR'' ''nullptr'']]] []
       = Some []"
    by (simp add: run_record_def)
  show "run_record list_registry ''VK_SUCCESS'' displays_args
         [ReturnIfFailure [''VK_SUCCESS''],
          RIf ''pDisplays''
            [RFor (CountDeref ''pDisplayCount'')
               [CreateObject (DestIdx ''pDisplays'') ''kVulkanObjectTypeDisplayKHR'' ''nullptr'']]] []
       = Some [(41, ''kVulkanObjectTypeDisplayKHR'', VNull), (42, ''kVulkanObjectTypeDisplayKHR'', VNull)]"
    by (simp add: run_record_def displays_args_def allocator_value_def list_registry_def upt_conv_Cons)
qed

section \<open>Batch creation\<close>

lemma pipelines_loop:
  assumes "field root n = Some (VArray (map VHandle hs))"
    and "allocator_value root a = Some av"
    and "\<forall>i \<in> set is. i < length hs"
  shows "loop_exec (\<lambda>i. seq_exec (map (exec_r ext result root (Some i))
                                [ContinueIfNull n, CreateObject (DestIdx n) t a])) is reg
         = Some (Normal, foldl (\<lambda>r h. createObject ext h t av r) reg
                           (filter (\<lambda>h. h \<noteq> 0) (map (\<lambda>i. hs ! i) is)))"
  using assms(3)
proof (induction "is" arbitrary: reg)
  case Nil
  then show ?case by simp
next
  case (Cons i "is")
  then show ?case using assms(1,2) by simp
qed

lemma shaders_loop:
  assumes "field root n = Some (VArray (map VHandle hs))"
    and "allocator_value root a = Some av"
    and "\<forall>i \<in> set is. i < length hs"
  shows "loop_exec (\<lambda>i. seq_exec (map (exec_r ext result root (Some i))
                                [BreakIfNull n, CreateObject (DestIdx n) t a])) is reg
         = Some (Normal, foldl (\<lambda>r h. createObject ext h t av r) reg
                           (takeWhile (\<lambda>h. h \<noteq> 0) (map (\<lambda>i. hs ! i) is)))"
  using assms(3)
proof (induction "is" arbitrary: reg)
  case Nil
  then show ?case by simp
next
  case (Cons i "is")
  then show ?case using assms(1,2) by simp
qed

lemma post_is_createRecord:
  assumes "generateFunctionBody fuel self command = Inr (validate, pre_record, post)" and "post \<noteq> []"
  shows "createRecord self command = Inr post"
  using assms
  by (auto simp: generateFunctionBody_def and_then_def split: sum.splits if_splits)

lemma last_two_items:
  "last_item (ps @ [sl, lastp]) = Inr lastp" "second_last_item (ps @ [sl, lastp]) = Inr sl"
  by (simp_all add: last_item_def second_last_item_def butlast_append)

lemma createRecord_array:
  assumes "c_params command = ps @ [sl, lastp]"
    and "in_dict (m_type lastp) (handles (vk self))"
    and "m_length lastp = Some len"
  shows "createRecord self command =
     Inr ((if isCreatePipelines_of command then [ReturnIfResult ''VK_ERROR_VALIDATION_FAILED_EXT''] else [])
          @ [RIf (m_name lastp)
               [RFor (if m_type sl = ''uint32_t'' \<and> m_pointer sl then CountDeref len else Count len)
                  ((if isCreatePipelines_of command then [ContinueIfNull ''pPipelines'']
                    else if str_in ''CreateShaders'' (c_name command) then [BreakIfNull ''pShaders'']
                    else [])
                   @ [CreateObject (DestIdx (m_name lastp)) (kVulkanObjectType (m_type lastp))
                        (if m_type sl = ''VkAllocationCallbacks'' then m_name sl else ''nullptr'')])]])"
  using assms by (simp add: createRecord_def last_two_items and_then_def Let_def)

lemma run_record_array:
  assumes "field root n = Some (VArray xs)"
    and "count_value root cnt = Some w"
    and "loop_exec (\<lambda>i. seq_exec (map (exec_r ext result root (Some i)) inner)) [0..<unat w] reg
           = Some (Normal, reg')"
  shows "run_record ext result root [RIf n [RFor cnt inner]] reg = Some reg'"
  using assms by (simp add: run_record_def)

lemma batch_creation_elements:
  assumes gen: "generateCommand fuel self command = Inr src"
    and body: "PostCallRecord src = Some body"
    and params: "c_params command = ps @ [sl, lastp]"
    and handle: "in_dict (m_type lastp) (handles (vk self))"
    and len: "m_length lastp = Some len"
    and arr: "field root (m_name lastp) = Some (VArray (map VHandle hs))"
    and cnt: "count_value root (if m_type sl = ''uint32_t'' \<and> m_pointer sl
                                then CountDeref len else Count len) = Some n"
    and n: "unat n = length hs"
    and alloc: "allocator_value root (if m_type sl = ''VkAllocationCallbacks''
                                      then m_name sl else ''nullptr'') = Some av"
  shows "(isCreatePipelines_of command \<and> m_name lastp = ''pPipelines''
            \<and> result \<noteq> ''VK_ERROR_VALIDATION_FAILED_EXT''
          \<longrightarrow> run_record ext result root body reg
                = Some (foldl (\<lambda>r h. createObject ext h (kVulkanObjectType (m_type lastp)) av r) reg
                          (filter (\<lambda>h. h \<noteq> 0) hs)))
       \<and> (\<not> isCreatePipelines_of command \<and> str_in ''CreateShaders'' (c_name command)
            \<and> m_name lastp = ''pShaders''
            \<and> (c_returnType command = ''VkResult'' \<longrightarrow> result \<in> set (failureCondition command))
          \<longrightarrow> run_record ext result root body reg
                = Some (foldl (\<lambda>r h. createObject ext h (kVulkanObjectType (m_type lastp)) av r) reg
                          (takeWhile (\<lambda>h. h \<noteq> 0) hs)))"
proof -
  define cx where "cx = (if m_type sl = ''uint32_t'' \<and> m_pointer sl then CountDeref len else Count len)"
  define al where "al = (if m_type sl = ''VkAllocationCallbacks'' then m_name sl else ''nullptr'')"
  define t where "t = kVulkanObjectType (m_type lastp)"
  from PostCallRecord_shape [OF gen body]
  obtain validate pre_record post
    where fb: "generateFunctionBody fuel self command = Inr (validate, pre_record, post)"
      and ne: "post \<noteq> []" and b: "body = successGate command @ post"
    by blast
  have post: "createRecord self command = Inr post"
    by (rule post_is_createRecord [OF fb ne])
  note shape = createRecord_array [OF params handle len, folded cx_def al_def t_def]
  note cnt' = cnt [folded cx_def]
  note alloc' = alloc [folded al_def]
  have idx: "\<forall>i \<in> set [0..<unat n]. i < length hs"
    using n by simp
  have all: "map (\<lambda>i. hs ! i) [0..<unat n] = hs"
    using n by (simp add: map_nth)
  show ?thesis
    unfolding t_def [symmetric]
  proof (intro conjI impI)
    assume a: "isCreatePipelines_of command \<and> m_name lastp = ''pPipelines''
                 \<and> result \<noteq> ''VK_ERROR_VALIDATION_FAILED_EXT''"
    then have p: "post = [ReturnIfResult ''VK_ERROR_VALIDATION_FAILED_EXT'',
                          RIf ''pPipelines''
                            [RFor cx [ContinueIfNull ''pPipelines'', CreateObject (DestIdx ''pPipelines'') t al]]]"
      using post shape by simp
    have g: "successGate command = []"
      using a by (simp add: successGate_def)
    have vf: "''VK_ERROR_VALIDATION_FAILED_EXT'' \<noteq> result"
      using a by blast
    have arr': "field root ''pPipelines'' = Some (VArray (map VHandle hs))"
      using arr a by simp
    have "run_record ext result root
            [RIf ''pPipelines''
               [RFor cx [ContinueIfNull ''pPipelines'', CreateObject (DestIdx ''pPipelines'') t al]]] reg
          = Some (foldl (\<lambda>r h. createObject ext h t av r) reg (filter (\<lambda>h. h \<noteq> 0) hs))"
      by (rule run_record_array [OF arr' cnt']) (simp only: pipelines_loop [OF arr' alloc' idx] all)
    then show "run_record ext result root body reg
                = Some (foldl (\<lambda>r h. createObject ext h t av r) reg (filter (\<lambda>h. h \<noteq> 0) hs))"
      unfolding b g p append_Nil run_record_result_differs [OF vf] .
  next
    assume a: "\<not> isCreatePipelines_of command \<and> str_in ''CreateShaders'' (c_name command)
                \<and> m_name lastp = ''pShaders''
                \<and> (c_returnType command = ''VkResult'' \<longrightarrow> result \<in> set (failureCondition command))"
    then have p: "post = [RIf ''pShaders''
                            [RFor cx [BreakIfNull ''pShaders'', CreateObject (DestIdx ''pShaders'') t al]]]"
      using post shape by simp
    have arr': "field root ''pShaders'' = Some (VArray (map VHandle hs))"
      using arr a by simp
    have r: "run_record ext result root post reg
          = Some (foldl (\<lambda>r h. createObject ext h t av r) reg (takeWhile (\<lambda>h. h \<noteq> 0) hs))"
      unfolding p
      by (rule run_record_array [OF arr' cnt']) (simp only: shaders_loop [OF arr' alloc' idx] all)
    have "run_record ext result root (successGate command @ post) reg = run_record ext result root post reg"
    proof (cases "c_returnType command = ''VkResult''")
      case True
      then have "\<not> list_all (\<lambda>c. result \<noteq> c) (failureCondition command)"
        using a by (auto simp: list_all_iff)
      then show ?thesis
        using True a by (simp add: successGate_def run_record_gate_passes)
    next
      case False
      then show ?thesis by (simp add: successGate_def)
    qed
    then show "run_record ext result root body reg
                = Some (foldl (\<lambda>r h. createObject ext h t av r) reg (takeWhile (\<lambda>h. h \<noteq> 0) hs))"
      unfolding b using r by simp
  qed
qed

lemma run_record_result_returns:
  "run_record ext c root (ReturnIfResult c # post) reg = Some reg"
  by (simp add: run_record_def)

text \<open>C3, as amended. Let the last parameter be an array of handles of length \<open>len\<close>.
  \<^item> For a pipeline creation command there is no success gate, but under
    \<open>VK_ERROR_VALIDATION_FAILED_EXT\<close> the emitted \<open>PostCallRecord\<close> returns at once with the
    registry as it was, whatever the arguments are.
  \<^item> Let the array hold the slots \<open>hs\<close> (a null slot is \<open>0\<close>) with the count equal to their
    number. For a pipeline creation command (output array \<open>pPipelines\<close>), under every other
    result one record is created for each non-null slot, in slot order, null slots being
    skipped. For a shader creation command (output array \<open>pShaders\<close>) whose gate the result
    passes, one record is created for each slot before the first null slot and none after it.\<close>

theorem batch_creation_per_element:
  assumes gen: "generateCommand fuel self command = Inr src"
    and body: "PostCallRecord src = Some body"
    and params: "c_params command = ps @ [sl, lastp]"
    and handle: "in_dict (m_type lastp) (handles (vk self))"
    and len: "m_length lastp = Some len"
  shows "(isCreatePipelines_of command \<and> result = ''VK_ERROR_VALIDATION_FAILED_EXT''
          \<longrightarrow> run_record ext result root body reg = Some reg)
       \<and> (field root (m_name lastp) = Some (VArray (map VHandle hs))
          \<and> count_value root (if m_type sl = ''uint32_t'' \<and> m_pointer sl
                               then CountDeref len else Count len) = Some n
          \<and> unat n = length hs
          \<and> allocator_value root (if m_type sl = ''VkAllocationCallbacks''
                                   then m_name sl else ''nullptr'') = Some av
          \<longrightarrow> (isCreatePipelines_of command \<and> m_name lastp = ''pPipelines''
                 \<and> result \<noteq> ''VK_ERROR_VALIDATION_FAILED_EXT''
               \<longrightarrow> run_record ext result root body reg
                     = Some (foldl (\<lambda>r h. createObject ext h (kVulkanObjectType (m_type lastp)) av r) reg
                               (filter (\<lambda>h. h \<noteq> 0) hs)))
            \<and> (\<not> isCreatePipelines_of command \<and> str_in ''CreateShaders'' (c_name command)
                 \<and> m_name lastp = ''pShaders''
                 \<and> (c_returnType command = ''VkResult'' \<longrightarrow> result \<in> set (failureCondition command))
               \<longrightarrow> run_record ext result root body reg
                     = Some (foldl (\<lambda>r h. createObject ext h (kVulkanObjectType (m_type lastp)) av r) reg
                               (takeWhile (\<lambda>h. h \<noteq> 0) hs))))"
proof (rule conjI)
  show "isCreatePipelines_of command \<and> result = ''VK_ERROR_VALIDATION_FAILED_EXT''
          \<longrightarrow> run_record ext result root body reg = Some reg"
  proof (rule impI)
    assume a: "isCreatePipelines_of command \<and> result = ''VK_ERROR_VALIDATION_FAILED_EXT''"
    from PostCallRecord_shape [OF gen body]
    obtain validate pre_record post
      where fb: "generateFunctionBody fuel self command = Inr (validate, pre_record, post)"
        and ne: "post \<noteq> []" and b: "body = successGate command @ post"
      by blast
    have "createRecord self command = Inr post"
      by (rule post_is_createRecord [OF fb ne])
    with createRecord_array [OF params handle len] a
    obtain rest where p: "post = ReturnIfResult ''VK_ERROR_VALIDATION_FAILED_EXT'' # rest"
      by auto
    have g: "successGate command = []"
      using a by (simp add: successGate_def)
    from a have r: "result = ''VK_ERROR_VALIDATION_FAILED_EXT''"
      by blast
    show "run_record ext result root body reg = Some reg"
      unfolding b g p r append_Nil by (rule run_record_result_returns)
  qed
next
  show "field root (m_name lastp) = Some (VArray (map VHandle hs))
          \<and> count_value root (if m_type sl = ''uint32_t'' \<and> m_pointer sl
                               then CountDeref len else Count len) = Some n
          \<and> unat n = length hs
          \<and> allocator_value root (if m_type sl = ''VkAllocationCallbacks''
                                   then m_name sl else ''nullptr'') = Some av
          \<longrightarrow> (isCreatePipelines_of command \<and> m_name lastp = ''pPipelines''
                 \<and> result \<noteq> ''VK_ERROR_VALIDATION_FAILED_EXT''
               \<longrightarrow> run_record ext result root body reg
                     = Some (foldl (\<lambda>r h. createObject ext h (kVulkanObjectType (m_type lastp)) av r) reg
                               (filter (\<lambda>h. h \<noteq> 0) hs)))
            \<and> (\<not> isCreatePipelines_of command \<and> str_in ''CreateShaders'' (c_name command)
                 \<and> m_name lastp = ''pShaders''
                 \<and> (c_returnType command = ''VkResult'' \<longrightarrow> result \<in> set (failureCondition command))
               \<longrightarrow> run_record ext result root body reg
                     = Some (foldl (\<lambda>r h. createObject ext h (kVulkanObjectType (m_type lastp)) av r) reg
                               (takeWhile (\<lambda>h. h \<noteq> 0) hs)))"
  proof (rule impI)
    assume h: "field root (m_name lastp) = Some (VArray (map VHandle hs))
          \<and> count_value root (if m_type sl = ''uint32_t'' \<and> m_pointer sl
                               then CountDeref len else Count len) = Some n
          \<and> unat n = length hs
          \<and> allocator_value root (if m_type sl = ''VkAllocationCallbacks''
                                   then m_name sl else ''nullptr'') = Some av"
    show "(isCreatePipelines_of command \<and> m_name lastp = ''pPipelines''
                 \<and> result \<noteq> ''VK_ERROR_VALIDATION_FAILED_EXT''
               \<longrightarrow> run_record ext result root body reg
                     = Some (foldl (\<lambda>r h. createObject ext h (kVulkanObjectType (m_type lastp)) av r) reg
                               (filter (\<lambda>h. h \<noteq> 0) hs)))
            \<and> (\<not> isCreatePipelines_of command \<and> str_in ''CreateShaders'' (c_name command)
                 \<and> m_name lastp = ''pShaders''
                 \<and> (c_returnType command = ''VkResult'' \<longrightarrow> result \<in> set (failureCondition command))
               \<longrightarrow> run_record ext result root body reg
                     = Some (foldl (\<lambda>r h. createObject ext h (kVulkanObjectType (m_type lastp)) av r) reg
                               (takeWhile (\<lambda>h. h \<noteq> 0) hs)))"
      by (rule batch_creation_elements [OF gen body params handle len])
         (use h in \<open>blast+\<close>)
  qed
qed

definition pipelines_args :: rval where
  "pipelines_args =
     VStruct [(''device'', VHandle 1), (''pipelineCache'', VHandle 0), (''createInfoCount'', VU32 3),
              (''pCreateInfos'', VNull), (''pAllocator'', VNull),
              (''pPipelines'', VArray [VHandle 11, VHandle 0, VHandle 12])]"

definition pipelines_PostCallRecord :: "rstmt list" where
  "pipelines_PostCallRecord =
     [ReturnIfResult ''VK_ERROR_VALIDATION_FAILED_EXT'',
      RIf ''pPipelines''
        [RFor (Count ''createInfoCount'')
           [ContinueIfNull ''pPipelines'',
            CreateObject (DestIdx ''pPipelines'') ''kVulkanObjectTypePipeline'' ''pAllocator'']]]"

definition shaders_PostCallRecord :: "rstmt list" where
  "shaders_PostCallRecord =
     [ReturnIfFailure [''VK_SUCCESS'', ''VK_ERROR_INCOMPATIBLE_SHADER_BINARY_EXT''],
      RIf ''pShaders''
        [RFor (Count ''createInfoCount'')
           [BreakIfNull ''pShaders'',
            CreateObject (DestIdx ''pShaders'') ''kVulkanObjectTypeShaderEXT'' ''pAllocator'']]]"

lemma vkCreateGraphicsPipelines_source:
  "\<exists>v. generateCommand 1 example_gen vkCreateGraphicsPipelines =
     Inr \<lparr> PreCallValidate = Some v, PreCallRecord = None,
           PostCallRecord = Some pipelines_PostCallRecord \<rparr>"
  by (simp add: generator_defs example_defs command_defs pipelines_PostCallRecord_def)

lemma vkCreateShadersEXT_source:
  "\<exists>v. generateCommand 0 example_gen vkCreateShadersEXT =
     Inr \<lparr> PreCallValidate = Some v, PreCallRecord = None,
           PostCallRecord = Some shaders_PostCallRecord \<rparr>"
  by (simp add: generator_defs example_defs command_defs shaders_PostCallRecord_def)

text \<open>Witness for C3: three pipeline slots of which the second is null, under an overall
  failure code, give two records; three shader slots of which the second is null give one;
  under \<open>VK_ERROR_VALIDATION_FAILED_EXT\<close> the pipeline recording returns, here on no
  arguments at all.\<close>

theorem batch_creation_per_element_witness:
  "run_record list_registry ''VK_ERROR_OUT_OF_HOST_MEMORY'' pipelines_args pipelines_PostCallRecord []
     = Some [(11, ''kVulkanObjectTypePipeline'', VNull), (12, ''kVulkanObjectTypePipeline'', VNull)]
   \<and> run_record list_registry ''VK_SUCCESS'' shaders_args shaders_PostCallRecord []
     = Some [(21, ''kVulkanObjectTypeShaderEXT'', VNull)]
   \<and> run_record list_registry ''VK_ERROR_VALIDATION_FAILED_EXT'' (VStruct []) pipelines_PostCallRecord
        [(5, ''kVulkanObjectTypePipeline'', VNull)]
     = Some [(5, ''kVulkanObjectTypePipeline'', VNull)]"
proof -
  let ?pPipelines = "(mk_member ''pPipelines'' ''VkPipeline'')
                       \<lparr> m_pointer := True, m_length := Some ''createInfoCount'' \<rparr>"
  let ?pShaders = "(mk_member ''pShaders'' ''VkShaderEXT'')
                       \<lparr> m_pointer := True, m_length := Some ''createInfoCount'' \<rparr>"
  obtain v where gen: "generateCommand 1 example_gen vkCreateGraphicsPipelines =
     Inr \<lparr> PreCallValidate = Some v, PreCallRecord = None,
           PostCallRecord = Some pipelines_PostCallRecord \<rparr>"
    using vkCreateGraphicsPipelines_source by blast
  have body: "PostCallRecord \<lparr> PreCallValidate = Some v, PreCallRecord = None,
           PostCallRecord = Some pipelines_PostCallRecord \<rparr> = Some pipelines_PostCallRecord"
    by simp
  have params: "c_params vkCreateGraphicsPipelines =
      [mk_member ''device'' ''VkDevice'',
       (mk_member ''pipelineCache'' ''VkPipelineCache'')\<lparr> m_optional := True \<rparr>,
       mk_member ''createInfoCount'' ''uint32_t'',
       (mk_member ''pCreateInfos'' ''VkGraphicsPipelineCreateInfo'')
          \<lparr> m_pointer := True, m_length := Some ''createInfoCount'' \<rparr>] @ [pAllocator, ?pPipelines]"
    by (simp add: vkCreateGraphicsPipelines_def)
  have handle: "in_dict (m_type ?pPipelines) (handles (vk example_gen))"
    by (simp add: in_dict_def example_defs)
  have len: "m_length ?pPipelines = Some ''createInfoCount''"
    by (simp add: mk_member_def)
  have arr: "field pipelines_args (m_name ?pPipelines) = Some (VArray (map VHandle [11, 0, 12]))"
    by (simp add: pipelines_args_def mk_member_def)
  have cnt: "count_value pipelines_args
               (if m_type pAllocator = ''uint32_t'' \<and> m_pointer pAllocator
                then CountDeref ''createInfoCount'' else Count ''createInfoCount'') = Some 3"
    by (simp add: pipelines_args_def example_defs)
  have n: "unat (3 :: 32 word) = length [11, 0, 12 :: nat]"
    by simp
  have alloc: "allocator_value pipelines_args
                 (if m_type pAllocator = ''VkAllocationCallbacks'' then m_name pAllocator else ''nullptr'')
               = Some VNull"
    by (simp add: pipelines_args_def example_defs allocator_value_def)
  have p: "isCreatePipelines_of vkCreateGraphicsPipelines \<and> m_name ?pPipelines = ''pPipelines''
             \<and> ''VK_ERROR_OUT_OF_HOST_MEMORY'' \<noteq> ''VK_ERROR_VALIDATION_FAILED_EXT''"
    by (simp add: isCreatePipelines_of_def vkCreateGraphicsPipelines_def mk_member_def)
  from batch_creation_per_element [OF gen body params handle len,
         where result = "''VK_ERROR_OUT_OF_HOST_MEMORY''" and ext = list_registry and reg = "[]"
           and root = pipelines_args and hs = "[11, 0, 12]" and n = 3 and av = VNull]
       arr cnt n alloc p
  have "run_record list_registry ''VK_ERROR_OUT_OF_HOST_MEMORY'' pipelines_args pipelines_PostCallRecord []
          = Some (foldl (\<lambda>r h. createObject list_registry h (kVulkanObjectType (m_type ?pPipelines)) VNull r)
                    [] (filter (\<lambda>h. h \<noteq> 0) [11, 0, 12]))"
    by blast
  then have first: "run_record list_registry ''VK_ERROR_OUT_OF_HOST_MEMORY'' pipelines_args
                      pipelines_PostCallRecord []
     = Some [(11, ''kVulkanObjectTypePipeline'', VNull), (12, ''kVulkanObjectTypePipeline'', VNull)]"
    by (simp add: list_registry_def kVulkanObjectType_def mk_member_def)
  obtain v' where gen': "generateCommand 0 example_gen vkCreateShadersEXT =
     Inr \<lparr> PreCallValidate = Some v', PreCallRecord = None,
           PostCallRecord = Some shaders_PostCallRecord \<rparr>"
    using vkCreateShadersEXT_source by blast
  have body': "PostCallRecord \<lparr> PreCallValidate = Some v', PreCallRecord = None,
           PostCallRecord = Some shaders_PostCallRecord \<rparr> = Some shaders_PostCallRecord"
    by simp
  have params': "c_params vkCreateShadersEXT =
      [mk_member ''device'' ''VkDevice'',
       mk_member ''createInfoCount'' ''uint32_t'',
       (mk_member ''pCreateInfos'' ''VkShaderCreateInfoEXT'')
          \<lparr> m_pointer := True, m_length := Some ''createInfoCount'' \<rparr>] @ [pAllocator, ?pShaders]"
    by (simp add: vkCreateShadersEXT_def)
  have handle': "in_dict (m_type ?pShaders) (handles (vk example_gen))"
    by (simp add: in_dict_def example_defs)
  have len': "m_length ?pShaders = Some ''createInfoCount''"
    by (simp add: mk_member_def)
  have arr': "field shaders_args (m_name ?pShaders) = Some (VArray (map VHandle [21, 0, 23]))"
    by (simp add: shaders_args_def mk_member_def)
  have cnt': "count_value shaders_args
               (if m_type pAllocator = ''uint32_t'' \<and> m_pointer pAllocator
                then CountDeref ''createInfoCount'' else Count ''createInfoCount'') = Some 3"
    by (simp add: shaders_args_def example_defs)
  have n': "unat (3 :: 32 word) = length [21, 0, 23 :: nat]"
    by simp
  have alloc': "allocator_value shaders_args
                 (if m_type pAllocator = ''VkAllocationCallbacks'' then m_name pAllocator else ''nullptr'')
               = Some VNull"
    by (simp add: shaders_args_def example_defs allocator_value_def)
  have s: "\<not> isCreatePipelines_of vkCreateShadersEXT \<and> str_in ''CreateShaders'' (c_name vkCreateShadersEXT)
             \<and> m_name ?pShaders = ''pShaders''
             \<and> (c_returnType vkCreateShadersEXT = ''VkResult''
                  \<longrightarrow> ''VK_SUCCESS'' \<in> set (failureCondition vkCreateShadersEXT))"
    by (simp add: isCreatePipelines_of_def vkCreateShadersEXT_def mk_member_def failureCondition_def)
  from batch_creation_per_element [OF gen' body' params' handle' len',
         where result = "''VK_SUCCESS''" and ext = list_registry and reg = "[]"
           and root = shaders_args and hs = "[21, 0, 23]" and n = 3 and av = VNull]
       arr' cnt' n' alloc' s
  have "run_record list_registry ''VK_SUCCESS'' shaders_args shaders_PostCallRecord []
          = Some (foldl (\<lambda>r h. createObject list_registry h (kVulkanObjectType (m_type ?pShaders)) VNull r)
                    [] (takeWhile (\<lambda>h. h \<noteq> 0) [21, 0, 23]))"
    by blast
  then have second: "run_record list_registry ''VK_SUCCESS'' shaders_args shaders_PostCallRecord []
     = Some [(21, ''kVulkanObjectTypeShaderEXT'', VNull)]"
    by (simp add: list_registry_def kVulkanObjectType_def mk_member_def)
  have q: "isCreatePipelines_of vkCreateGraphicsPipelines
             \<and> ''VK_ERROR_VALIDATION_FAILED_EXT'' = ''VK_ERROR_VALIDATION_FAILED_EXT''"
    by (simp add: isCreatePipelines_of_def vkCreateGraphicsPipelines_def)
  from batch_creation_per_element [OF gen body params handle len,
         where result = "''VK_ERROR_VALIDATION_FAILED_EXT''" and ext = list_registry
           and reg = "[(5, ''kVulkanObjectTypePipeline'', VNull)]" and root = "VStruct []"] q
  have third: "run_record list_registry ''VK_ERROR_VALIDATION_FAILED_EXT'' (VStruct [])
                 pipelines_PostCallRecord [(5, ''kVulkanObjectTypePipeline'', VNull)]
               = Some [(5, ''kVulkanObjectTypePipeline'', VNull)]"
    by blast
  from first second third show ?thesis by simp
qed

text \<open>Counterexample to C3 as stated. The emitted \<open>PostCallRecord\<close> of
  \<open>vkCreateGraphicsPipelines\<close> begins with a test of its own: when the result is
  \<open>VK_ERROR_VALIDATION_FAILED_EXT\<close> it returns before the loop, so an output array with two
  non-null entries out of three yields no record, not two.\<close>

theorem pipelines_validation_failed_counterexample:
  "map_sum id PostCallRecord (generateCommand 1 example_gen vkCreateGraphicsPipelines)
     = Inr (Some pipelines_PostCallRecord)
   \<and> field pipelines_args ''pPipelines'' = Some (VArray (map VHandle [11, 0, 12]))
   \<and> length (filter (\<lambda>h. h \<noteq> 0) [11, 0, 12 :: nat]) = 2
   \<and> run_record list_registry ''VK_ERROR_VALIDATION_FAILED_EXT'' pipelines_args
        pipelines_PostCallRecord [] = Some []"
proof (intro conjI)
  show "map_sum id PostCallRecord (generateCommand 1 example_gen vkCreateGraphicsPipelines)
     = Inr (Some pipelines_PostCallRecord)"
    using vkCreateGraphicsPipelines_source by auto
  show "field pipelines_args ''pPipelines'' = Some (VArray (map VHandle [11, 0, 12]))"
    by (simp add: pipelines_args_def)
  show "length (filter (\<lambda>h. h \<noteq> 0) [11, 0, 12 :: nat]) = 2"
    by simp
  show "run_record list_registry ''VK_ERROR_VALIDATION_FAILED_EXT'' pipelines_args
        pipelines_PostCallRecord [] = Some []"
    by (simp add: run_record_def pipelines_PostCallRecord_def)
qed

section \<open>Destroy commands\<close>

text \<open>\<open>removes_record s\<close>: the statement \<open>s\<close> contains a call of \<open>RecordDestroyObject\<close>.\<close>

fun removes_record :: "rstmt \<Rightarrow> bool" where
  "removes_record (RecordDestroyObject n t) = True"
| "removes_record (RIf n body) = list_ex removes_record body"
| "removes_record (RFor c body) = list_ex removes_record body"
| "removes_record (ReturnIfFailure codes) = False"
| "removes_record (ReturnIfResult c) = False"
| "removes_record (ContinueIfNull n) = False"
| "removes_record (BreakIfNull n) = False"
| "removes_record (CreateObject d t a) = False"
| "removes_record (DeviceGroups l c f) = False"

text \<open>The two allocator identifiers of a \<open>ValidateDestroyObject\<close> statement.\<close>

fun destroy_vuids :: "vstmt \<Rightarrow> (string \<times> string) option" where
  "destroy_vuids (ValidateDestroyObject n t a compatVUID nullVUID) = Some (compatVUID, nullVUID)"
| "destroy_vuids (ValidateObject e t na pv pav l) = None"
| "destroy_vuids (VIf c body) = None"
| "destroy_vuids (VFor k e body) = None"
| "destroy_vuids (DeclLocation v l) = None"

definition destroy_command :: "string \<Rightarrow> string \<Rightarrow> string \<Rightarrow> Command" where
  "destroy_command name handle_name handle_type =
     \<lparr> c_name = name, c_alias = None, c_returnType = ''void'',
       c_params = [mk_member ''device'' ''VkDevice'',
                   (mk_member handle_name handle_type)\<lparr> m_optional := True \<rparr>,
                   pAllocator] \<rparr>"

definition vkDestroyFence :: Command where
  "vkDestroyFence = destroy_command ''vkDestroyFence'' ''fence'' ''VkFence''"

definition vkDestroyVideoSessionKHR :: Command where
  "vkDestroyVideoSessionKHR =
     destroy_command ''vkDestroyVideoSessionKHR'' ''videoSession'' ''VkVideoSessionKHR''"

definition vkFreeMemory :: Command where
  "vkFreeMemory = destroy_command ''vkFreeMemory'' ''memory'' ''VkDeviceMemory''"

definition vkReleasePerformanceConfigurationINTEL :: Command where
  "vkReleasePerformanceConfigurationINTEL =
     \<lparr> c_name = ''vkReleasePerformanceConfigurationINTEL'', c_alias = None, c_returnType = ''VkResult'',
       c_params = [mk_member ''device'' ''VkDevice'',
                   (mk_member ''configuration'' ''VkPerformanceConfigurationINTEL'')\<lparr> m_optional := True \<rparr>] \<rparr>"

lemmas destroy_defs = destroy_command_def vkDestroyFence_def vkDestroyVideoSessionKHR_def
  vkFreeMemory_def vkReleasePerformanceConfigurationINTEL_def

lemma createRecord_never_removes:
  assumes "createRecord self command = Inr post"
  shows "\<not> list_ex removes_record post"
proof -
  obtain lastp where l: "last_item (c_params command) = Inr lastp"
    using assms by (cases "last_item (c_params command)") (simp_all add: createRecord_def and_then_def)
  show ?thesis
  proof (cases "in_dict (m_type lastp) (handles (vk self))")
    case True
    then obtain sl where s: "second_last_item (c_params command) = Inr sl"
      using assms l
      by (cases "second_last_item (c_params command)") (simp_all add: createRecord_def and_then_def Let_def)
    show ?thesis
      using assms l s True
      by (cases "m_length lastp") (auto simp: createRecord_def and_then_def Let_def split: if_splits)
  next
    case False
    show ?thesis
      using assms l False
      by (cases "second_last_item (c_params command)")
         (auto simp: createRecord_def and_then_def Let_def split: if_splits)
  qed
qed

lemma generateFunctionBody_parts:
  assumes "generateFunctionBody fuel self command = Inr (validate, pre_record, post_record)"
  shows "\<exists>isCreate validated d.
           isCreate_of command = Inr isCreate
         \<and> validateObjects fuel self (c_params command) [] 0 (c_name command) (c_name command)
               ErrorObjLocation isCreate = Inr validated
         \<and> (if isCreate then createRecord self command else Inr []) = Inr post_record
         \<and> (if isDestroy_of command then destroyPart self command else Inr ([], [])) = Inr d
         \<and> validate = validated @ fst d \<and> pre_record = snd d"
proof -
  from assms obtain isCreate where c: "isCreate_of command = Inr isCreate"
    by (cases "isCreate_of command") (simp_all add: generateFunctionBody_def and_then_def)
  from assms c obtain validated where
    v: "validateObjects fuel self (c_params command) [] 0 (c_name command) (c_name command)
               ErrorObjLocation isCreate = Inr validated"
    by (cases "validateObjects fuel self (c_params command) [] 0 (c_name command) (c_name command)
               ErrorObjLocation isCreate")
       (simp_all add: generateFunctionBody_def and_then_def del: validateObjects.simps)
  from assms c v obtain post where
    p: "(if isCreate then createRecord self command else Inr []) = Inr post"
    by (cases "if isCreate then createRecord self command else Inr []")
       (simp_all add: generateFunctionBody_def and_then_def del: validateObjects.simps)
  from assms c v p obtain d where
    d: "(if isDestroy_of command then destroyPart self command else Inr ([], [])) = Inr d"
    by (cases "if isDestroy_of command then destroyPart self command else Inr ([], [])")
       (simp_all add: generateFunctionBody_def and_then_def del: validateObjects.simps)
  from assms c v p d have "validate = validated @ fst d" "pre_record = snd d" "post_record = post"
    by (simp_all add: generateFunctionBody_def and_then_def del: validateObjects.simps)
  with c v p d show ?thesis by blast
qed



lemma destroyPart_shape:
  assumes "destroyPart self command = Inr d"
  shows "\<exists>hp. (if str_in ''ReleasePerformanceConfigurationINTEL'' (c_name command)
               then last_item (c_params command) else second_last_item (c_params command)) = Inr hp
           \<and> d = (if in_dict (m_type hp) (handles (vk self)) then
                    ([ValidateDestroyObject (m_name hp) (kVulkanObjectType (m_type hp))
                        (if str_in ''ReleasePerformanceConfigurationINTEL'' (c_name command)
                         then ''nullptr'' else ''pAllocator'')
                        (getAllocVUID self hp ''compatalloc'') (getAllocVUID self hp ''nullalloc'')],
                     [RecordDestroyObject (m_name hp) (kVulkanObjectType (m_type hp))])
                  else ([], []))"
proof -
  let ?hp = "if str_in ''ReleasePerformanceConfigurationINTEL'' (c_name command)
             then last_item (c_params command) else second_last_item (c_params command)"
  obtain hp where h: "?hp = Inr hp"
    using assms by (cases ?hp) (simp_all add: destroyPart_def and_then_def)
  have "destroyPart self command =
          Inr (if in_dict (m_type hp) (handles (vk self)) then
                    ([ValidateDestroyObject (m_name hp) (kVulkanObjectType (m_type hp))
                        (if str_in ''ReleasePerformanceConfigurationINTEL'' (c_name command)
                         then ''nullptr'' else ''pAllocator'')
                        (getAllocVUID self hp ''compatalloc'') (getAllocVUID self hp ''nullalloc'')],
                     [RecordDestroyObject (m_name hp) (kVulkanObjectType (m_type hp))])
                  else ([], []))"
    unfolding destroyPart_def h and_then_def Let_def by simp
  with assms h show ?thesis by simp
qed

lemma destroy_shape:
  assumes "generateFunctionBody fuel self command = Inr (validate, pre_record, post_record)"
    and "isDestroy_of command"
  shows "\<exists>hp isCreate validated.
           (if str_in ''ReleasePerformanceConfigurationINTEL'' (c_name command)
            then last_item (c_params command) else second_last_item (c_params command)) = Inr hp
         \<and> isCreate_of command = Inr isCreate
         \<and> validateObjects fuel self (c_params command) [] 0 (c_name command) (c_name command)
               ErrorObjLocation isCreate = Inr validated
         \<and> (if isCreate then createRecord self command else Inr []) = Inr post_record
         \<and> (in_dict (m_type hp) (handles (vk self)) \<longrightarrow>
              validate = validated
                @ [ValidateDestroyObject (m_name hp) (kVulkanObjectType (m_type hp))
                     (if str_in ''ReleasePerformanceConfigurationINTEL'' (c_name command)
                      then ''nullptr'' else ''pAllocator'')
                     (getAllocVUID self hp ''compatalloc'') (getAllocVUID self hp ''nullalloc'')]
              \<and> pre_record = [RecordDestroyObject (m_name hp) (kVulkanObjectType (m_type hp))])
         \<and> (\<not> in_dict (m_type hp) (handles (vk self)) \<longrightarrow> validate = validated \<and> pre_record = [])"
proof -
  from generateFunctionBody_parts [OF assms(1)]
  obtain isCreate validated d where
    c: "isCreate_of command = Inr isCreate"
    and v: "validateObjects fuel self (c_params command) [] 0 (c_name command) (c_name command)
               ErrorObjLocation isCreate = Inr validated"
    and p: "(if isCreate then createRecord self command else Inr []) = Inr post_record"
    and d0: "(if isDestroy_of command then destroyPart self command else Inr ([], [])) = Inr d"
    and e: "validate = validated @ fst d" "pre_record = snd d"
    by blast
  have d: "destroyPart self command = Inr d"
    using d0 assms(2) by simp
  from destroyPart_shape [OF d] obtain hp where
    hp: "(if str_in ''ReleasePerformanceConfigurationINTEL'' (c_name command)
            then last_item (c_params command) else second_last_item (c_params command)) = Inr hp"
    and dd: "d = (if in_dict (m_type hp) (handles (vk self)) then
                    ([ValidateDestroyObject (m_name hp) (kVulkanObjectType (m_type hp))
                        (if str_in ''ReleasePerformanceConfigurationINTEL'' (c_name command)
                         then ''nullptr'' else ''pAllocator'')
                        (getAllocVUID self hp ''compatalloc'') (getAllocVUID self hp ''nullalloc'')],
                     [RecordDestroyObject (m_name hp) (kVulkanObjectType (m_type hp))])
                  else ([], []))"
    by blast
  have yes: "in_dict (m_type hp) (handles (vk self)) \<longrightarrow>
              validate = validated
                @ [ValidateDestroyObject (m_name hp) (kVulkanObjectType (m_type hp))
                     (if str_in ''ReleasePerformanceConfigurationINTEL'' (c_name command)
                      then ''nullptr'' else ''pAllocator'')
                     (getAllocVUID self hp ''compatalloc'') (getAllocVUID self hp ''nullalloc'')]
              \<and> pre_record = [RecordDestroyObject (m_name hp) (kVulkanObjectType (m_type hp))]"
    using e dd by (simp del: validateObjects.simps)
  have no: "\<not> in_dict (m_type hp) (handles (vk self)) \<longrightarrow> validate = validated \<and> pre_record = []"
    using e dd by (simp del: validateObjects.simps)
  from hp c v p yes no show ?thesis by blast
qed

text \<open>C10. For a command with \<open>Destroy\<close>, \<open>Free\<close> or \<open>ReleasePerformanceConfigurationINTEL\<close> in
  its name, the handle parameter is the last parameter when the name contains
  \<open>ReleasePerformanceConfigurationINTEL\<close> and the second-to-last one otherwise. When its type
  is a handle type, the validation text ends with \<open>ValidateDestroyObject\<close> on that parameter,
  with the allocator argument \<open>pAllocator\<close> (\<open>nullptr\<close> for the release command), and the
  \<open>PreCallRecord\<close> text is the single call \<open>RecordDestroyObject\<close> on that parameter, whose
  run removes the handle it holds; otherwise no \<open>PreCallRecord\<close> text is emitted. The
  \<open>PostCallRecord\<close> text never contains \<open>RecordDestroyObject\<close>.\<close>

theorem destroy_target_and_phase:
  assumes "generateFunctionBody fuel self command = Inr (validate, pre_record, post_record)"
    and "isDestroy_of command"
  shows "\<exists>handle_param.
           (if str_in ''ReleasePerformanceConfigurationINTEL'' (c_name command)
            then last_item (c_params command) else second_last_item (c_params command)) = Inr handle_param
         \<and> (if in_dict (m_type handle_param) (handles (vk self)) then
              (\<exists>validated c n.
                 validate = validated
                   @ [ValidateDestroyObject (m_name handle_param) (kVulkanObjectType (m_type handle_param))
                        (if str_in ''ReleasePerformanceConfigurationINTEL'' (c_name command)
                         then ''nullptr'' else ''pAllocator'') c n])
              \<and> pre_record = [RecordDestroyObject (m_name handle_param)
                                (kVulkanObjectType (m_type handle_param))]
              \<and> (\<forall>h. field root (m_name handle_param) = Some (VHandle h) \<longrightarrow>
                     run_record ext result root pre_record reg
                       = Some (recordDestroyObject ext h (kVulkanObjectType (m_type handle_param)) reg))
            else pre_record = [])
         \<and> \<not> list_ex removes_record post_record"
proof -
  from destroy_shape [OF assms]
  obtain hp isCreate validated where
    hp: "(if str_in ''ReleasePerformanceConfigurationINTEL'' (c_name command)
            then last_item (c_params command) else second_last_item (c_params command)) = Inr hp"
    and p: "(if isCreate then createRecord self command else Inr []) = Inr post_record"
    and yes: "in_dict (m_type hp) (handles (vk self)) \<longrightarrow>
              validate = validated
                @ [ValidateDestroyObject (m_name hp) (kVulkanObjectType (m_type hp))
                     (if str_in ''ReleasePerformanceConfigurationINTEL'' (c_name command)
                      then ''nullptr'' else ''pAllocator'')
                     (getAllocVUID self hp ''compatalloc'') (getAllocVUID self hp ''nullalloc'')]
              \<and> pre_record = [RecordDestroyObject (m_name hp) (kVulkanObjectType (m_type hp))]"
    and no: "\<not> in_dict (m_type hp) (handles (vk self)) \<longrightarrow> validate = validated \<and> pre_record = []"
    by blast
  have post: "\<not> list_ex removes_record post_record"
  proof (cases isCreate)
    case True
    then show ?thesis using p createRecord_never_removes [of self command post_record] by simp
  next
    case False
    then show ?thesis using p by auto
  qed
  have run: "\<forall>h. field root (m_name hp) = Some (VHandle h) \<longrightarrow>
               run_record ext result root [RecordDestroyObject (m_name hp) (kVulkanObjectType (m_type hp))] reg
                 = Some (recordDestroyObject ext h (kVulkanObjectType (m_type hp)) reg)"
    by (simp add: run_record_def)
  have body: "if in_dict (m_type hp) (handles (vk self)) then
              (\<exists>validated c n.
                 validate = validated
                   @ [ValidateDestroyObject (m_name hp) (kVulkanObjectType (m_type hp))
                        (if str_in ''ReleasePerformanceConfigurationINTEL'' (c_name command)
                         then ''nullptr'' else ''pAllocator'') c n])
              \<and> pre_record = [RecordDestroyObject (m_name hp) (kVulkanObjectType (m_type hp))]
              \<and> (\<forall>h. field root (m_name hp) = Some (VHandle h) \<longrightarrow>
                     run_record ext result root pre_record reg
                       = Some (recordDestroyObject ext h (kVulkanObjectType (m_type hp)) reg))
            else pre_record = []"
  proof (cases "in_dict (m_type hp) (handles (vk self))")
    case True
    with yes have y: "validate = validated
                @ [ValidateDestroyObject (m_name hp) (kVulkanObjectType (m_type hp))
                     (if str_in ''ReleasePerformanceConfigurationINTEL'' (c_name command)
                      then ''nullptr'' else ''pAllocator'')
                     (getAllocVUID self hp ''compatalloc'') (getAllocVUID self hp ''nullalloc'')]"
      and r: "pre_record = [RecordDestroyObject (m_name hp) (kVulkanObjectType (m_type hp))]"
      by blast+
    from y have "\<exists>validated c n.
                 validate = validated
                   @ [ValidateDestroyObject (m_name hp) (kVulkanObjectType (m_type hp))
                        (if str_in ''ReleasePerformanceConfigurationINTEL'' (c_name command)
                         then ''nullptr'' else ''pAllocator'') c n]"
      by blast
    with True r run show ?thesis by simp
  next
    case False
    with no show ?thesis by simp
  qed
  from hp body post show ?thesis by blast
qed

lemma vkDestroyFence_body:
  "\<exists>v. generateFunctionBody 0 example_gen vkDestroyFence =
         Inr (v, [RecordDestroyObject ''fence'' ''kVulkanObjectTypeFence''], [])"
  by (simp add: generator_defs example_defs destroy_defs manual_vuids_lookups)

lemma vkReleasePerformanceConfigurationINTEL_body:
  "\<exists>v. generateFunctionBody 0 example_gen vkReleasePerformanceConfigurationINTEL =
         Inr (v, [RecordDestroyObject ''configuration'' ''kVulkanObjectTypePerformanceConfigurationINTEL''], [])"
  by (simp add: generator_defs example_defs destroy_defs manual_vuids_lookups)

text \<open>Witness for C10: \<open>vkDestroyFence\<close> checks and removes its second-to-last parameter
  \<open>fence\<close> against \<open>pAllocator\<close>; \<open>vkReleasePerformanceConfigurationINTEL\<close> checks and removes
  its last parameter \<open>configuration\<close> against \<open>nullptr\<close>.\<close>

theorem destroy_target_and_phase_witness:
  "(\<exists>validated c n.
      fst (projr (generateFunctionBody 0 example_gen vkDestroyFence))
        = validated @ [ValidateDestroyObject ''fence'' ''kVulkanObjectTypeFence'' ''pAllocator'' c n])
   \<and> run_record list_registry ''VK_SUCCESS''
        (VStruct [(''device'', VHandle 1), (''fence'', VHandle 5), (''pAllocator'', VNull)])
        (fst (snd (projr (generateFunctionBody 0 example_gen vkDestroyFence))))
        [(5, ''kVulkanObjectTypeFence'', VNull), (6, ''kVulkanObjectTypeFence'', VNull)]
      = Some [(6, ''kVulkanObjectTypeFence'', VNull)]
   \<and> (\<exists>validated c n.
      fst (projr (generateFunctionBody 0 example_gen vkReleasePerformanceConfigurationINTEL))
        = validated @ [ValidateDestroyObject ''configuration''
                         ''kVulkanObjectTypePerformanceConfigurationINTEL'' ''nullptr'' c n])
   \<and> run_record list_registry ''VK_SUCCESS''
        (VStruct [(''device'', VHandle 1), (''configuration'', VHandle 9)])
        (fst (snd (projr (generateFunctionBody 0 example_gen vkReleasePerformanceConfigurationINTEL))))
        [(9, ''kVulkanObjectTypePerformanceConfigurationINTEL'', VNull)]
      = Some []"
proof -
  let ?fence = "(mk_member ''fence'' ''VkFence'')\<lparr> m_optional := True \<rparr>"
  let ?config = "(mk_member ''configuration'' ''VkPerformanceConfigurationINTEL'')\<lparr> m_optional := True \<rparr>"
  let ?args = "VStruct [(''device'', VHandle 1), (''fence'', VHandle 5), (''pAllocator'', VNull)]"
  let ?args' = "VStruct [(''device'', VHandle 1), (''configuration'', VHandle 9)]"
  let ?reg = "[(5, ''kVulkanObjectTypeFence'', VNull), (6, ''kVulkanObjectTypeFence'', VNull)]"
  let ?reg' = "[(9 :: nat, ''kVulkanObjectTypePerformanceConfigurationINTEL'', VNull)]"
  obtain v where fb: "generateFunctionBody 0 example_gen vkDestroyFence =
         Inr (v, [RecordDestroyObject ''fence'' ''kVulkanObjectTypeFence''], [])"
    using vkDestroyFence_body by blast
  have d: "isDestroy_of vkDestroyFence"
    by (simp add: isDestroy_of_def destroy_defs)
  from destroy_target_and_phase [OF fb d, of ?args list_registry "''VK_SUCCESS''" ?reg]
  obtain hp where
    hp: "(if str_in ''ReleasePerformanceConfigurationINTEL'' (c_name vkDestroyFence)
          then last_item (c_params vkDestroyFence) else second_last_item (c_params vkDestroyFence)) = Inr hp"
    and b: "if in_dict (m_type hp) (handles (vk example_gen)) then
              (\<exists>validated c n.
                 v = validated
                   @ [ValidateDestroyObject (m_name hp) (kVulkanObjectType (m_type hp))
                        (if str_in ''ReleasePerformanceConfigurationINTEL'' (c_name vkDestroyFence)
                         then ''nullptr'' else ''pAllocator'') c n])
              \<and> [RecordDestroyObject ''fence'' ''kVulkanObjectTypeFence'']
                  = [RecordDestroyObject (m_name hp) (kVulkanObjectType (m_type hp))]
              \<and> (\<forall>h. field ?args (m_name hp) = Some (VHandle h) \<longrightarrow>
                     run_record list_registry ''VK_SUCCESS'' ?args
                       [RecordDestroyObject ''fence'' ''kVulkanObjectTypeFence''] ?reg
                       = Some (recordDestroyObject list_registry h (kVulkanObjectType (m_type hp)) ?reg))
            else [RecordDestroyObject ''fence'' ''kVulkanObjectTypeFence''] = []"
    by blast
  have "hp = ?fence"
    using hp by (simp add: destroy_defs second_last_item_def example_defs)
  with b have first:
    "(\<exists>validated c n. v = validated @ [ValidateDestroyObject ''fence'' ''kVulkanObjectTypeFence'' ''pAllocator'' c n])
     \<and> run_record list_registry ''VK_SUCCESS'' ?args
          [RecordDestroyObject ''fence'' ''kVulkanObjectTypeFence''] ?reg
        = Some [(6, ''kVulkanObjectTypeFence'', VNull)]"
    by (simp add: in_dict_def example_defs destroy_defs kVulkanObjectType_def list_registry_def)
  obtain v' where fb': "generateFunctionBody 0 example_gen vkReleasePerformanceConfigurationINTEL =
         Inr (v', [RecordDestroyObject ''configuration'' ''kVulkanObjectTypePerformanceConfigurationINTEL''], [])"
    using vkReleasePerformanceConfigurationINTEL_body by blast
  have d': "isDestroy_of vkReleasePerformanceConfigurationINTEL"
    by (simp add: isDestroy_of_def destroy_defs)
  from destroy_target_and_phase [OF fb' d', of ?args' list_registry "''VK_SUCCESS''" ?reg']
  obtain hp' where
    hp': "(if str_in ''ReleasePerformanceConfigurationINTEL'' (c_name vkReleasePerformanceConfigurationINTEL)
          then last_item (c_params vkReleasePerformanceConfigurationINTEL)
          else second_last_item (c_params vkReleasePerformanceConfigurationINTEL)) = Inr hp'"
    and b': "if in_dict (m_type hp') (handles (vk example_gen)) then
              (\<exists>validated c n.
                 v' = validated
                   @ [ValidateDestroyObject (m_name hp') (kVulkanObjectType (m_type hp'))
                        (if str_in ''ReleasePerformanceConfigurationINTEL''
                              (c_name vkReleasePerformanceConfigurationINTEL)
                         then ''nullptr'' else ''pAllocator'') c n])
              \<and> [RecordDestroyObject ''configuration'' ''kVulkanObjectTypePerformanceConfigurationINTEL'']
                  = [RecordDestroyObject (m_name hp') (kVulkanObjectType (m_type hp'))]
              \<and> (\<forall>h. field ?args' (m_name hp') = Some (VHandle h) \<longrightarrow>
                     run_record list_registry ''VK_SUCCESS'' ?args'
                       [RecordDestroyObject ''configuration'' ''kVulkanObjectTypePerformanceConfigurationINTEL'']
                       ?reg'
                       = Some (recordDestroyObject list_registry h (kVulkanObjectType (m_type hp')) ?reg'))
            else [RecordDestroyObject ''configuration'' ''kVulkanObjectTypePerformanceConfigurationINTEL''] = []"
    by blast
  have "hp' = ?config"
    using hp' by (simp add: destroy_defs last_item_def example_defs)
  with b' have second:
    "(\<exists>validated c n. v' = validated @ [ValidateDestroyObject ''configuration''
                         ''kVulkanObjectTypePerformanceConfigurationINTEL'' ''nullptr'' c n])
     \<and> run_record list_registry ''VK_SUCCESS'' ?args'
          [RecordDestroyObject ''configuration'' ''kVulkanObjectTypePerformanceConfigurationINTEL''] ?reg'
        = Some []"
    by (simp add: in_dict_def example_defs destroy_defs kVulkanObjectType_def list_registry_def)
  from first second show ?thesis
    unfolding fb fb' by simp
qed

text \<open>C8. For a destroy or free command whose handle parameter has a handle type, the two
  allocator identifiers passed to \<open>ValidateDestroyObject\<close> (the last statement of the
  validation text) are, for \<open>compatalloc\<close> and \<open>nullalloc\<close> alike: the entry of \<open>manual_vuids\<close>
  under the parameter's name and the suffix if there is one, else the entry under the
  parameter's type, name and suffix if there is one, else \<open>kVUIDUndefined\<close>; and
  \<open>kVUIDUndefined\<close> for both, without any lookup, when \<open>AreAllocVUIDsEnabled\<close> does not
  return \<open>True\<close> for the target.\<close>

theorem allocator_vuid_selection:
  assumes "generateFunctionBody fuel self command = Inr (validate, pre_record, post_record)"
    and "isDestroy_of command"
    and "(if str_in ''ReleasePerformanceConfigurationINTEL'' (c_name command)
          then last_item (c_params command) else second_last_item (c_params command)) = Inr handle_param"
    and "in_dict (m_type handle_param) (handles (vk self))"
  shows "validate \<noteq> [] \<and> destroy_vuids (last validate) =
           Some (if AreAllocVUIDsEnabled (targetApiName self) = Some True then
                   (case map_of manual_vuids (m_name handle_param @ ''-compatalloc'') of
                      Some v \<Rightarrow> v
                    | None \<Rightarrow>
                        (case map_of manual_vuids
                                (m_type handle_param @ ''-'' @ m_name handle_param @ ''-compatalloc'') of
                           Some v \<Rightarrow> v
                         | None \<Rightarrow> ''kVUIDUndefined''))
                 else ''kVUIDUndefined'',
                 if AreAllocVUIDsEnabled (targetApiName self) = Some True then
                   (case map_of manual_vuids (m_name handle_param @ ''-nullalloc'') of
                      Some v \<Rightarrow> v
                    | None \<Rightarrow>
                        (case map_of manual_vuids
                                (m_type handle_param @ ''-'' @ m_name handle_param @ ''-nullalloc'') of
                           Some v \<Rightarrow> v
                         | None \<Rightarrow> ''kVUIDUndefined''))
                 else ''kVUIDUndefined'')"
proof -
  from destroy_shape [OF assms(1,2)] assms(3,4)
  obtain validated where
    v: "validate = validated
                @ [ValidateDestroyObject (m_name handle_param) (kVulkanObjectType (m_type handle_param))
                     (if str_in ''ReleasePerformanceConfigurationINTEL'' (c_name command)
                      then ''nullptr'' else ''pAllocator'')
                     (getAllocVUID self handle_param ''compatalloc'')
                     (getAllocVUID self handle_param ''nullalloc'')]"
    by auto
  have g: "getAllocVUID self handle_param allocType =
             (if AreAllocVUIDsEnabled (targetApiName self) = Some True then
                (case map_of manual_vuids (m_name handle_param @ ''-'' @ allocType) of
                   Some v \<Rightarrow> v
                 | None \<Rightarrow>
                     (case map_of manual_vuids
                             (m_type handle_param @ ''-'' @ m_name handle_param @ ''-'' @ allocType) of
                        Some v \<Rightarrow> v
                      | None \<Rightarrow> ''kVUIDUndefined''))
              else ''kVUIDUndefined'')" for allocType
    unfolding getAllocVUID_def kVUIDUndefined_def by simp
  have k: "''-'' @ ''compatalloc'' = ''-compatalloc''" "''-'' @ ''nullalloc'' = ''-nullalloc''"
    by simp_all
  show ?thesis
    unfolding v g k by simp
qed

lemma destroy_bodies:
  "\<exists>v r p. generateFunctionBody 0 example_gen vkDestroyFence = Inr (v, r, p)"
  "\<exists>v r p. generateFunctionBody 0 example_gen vkDestroyVideoSessionKHR = Inr (v, r, p)"
  "\<exists>v r p. generateFunctionBody 0 example_gen vkFreeMemory = Inr (v, r, p)"
  "\<exists>v r p. generateFunctionBody 0 (example_gen\<lparr> targetApiName := ''vulkansc'' \<rparr>) vkDestroyFence
            = Inr (v, r, p)"
  by (simp_all add: generator_defs example_defs destroy_defs manual_vuids_lookups)

text \<open>Witness for C8: \<open>fence\<close> is found under its name, \<open>videoSession\<close> under its type and
  name, \<open>memory\<close> under neither, and nothing is looked up for the target \<open>vulkansc\<close>.\<close>

theorem allocator_vuid_selection_witness:
  "map_sum id (\<lambda>b. destroy_vuids (last (fst b))) (generateFunctionBody 0 example_gen vkDestroyFence)
     = Inr (Some (quoted ''VUID-vkDestroyFence-fence-01121'', quoted ''VUID-vkDestroyFence-fence-01122''))
   \<and> map_sum id (\<lambda>b. destroy_vuids (last (fst b)))
        (generateFunctionBody 0 example_gen vkDestroyVideoSessionKHR)
     = Inr (Some (quoted ''VUID-vkDestroyVideoSessionKHR-videoSession-07193'',
                  quoted ''VUID-vkDestroyVideoSessionKHR-videoSession-07194''))
   \<and> map_sum id (\<lambda>b. destroy_vuids (last (fst b))) (generateFunctionBody 0 example_gen vkFreeMemory)
     = Inr (Some (''kVUIDUndefined'', ''kVUIDUndefined''))
   \<and> map_sum id (\<lambda>b. destroy_vuids (last (fst b)))
        (generateFunctionBody 0 (example_gen\<lparr> targetApiName := ''vulkansc'' \<rparr>) vkDestroyFence)
     = Inr (Some (''kVUIDUndefined'', ''kVUIDUndefined''))"
proof -
  have hp: "(if str_in ''ReleasePerformanceConfigurationINTEL'' (c_name (destroy_command n h t))
             then last_item (c_params (destroy_command n h t))
             else second_last_item (c_params (destroy_command n h t)))
            = Inr ((mk_member h t)\<lparr> m_optional := True \<rparr>)"
    if "\<not> str_in ''ReleasePerformanceConfigurationINTEL'' n" for n h t
    using that by (simp add: destroy_command_def second_last_item_def)
  obtain v1 r1 p1 where b1: "generateFunctionBody 0 example_gen vkDestroyFence = Inr (v1, r1, p1)"
    using destroy_bodies(1) by blast
  have "destroy_vuids (last v1)
          = Some (quoted ''VUID-vkDestroyFence-fence-01121'', quoted ''VUID-vkDestroyFence-fence-01122'')"
    using allocator_vuid_selection [OF b1 _ hp [of "''vkDestroyFence''" "''fence''" "''VkFence''",
            folded vkDestroyFence_def]]
    by (simp add: isDestroy_of_def destroy_defs in_dict_def example_defs manual_vuids_lookups
          AreAllocVUIDsEnabled_def)
  then have w1: "map_sum id (\<lambda>b. destroy_vuids (last (fst b)))
                   (generateFunctionBody 0 example_gen vkDestroyFence)
     = Inr (Some (quoted ''VUID-vkDestroyFence-fence-01121'', quoted ''VUID-vkDestroyFence-fence-01122''))"
    unfolding b1 by simp
  obtain v2 r2 p2 where b2: "generateFunctionBody 0 example_gen vkDestroyVideoSessionKHR = Inr (v2, r2, p2)"
    using destroy_bodies(2) by blast
  have "destroy_vuids (last v2)
          = Some (quoted ''VUID-vkDestroyVideoSessionKHR-videoSession-07193'',
                  quoted ''VUID-vkDestroyVideoSessionKHR-videoSession-07194'')"
    using allocator_vuid_selection [OF b2 _ hp [of "''vkDestroyVideoSessionKHR''" "''videoSession''"
            "''VkVideoSessionKHR''", folded vkDestroyVideoSessionKHR_def]]
    by (simp add: isDestroy_of_def destroy_defs in_dict_def example_defs manual_vuids_lookups
          AreAllocVUIDsEnabled_def)
  then have w2: "map_sum id (\<lambda>b. destroy_vuids (last (fst b)))
        (generateFunctionBody 0 example_gen vkDestroyVideoSessionKHR)
     = Inr (Some (quoted ''VUID-vkDestroyVideoSessionKHR-videoSession-07193'',
                  quoted ''VUID-vkDestroyVideoSessionKHR-videoSession-07194''))"
    unfolding b2 by simp
  obtain v3 r3 p3 where b3: "generateFunctionBody 0 example_gen vkFreeMemory = Inr (v3, r3, p3)"
    using destroy_bodies(3) by blast
  have "destroy_vuids (last v3) = Some (''kVUIDUndefined'', ''kVUIDUndefined'')"
    using allocator_vuid_selection [OF b3 _ hp [of "''vkFreeMemory''" "''memory''" "''VkDeviceMemory''",
            folded vkFreeMemory_def]]
    by (simp add: isDestroy_of_def destroy_defs in_dict_def example_defs manual_vuids_lookups
          AreAllocVUIDsEnabled_def)
  then have w3: "map_sum id (\<lambda>b. destroy_vuids (last (fst b)))
                   (generateFunctionBody 0 example_gen vkFreeMemory)
     = Inr (Some (''kVUIDUndefined'', ''kVUIDUndefined''))"
    unfolding b3 by simp
  obtain v4 r4 p4 where b4: "generateFunctionBody 0 (example_gen\<lparr> targetApiName := ''vulkansc'' \<rparr>)
                               vkDestroyFence = Inr (v4, r4, p4)"
    using destroy_bodies(4) by blast
  have "destroy_vuids (last v4) = Some (''kVUIDUndefined'', ''kVUIDUndefined'')"
    using allocator_vuid_selection [OF b4 _ hp [of "''vkDestroyFence''" "''fence''" "''VkFence''",
            folded vkDestroyFence_def]]
    by (simp add: isDestroy_of_def destroy_defs in_dict_def example_defs AreAllocVUIDsEnabled_def)
  then have w4: "map_sum id (\<lambda>b. destroy_vuids (last (fst b)))
        (generateFunctionBody 0 (example_gen\<lparr> targetApiName := ''vulkansc'' \<rparr>) vkDestroyFence)
     = Inr (Some (''kVUIDUndefined'', ''kVUIDUndefined''))"
    unfolding b4 by simp
  from w1 w2 w3 w4 show ?thesis by blast
qed

section \<open>The validation walk\<close>

text \<open>\<open>exec_vs db ix root body\<close>: the calls of \<open>ValidateObject\<close> that the emitted statements
  \<open>body\<close> make, in order, on the arguments \<open>root\<close>; \<open>None\<close> when an argument does not have the
  shape that the statements read.\<close>

definition exec_vs :: "32 word \<Rightarrow> (nat \<Rightarrow> nat) \<Rightarrow> rval \<Rightarrow> vstmt list \<Rightarrow> vcall list option" where
  "exec_vs db ix root body = concat_opt (map (exec_v db ix root) body)"

text \<open>The \<open>ValidateObject\<close> statements of an emitted statement, whatever guards them.\<close>

fun validate_calls :: "vstmt \<Rightarrow> vstmt list" where
  "validate_calls (ValidateObject e t nullAllowed paramVUID parentVUID l) =
     [ValidateObject e t nullAllowed paramVUID parentVUID l]"
| "validate_calls (VIf c body) = concat (map validate_calls body)"
| "validate_calls (VFor k e body) = concat (map validate_calls body)"
| "validate_calls (DeclLocation v l) = []"
| "validate_calls (ValidateDestroyObject n t allocator compatVUID nullVUID) = []"

text \<open>The parent identifier and the validated expression of a \<open>ValidateObject\<close> statement.\<close>

fun parentVUID_arg :: "vstmt \<Rightarrow> string option" where
  "parentVUID_arg (ValidateObject e t nullAllowed paramVUID parentVUID l) = Some parentVUID"
| "parentVUID_arg (VIf c body) = None"
| "parentVUID_arg (VFor k e body) = None"
| "parentVUID_arg (DeclLocation v l) = None"
| "parentVUID_arg (ValidateDestroyObject n t allocator compatVUID nullVUID) = None"

fun validated_expr :: "vstmt \<Rightarrow> cexpr option" where
  "validated_expr (ValidateObject e t nullAllowed paramVUID parentVUID l) = Some e"
| "validated_expr (VIf c body) = None"
| "validated_expr (VFor k e body) = None"
| "validated_expr (DeclLocation v l) = None"
| "validated_expr (ValidateDestroyObject n t allocator compatVUID nullVUID) = None"

declare validateObjects.simps [simp del] validateMember.simps [simp del]

lemma validateMember_skipped:
  "isTopLevelCreate \<Longrightarrow> member = last members \<Longrightarrow>
   validateMember fuel self members prefix k parentName topCommand errorLoc isTopLevelCreate member = Inr []"
  by (simp add: validateMember.simps)

lemma validateMember_handle:
  "in_dict (m_type member) (handles (vk self)) \<Longrightarrow> \<not> (isTopLevelCreate \<and> member = last members) \<Longrightarrow>
   validateMember fuel self members prefix k parentName topCommand errorLoc isTopLevelCreate member
     = Inr (validateHandle self members prefix k parentName topCommand errorLoc member)"
  by (auto simp: validateMember.simps)

lemma concat_results_Inr:
  "concat_results rs = Inr code \<Longrightarrow> \<exists>blocks. rs = map Inr blocks \<and> code = concat blocks"
proof (induction rs arbitrary: code)
  case Nil
  then show ?case by simp
next
  case (Cons r rs)
  then obtain x where r: "r = Inr x"
    by (cases r) simp_all
  from Cons.prems r obtain y where y: "concat_results rs = Inr y" and c: "code = x @ y"
    by (cases "concat_results rs") simp_all
  from Cons.IH [OF y] obtain blocks where "rs = map Inr blocks" "y = concat blocks"
    by blast
  with r c have "r # rs = map Inr (x # blocks) \<and> code = concat (x # blocks)"
    by simp
  then show ?case by (rule exI [of _ "x # blocks"])
qed

lemma concat_opt_append:
  "concat_opt (xs @ ys) =
     (case concat_opt xs of None \<Rightarrow> None
      | Some a \<Rightarrow> (case concat_opt ys of None \<Rightarrow> None | Some b \<Rightarrow> Some (a @ b)))"
proof (induction xs)
  case Nil
  then show ?case by (simp split: option.splits)
next
  case (Cons x xs)
  then show ?case by (cases x) (simp_all split: option.splits)
qed

lemma exec_vs_append:
  "exec_vs db ix root (a @ b) =
     (case exec_vs db ix root a of None \<Rightarrow> None
      | Some x \<Rightarrow> (case exec_vs db ix root b of None \<Rightarrow> None | Some y \<Rightarrow> Some (x @ y)))"
  unfolding exec_vs_def by (simp add: concat_opt_append)

lemma exec_vs_concat:
  "exec_vs db ix root (concat blocks) = concat_opt (map (exec_vs db ix root) blocks)"
proof (induction blocks)
  case Nil
  then show ?case by (simp add: exec_vs_def)
next
  case (Cons b bs)
  then show ?case
    by (cases "exec_vs db ix root b") (simp_all add: exec_vs_append)
qed

subsection \<open>The base pipeline handle\<close>

text \<open>C7. A member of a handle type that is not an array and has \<open>basePipelineHandle\<close> in its
  name is validated, when the walk reaches it, exactly when the \<open>flags\<close> field beside it has a bit
  of \<open>VK_PIPELINE_CREATE_DERIVATIVE_BIT\<close> (\<open>derivative_bit\<close>) and the \<open>basePipelineIndex\<close> field
  beside it is \<open>-1\<close>. The call then passes \<open>false\<close> for \<open>null_allowed\<close> and the entry of
  \<open>manual_vuids\<close> under the parent's name, \<open>-\<close> and the member's name, or \<open>kVUIDUndefined\<close> when
  there is none; otherwise no call is made.\<close>

theorem base_pipeline_handle_gate:
  assumes "in_dict (m_type member) (handles (vk self))"
    and "\<not> truthy (m_length member)"
    and "str_in ''basePipelineHandle'' (m_name member)"
    and "\<not> (isTopLevelCreate \<and> member = last members)"
    and "resolve ix root prefix = Some scope"
    and "field scope ''flags'' = Some (VU32 flags)"
    and "field scope ''basePipelineIndex'' = Some (VI32 index)"
    and "field scope (m_name member) = Some (VHandle h)"
  shows "\<exists>block.
           validateMember fuel self members prefix k parentName topCommand errorLoc isTopLevelCreate member
             = Inr block
         \<and> exec_vs derivative_bit ix root block =
             Some (if and flags derivative_bit \<noteq> 0 \<and> index = - 1 then
                     [CallValidateObject (VHandle h) (kVulkanObjectType (m_type member)) False
                        (case map_of manual_vuids (parentName @ ''-'' @ m_name member) of
                           None \<Rightarrow> ''kVUIDUndefined'' | Some v \<Rightarrow> v)
                        (parentVUID_of self members parentName topCommand member)
                        (LVar ErrorObjLocation)]
                   else [])"
proof -
  have b: "validateHandle self members prefix k parentName topCommand errorLoc member =
             [VIf (Derivative prefix)
                [ValidateObject (CVar prefix (m_name member)) (kVulkanObjectType (m_type member)) False
                   (case map_of manual_vuids (parentName @ ''-'' @ m_name member) of
                      None \<Rightarrow> ''kVUIDUndefined'' | Some v \<Rightarrow> v)
                   (parentVUID_of self members parentName topCommand member) (LVar ErrorObjLocation)]]"
    using assms(2,3) unfolding validateHandle_def kVUIDUndefined_def Let_def by simp
  have "exec_vs derivative_bit ix root
          (validateHandle self members prefix k parentName topCommand errorLoc member) =
             Some (if and flags derivative_bit \<noteq> 0 \<and> index = - 1 then
                     [CallValidateObject (VHandle h) (kVulkanObjectType (m_type member)) False
                        (case map_of manual_vuids (parentName @ ''-'' @ m_name member) of
                           None \<Rightarrow> ''kVUIDUndefined'' | Some v \<Rightarrow> v)
                        (parentVUID_of self members parentName topCommand member)
                        (LVar ErrorObjLocation)]
                   else [])"
    unfolding b exec_vs_def using assms(5-8) by simp
  with validateMember_handle [OF assms(1,4)] show ?thesis by simp
qed

definition pipeline_info_members :: "Member list" where
  "pipeline_info_members =
     [mk_member ''sType'' ''VkStructureType'', mk_member ''flags'' ''VkPipelineCreateFlags'',
      (mk_member ''basePipelineHandle'' ''VkPipeline'')\<lparr> m_optional := True \<rparr>,
      mk_member ''basePipelineIndex'' ''int32_t'']"

definition derivative_args :: "32 word \<Rightarrow> 32 word \<Rightarrow> rval" where
  "derivative_args flags index =
     VStruct [(''pCreateInfos'',
               VArray [VStruct [(''flags'', VU32 flags), (''basePipelineHandle'', VHandle 9),
                                (''basePipelineIndex'', VI32 index)]])]"

definition basePipelineHandle_block :: "vstmt list" where
  "basePipelineHandle_block =
     projr (validateMember 0 example_gen pipeline_info_members [PIdx ''pCreateInfos'' 0] 1
              ''VkGraphicsPipelineCreateInfo'' ''vkCreateGraphicsPipelines'' (IndexLoc 0) False
              (pipeline_info_members ! 2))"

text \<open>Witness for C7: in the first element of \<open>pCreateInfos\<close> of \<open>vkCreateGraphicsPipelines\<close>
  the handle is validated under flags \<open>4\<close> and index \<open>-1\<close>, and is not under flags \<open>0\<close>, nor under
  index \<open>0\<close>.\<close>

theorem base_pipeline_handle_gate_witness:
  "exec_vs 4 (\<lambda>k. 0) (derivative_args 4 (- 1)) basePipelineHandle_block
     = Some [CallValidateObject (VHandle 9) ''kVulkanObjectTypePipeline'' False
               (quoted ''VUID-VkGraphicsPipelineCreateInfo-flags-07984'') ''kVUIDUndefined''
               (LVar ErrorObjLocation)]
   \<and> exec_vs 4 (\<lambda>k. 0) (derivative_args 0 (- 1)) basePipelineHandle_block = Some []
   \<and> exec_vs 4 (\<lambda>k. 0) (derivative_args 4 0) basePipelineHandle_block = Some []"
proof -
  let ?m = "pipeline_info_members ! 2"
  have h1: "in_dict (m_type ?m) (handles (vk example_gen))"
    by (simp add: pipeline_info_members_def in_dict_def example_defs mk_member_def)
  have h2: "\<not> truthy (m_length ?m)"
    by (simp add: pipeline_info_members_def mk_member_def)
  have h3: "str_in ''basePipelineHandle'' (m_name ?m)"
    by (simp add: pipeline_info_members_def mk_member_def)
  have h4: "\<not> (False \<and> ?m = last pipeline_info_members)"
    by simp
  have h5: "resolve (\<lambda>k. 0) (derivative_args f i) [PIdx ''pCreateInfos'' 0]
              = Some (VStruct [(''flags'', VU32 f), (''basePipelineHandle'', VHandle 9),
                                (''basePipelineIndex'', VI32 i)])" for f i
    by (simp add: derivative_args_def)
  have h6: "field (VStruct [(''flags'', VU32 f), (''basePipelineHandle'', VHandle 9),
                                (''basePipelineIndex'', VI32 i)]) ''flags'' = Some (VU32 f)" for f i
    by simp
  have h7: "field (VStruct [(''flags'', VU32 f), (''basePipelineHandle'', VHandle 9),
                                (''basePipelineIndex'', VI32 i)]) ''basePipelineIndex'' = Some (VI32 i)"
    for f i
    by simp
  have h8: "field (VStruct [(''flags'', VU32 f), (''basePipelineHandle'', VHandle 9),
                                (''basePipelineIndex'', VI32 i)]) (m_name ?m) = Some (VHandle 9)" for f i
    by (simp add: pipeline_info_members_def mk_member_def)
  have p: "parentVUID_of example_gen pipeline_info_members ''VkGraphicsPipelineCreateInfo''
             ''vkCreateGraphicsPipelines'' ?m = ''kVUIDUndefined''"
    by (simp add: parentVUID_of_def pipeline_info_members_def mk_member_def parent_exception_list_def
          in_dict_def example_defs kVUIDUndefined_def)
  have t: "kVulkanObjectType (m_type ?m) = ''kVulkanObjectTypePipeline''"
          "''VkGraphicsPipelineCreateInfo'' @ ''-'' @ m_name ?m
             = ''VkGraphicsPipelineCreateInfo-basePipelineHandle''"
    by (simp_all add: pipeline_info_members_def mk_member_def kVulkanObjectType_def)
  have run: "exec_vs 4 (\<lambda>k. 0) (derivative_args f i) basePipelineHandle_block =
          Some (if and f 4 \<noteq> 0 \<and> i = - 1 then
                  [CallValidateObject (VHandle 9) ''kVulkanObjectTypePipeline'' False
                     (quoted ''VUID-VkGraphicsPipelineCreateInfo-flags-07984'') ''kVUIDUndefined''
                     (LVar ErrorObjLocation)]
                else [])" for f i
    using base_pipeline_handle_gate [OF h1 h2 h3 h4 h5 h6 h7 h8, where fuel = 0 and k = 1
            and parentName = "''VkGraphicsPipelineCreateInfo''"
            and topCommand = "''vkCreateGraphicsPipelines''" and errorLoc = "IndexLoc 0"
            and derivative_bit = 4, of f i]
    unfolding basePipelineHandle_block_def p t manual_vuids_lookups by auto
  show ?thesis
    unfolding run by simp
qed

subsection \<open>The parent identifier\<close>

lemma validateHandle_calls:
  "\<exists>e t nullAllowed paramVUID l.
     concat (map validate_calls (validateHandle self members prefix k parentName topCommand errorLoc member))
       = [ValidateObject e t nullAllowed paramVUID
            (parentVUID_of self members parentName topCommand member) l]
     \<and> e = (if truthy (m_length member) then CIdx prefix (m_name member) k
            else CVar prefix (m_name member))"
  by (auto simp: validateHandle_def Let_def)

text \<open>C4, as amended. For a member of a handle type that the walk reaches, in the list
  \<open>members\<close> being walked (the parameters of the command, or the members of a structure):
  the parent identifier is \<open>kVUIDUndefined\<close> when the member is the first of the list or its type is
  in \<open>parent_exception_list\<close>; otherwise it is the \<open>-parent\<close> identifier of the member when the
  first of the list has type \<open>VkDevice\<close>; otherwise the \<open>-commonparent\<close> identifier when the list
  has two or more members of handle types; otherwise the identifier of \<open>image\<close> in
  \<open>vkCreateImageView\<close> for that member in a structure, and \<open>kVUIDUndefined\<close> in every other
  case.\<close>

theorem parent_vuid_selection:
  assumes "in_dict (m_type member) (handles (vk self))"
    and "\<not> (isTopLevelCreate \<and> member = last members)"
  shows "\<exists>block.
           validateMember fuel self members prefix k parentName topCommand errorLoc isTopLevelCreate member
             = Inr block
         \<and> map parentVUID_arg (concat (map validate_calls block)) =
             [Some (if member = hd members \<or> m_type member \<in> set parent_exception_list
                    then ''kVUIDUndefined''
                    else if m_type (hd members) = ''VkDevice''
                    then getVUID self (valid_vuids self)
                           (''VUID-'' @ vuid_parent self parentName @ ''-'' @ m_name member @ ''-parent'')
                    else if 2 \<le> length (filter (\<lambda>x. in_dict (m_type x) (handles (vk self))) members)
                    then getVUID self (valid_vuids self)
                           (''VUID-'' @ vuid_parent self parentName @ ''-commonparent'')
                    else if topCommand \<noteq> parentName \<and> topCommand = ''vkCreateImageView''
                            \<and> m_name member = ''image''
                    then quoted ''VUID-vkCreateImageView-image-09179''
                    else ''kVUIDUndefined'')]"
proof -
  from validateHandle_calls [of self members prefix k parentName topCommand errorLoc member]
  have "map parentVUID_arg
          (concat (map validate_calls
                     (validateHandle self members prefix k parentName topCommand errorLoc member)))
        = [Some (parentVUID_of self members parentName topCommand member)]"
    by auto
  moreover have "parentVUID_of self members parentName topCommand member =
                   (if member = hd members \<or> m_type member \<in> set parent_exception_list
                    then ''kVUIDUndefined''
                    else if m_type (hd members) = ''VkDevice''
                    then getVUID self (valid_vuids self)
                           (''VUID-'' @ vuid_parent self parentName @ ''-'' @ m_name member @ ''-parent'')
                    else if 2 \<le> length (filter (\<lambda>x. in_dict (m_type x) (handles (vk self))) members)
                    then getVUID self (valid_vuids self)
                           (''VUID-'' @ vuid_parent self parentName @ ''-commonparent'')
                    else if topCommand \<noteq> parentName \<and> topCommand = ''vkCreateImageView''
                            \<and> m_name member = ''image''
                    then quoted ''VUID-vkCreateImageView-image-09179''
                    else ''kVUIDUndefined'')"
    unfolding parentVUID_of_def kVUIDUndefined_def by auto
  ultimately show ?thesis
    using validateMember_handle [OF assms] by simp
qed

text \<open>The parent identifiers passed for parameter \<open>i\<close> of a command.\<close>

definition parent_vuid_of_param :: "Command \<Rightarrow> nat \<Rightarrow> string option list" where
  "parent_vuid_of_param command i =
     map parentVUID_arg
       (concat (map validate_calls
          (projr (validateMember 0 example_gen (c_params command) [] 0 (c_name command) (c_name command)
                    ErrorObjLocation False (c_params command ! i)))))"

text \<open>Witness for C4: \<open>device\<close> of \<open>vkDestroyFence\<close> is the first parameter, \<open>fence\<close> gets its
  \<open>-parent\<close> identifier, \<open>surface\<close> of \<open>vkDestroySurfaceKHR\<close> has a type of the exception list, and
  \<open>pipeline\<close> of \<open>vkCmdBindPipeline\<close>, whose first parameter is a command buffer, gets the
  \<open>-commonparent\<close> identifier.\<close>

theorem parent_vuid_selection_witness:
  "parent_vuid_of_param vkDestroyFence 0 = [Some ''kVUIDUndefined'']
   \<and> parent_vuid_of_param vkDestroyFence 1 = [Some (quoted ''VUID-vkDestroyFence-fence-parent'')]
   \<and> parent_vuid_of_param vkDestroySurfaceKHR 1 = [Some ''kVUIDUndefined'']
   \<and> parent_vuid_of_param vkCmdBindPipeline 2 = [Some (quoted ''VUID-vkCmdBindPipeline-commonparent'')]"
proof -
  have sel: "parent_vuid_of_param command i =
             [Some (if c_params command ! i = hd (c_params command)
                       \<or> m_type (c_params command ! i) \<in> set parent_exception_list
                    then ''kVUIDUndefined''
                    else if m_type (hd (c_params command)) = ''VkDevice''
                    then getVUID example_gen (valid_vuids example_gen)
                           (''VUID-'' @ vuid_parent example_gen (c_name command) @ ''-''
                            @ m_name (c_params command ! i) @ ''-parent'')
                    else if 2 \<le> length (filter (\<lambda>x. in_dict (m_type x) (handles (vk example_gen)))
                                           (c_params command))
                    then getVUID example_gen (valid_vuids example_gen)
                           (''VUID-'' @ vuid_parent example_gen (c_name command) @ ''-commonparent'')
                    else if c_name command \<noteq> c_name command \<and> c_name command = ''vkCreateImageView''
                            \<and> m_name (c_params command ! i) = ''image''
                    then quoted ''VUID-vkCreateImageView-image-09179''
                    else ''kVUIDUndefined'')]"
    if "in_dict (m_type (c_params command ! i)) (handles (vk example_gen))" for command i
    using parent_vuid_selection [OF that, where isTopLevelCreate = False
            and members = "c_params command" and fuel = 0 and prefix = "[]" and k = 0
            and parentName = "c_name command" and topCommand = "c_name command"
            and errorLoc = ErrorObjLocation]
    unfolding parent_vuid_of_param_def by auto
  have w1: "parent_vuid_of_param vkDestroyFence 0 = [Some ''kVUIDUndefined'']"
    by (subst sel) (simp_all add: destroy_defs in_dict_def example_defs)
  have w2: "parent_vuid_of_param vkDestroyFence 1 = [Some (quoted ''VUID-vkDestroyFence-fence-parent'')]"
    by (subst sel)
       (simp_all add: destroy_defs in_dict_def example_defs parent_exception_list_def vuid_parent_def)
  have w3: "parent_vuid_of_param vkDestroySurfaceKHR 1 = [Some ''kVUIDUndefined'']"
    by (subst sel)
       (simp_all add: command_defs in_dict_def example_defs parent_exception_list_def)
  have w4: "parent_vuid_of_param vkCmdBindPipeline 2
              = [Some (quoted ''VUID-vkCmdBindPipeline-commonparent'')]"
    by (subst sel)
       (simp_all add: command_defs in_dict_def example_defs parent_exception_list_def vuid_parent_def)
  from w1 w2 w3 w4 show ?thesis by blast
qed

text \<open>Counterexample to C4 as stated. The first parameter of \<open>vkCreateBufferView\<close> is a
  \<open>VkDevice\<close>, and \<open>buffer\<close> of \<open>VkBufferViewCreateInfo\<close> is not the first argument of the call and
  its type is not in the exception list; its parent identifier is \<open>kVUIDUndefined\<close>, not a \<open>-parent\<close>
  identifier, because \<open>members[0]\<close> is then \<open>sType\<close>, the first member of the structure.\<close>

theorem nested_handle_parent_counterexample:
  "m_type (hd (c_params vkCreateBufferView)) = ''VkDevice''
   \<and> ''VkBuffer'' \<notin> set parent_exception_list
   \<and> map_sum id (\<lambda>b. concat (map validate_calls (fst b)))
        (generateFunctionBody 1 example_gen vkCreateBufferView)
      = Inr [ValidateObject (CVar [] ''device'') ''kVulkanObjectTypeDevice'' False
               ''kVUIDUndefined'' ''kVUIDUndefined'' (LDot ErrorObjLocation ''device''),
             ValidateObject (CVar [PArrow ''pCreateInfo''] ''buffer'') ''kVulkanObjectTypeBuffer'' False
               ''kVUIDUndefined'' ''kVUIDUndefined'' (LDot (MemberLoc ''pCreateInfo'') ''buffer'')]
   \<and> getVUID example_gen (valid_vuids example_gen) ''VUID-VkBufferViewCreateInfo-buffer-parent''
      \<noteq> ''kVUIDUndefined''"
proof (intro conjI)
  show "m_type (hd (c_params vkCreateBufferView)) = ''VkDevice''"
    by (simp add: command_defs mk_member_def)
  show "''VkBuffer'' \<notin> set parent_exception_list"
    by (simp add: parent_exception_list_def)
  show "map_sum id (\<lambda>b. concat (map validate_calls (fst b)))
        (generateFunctionBody 1 example_gen vkCreateBufferView)
      = Inr [ValidateObject (CVar [] ''device'') ''kVulkanObjectTypeDevice'' False
               ''kVUIDUndefined'' ''kVUIDUndefined'' (LDot ErrorObjLocation ''device''),
             ValidateObject (CVar [PArrow ''pCreateInfo''] ''buffer'') ''kVulkanObjectTypeBuffer'' False
               ''kVUIDUndefined'' ''kVUIDUndefined'' (LDot (MemberLoc ''pCreateInfo'') ''buffer'')]"
    by (simp add: generator_defs example_defs command_defs)
  show "getVUID example_gen (valid_vuids example_gen) ''VUID-VkBufferViewCreateInfo-buffer-parent''
      \<noteq> ''kVUIDUndefined''"
    by (simp add: example_gen_def quoted_def)
qed

subsection \<open>Creation commands\<close>

lemma validateObjects_blocks:
  assumes "validateObjects fuel self members prefix k parentName topCommand errorLoc isTopLevelCreate
             = Inr code"
  shows "\<exists>blocks.
           map (validateMember fuel self members prefix k parentName topCommand errorLoc isTopLevelCreate)
             members = map Inr blocks
         \<and> code = concat blocks"
  using assms concat_results_Inr unfolding validateObjects.simps by blast

lemma isCreate_of_patterns:
  assumes "isCreate_of command = Inr isCreate"
  shows "isCreate =
           (list_ex (\<lambda>x. str_in x (c_name command))
              [''Create'', ''Allocate'', ''Enumerate'', ''RegisterDeviceEvent'', ''RegisterDisplayEvent'',
               ''AcquirePerformanceConfigurationINTEL'']
            \<or> (str_in ''vkGet'' (c_name command) \<and> c_params command \<noteq> []
                \<and> m_pointer (last (c_params command))))"
  using assms unfolding isCreate_of_def last_item_def and_then_def
  by (auto split: if_splits)

lemma destroyPart_has_no_validate_calls:
  assumes "(if isDestroy_of command then destroyPart self command else Inr ([], [])) = Inr d"
  shows "concat (map validate_calls (fst d)) = []"
proof (cases "isDestroy_of command")
  case True
  let ?hp = "if str_in ''ReleasePerformanceConfigurationINTEL'' (c_name command)
             then last_item (c_params command) else second_last_item (c_params command)"
  from True assms have d: "destroyPart self command = Inr d" by simp
  then obtain hp where h: "?hp = Inr hp"
    by (cases ?hp) (simp_all add: destroyPart_def and_then_def)
  from d show ?thesis
    unfolding destroyPart_def h and_then_def Let_def by (auto split: if_splits)
next
  case False
  with assms show ?thesis by auto
qed

text \<open>C6, as amended. \<open>isCreate\<close> holds exactly when the name of the command contains
  \<open>Create\<close>, \<open>Allocate\<close>, \<open>Enumerate\<close>, \<open>RegisterDeviceEvent\<close>, \<open>RegisterDisplayEvent\<close> or
  \<open>AcquirePerformanceConfigurationINTEL\<close>, or contains \<open>vkGet\<close> while the last parameter is a
  pointer. The text of \<open>PreCallValidate\<close> is the blocks of the parameters, in order, and then text
  without a call of \<open>ValidateObject\<close>; for such a command the block of the last parameter is
  empty, and every other parameter of a handle type, also one equal to no last parameter of a
  creation command, has one call of \<open>ValidateObject\<close>, on that parameter.\<close>

theorem creation_calls_skip_last_parameter:
  assumes "generateFunctionBody fuel self command = Inr (validate, pre_record, post_record)"
  shows "\<exists>isCreate blocks rest.
           isCreate_of command = Inr isCreate
         \<and> isCreate =
             (list_ex (\<lambda>x. str_in x (c_name command))
                [''Create'', ''Allocate'', ''Enumerate'', ''RegisterDeviceEvent'', ''RegisterDisplayEvent'',
                 ''AcquirePerformanceConfigurationINTEL'']
              \<or> (str_in ''vkGet'' (c_name command) \<and> c_params command \<noteq> []
                  \<and> m_pointer (last (c_params command))))
         \<and> map (validateMember fuel self (c_params command) [] 0 (c_name command) (c_name command)
                   ErrorObjLocation isCreate) (c_params command) = map Inr blocks
         \<and> validate = concat blocks @ rest
         \<and> concat (map validate_calls rest) = []
         \<and> (isCreate \<and> c_params command \<noteq> [] \<longrightarrow> last blocks = [])
         \<and> (\<forall>i < length (c_params command).
               in_dict (m_type (c_params command ! i)) (handles (vk self))
               \<and> \<not> (isCreate \<and> c_params command ! i = last (c_params command))
               \<longrightarrow> map validated_expr (concat (map validate_calls (blocks ! i)))
                     = [Some (if truthy (m_length (c_params command ! i))
                              then CIdx [] (m_name (c_params command ! i)) 0
                              else CVar [] (m_name (c_params command ! i)))])"
proof -
  from generateFunctionBody_parts [OF assms]
  obtain isCreate validated d where
    c: "isCreate_of command = Inr isCreate"
    and v: "validateObjects fuel self (c_params command) [] 0 (c_name command) (c_name command)
               ErrorObjLocation isCreate = Inr validated"
    and d: "(if isDestroy_of command then destroyPart self command else Inr ([], [])) = Inr d"
    and e: "validate = validated @ fst d"
    by blast
  let ?f = "validateMember fuel self (c_params command) [] 0 (c_name command) (c_name command)
              ErrorObjLocation isCreate"
  from validateObjects_blocks [OF v] obtain blocks where
    m: "map ?f (c_params command) = map Inr blocks" and cc: "validated = concat blocks"
    by blast
  from m have len: "length blocks = length (c_params command)"
    by (metis length_map)
  have nth: "?f (c_params command ! i) = Inr (blocks ! i)" if "i < length (c_params command)" for i
  proof -
    have "map ?f (c_params command) ! i = map Inr blocks ! i"
      using m by simp
    then show ?thesis
      using that len by simp
  qed
  have lastb: "isCreate \<and> c_params command \<noteq> [] \<longrightarrow> last blocks = []"
  proof
    assume a: "isCreate \<and> c_params command \<noteq> []"
    then have "blocks \<noteq> []" using len by auto
    have "last (map ?f (c_params command)) = last (map Inr blocks)"
      using m by simp
    then have "?f (last (c_params command)) = Inr (last blocks)"
      using a \<open>blocks \<noteq> []\<close> by (simp add: last_map)
    then show "last blocks = []"
      using a validateMember_skipped [of isCreate "last (c_params command)" "c_params command"]
      by simp
  qed
  have each: "\<forall>i < length (c_params command).
               in_dict (m_type (c_params command ! i)) (handles (vk self))
               \<and> \<not> (isCreate \<and> c_params command ! i = last (c_params command))
               \<longrightarrow> map validated_expr (concat (map validate_calls (blocks ! i)))
                     = [Some (if truthy (m_length (c_params command ! i))
                              then CIdx [] (m_name (c_params command ! i)) 0
                              else CVar [] (m_name (c_params command ! i)))]"
  proof (intro allI impI)
    fix i
    assume i: "i < length (c_params command)"
      and h: "in_dict (m_type (c_params command ! i)) (handles (vk self))
               \<and> \<not> (isCreate \<and> c_params command ! i = last (c_params command))"
    from h have "?f (c_params command ! i)
                   = Inr (validateHandle self (c_params command) [] 0 (c_name command) (c_name command)
                            ErrorObjLocation (c_params command ! i))"
      by (intro validateMember_handle) blast+
    with nth [OF i] have b: "blocks ! i = validateHandle self (c_params command) [] 0 (c_name command)
                            (c_name command) ErrorObjLocation (c_params command ! i)"
      by simp
    from validateHandle_calls [of self "c_params command" "[]" 0 "c_name command" "c_name command"
           ErrorObjLocation "c_params command ! i"]
    show "map validated_expr (concat (map validate_calls (blocks ! i)))
                     = [Some (if truthy (m_length (c_params command ! i))
                              then CIdx [] (m_name (c_params command ! i)) 0
                              else CVar [] (m_name (c_params command ! i)))]"
      unfolding b by auto
  qed
  from c isCreate_of_patterns [OF c] m e cc destroyPart_has_no_validate_calls [OF d] lastb each
  show ?thesis
    by blast
qed

lemma vkCreateFence_body:
  "\<exists>v r p. generateFunctionBody 0 example_gen vkCreateFence = Inr (v, r, p)"
  by (simp add: generator_defs example_defs command_defs)

text \<open>Witness for C6: \<open>vkCreateFence\<close> is a creation command, the block of \<open>pFence\<close> is empty
  and \<open>device\<close> is validated.\<close>

theorem creation_calls_skip_last_parameter_witness:
  "\<exists>blocks.
     map (validateMember 0 example_gen (c_params vkCreateFence) [] 0 ''vkCreateFence'' ''vkCreateFence''
            ErrorObjLocation True) (c_params vkCreateFence) = map Inr blocks
   \<and> last blocks = []
   \<and> map validated_expr (concat (map validate_calls (blocks ! 0))) = [Some (CVar [] ''device'')]"
proof -
  obtain v r p where b: "generateFunctionBody 0 example_gen vkCreateFence = Inr (v, r, p)"
    using vkCreateFence_body by blast
  have n: "c_name vkCreateFence = ''vkCreateFence''"
    by (simp add: vkCreateFence_def)
  from creation_calls_skip_last_parameter [OF b]
  obtain isCreate blocks where
    c: "isCreate =
             (list_ex (\<lambda>x. str_in x (c_name vkCreateFence))
                [''Create'', ''Allocate'', ''Enumerate'', ''RegisterDeviceEvent'', ''RegisterDisplayEvent'',
                 ''AcquirePerformanceConfigurationINTEL'']
              \<or> (str_in ''vkGet'' (c_name vkCreateFence) \<and> c_params vkCreateFence \<noteq> []
                  \<and> m_pointer (last (c_params vkCreateFence))))"
    and m: "map (validateMember 0 example_gen (c_params vkCreateFence) [] 0 (c_name vkCreateFence)
                   (c_name vkCreateFence) ErrorObjLocation isCreate) (c_params vkCreateFence)
              = map Inr blocks"
    and l: "isCreate \<and> c_params vkCreateFence \<noteq> [] \<longrightarrow> last blocks = []"
    and e: "\<forall>i < length (c_params vkCreateFence).
               in_dict (m_type (c_params vkCreateFence ! i)) (handles (vk example_gen))
               \<and> \<not> (isCreate \<and> c_params vkCreateFence ! i = last (c_params vkCreateFence))
               \<longrightarrow> map validated_expr (concat (map validate_calls (blocks ! i)))
                     = [Some (if truthy (m_length (c_params vkCreateFence ! i))
                              then CIdx [] (m_name (c_params vkCreateFence ! i)) 0
                              else CVar [] (m_name (c_params vkCreateFence ! i)))]"
    by blast
  have t: "isCreate"
    unfolding c n by simp
  have "last blocks = []"
    using l t by (simp add: vkCreateFence_def)
  moreover have "map validated_expr (concat (map validate_calls (blocks ! 0))) = [Some (CVar [] ''device'')]"
    using e [rule_format, of 0] by (simp add: vkCreateFence_def in_dict_def example_defs)
  moreover from t have "isCreate = True"
    by simp
  ultimately show ?thesis
    using m unfolding n by (intro exI [of _ blocks]) simp
qed

text \<open>Counterexample to C6 as stated. \<open>vkAcquirePerformanceConfigurationINTEL\<close> is treated as a
  creation command, and its name contains none of \<open>Create\<close>, \<open>Allocate\<close>, \<open>Enumerate\<close>,
  \<open>RegisterDeviceEvent\<close>, \<open>RegisterDisplayEvent\<close> and \<open>vkGet\<close>.\<close>

theorem acquire_is_creation_counterexample:
  "isCreate_of vkAcquirePerformanceConfigurationINTEL = Inr True
   \<and> \<not> list_ex (\<lambda>x. str_in x (c_name vkAcquirePerformanceConfigurationINTEL))
         [''Create'', ''Allocate'', ''Enumerate'', ''RegisterDeviceEvent'', ''RegisterDisplayEvent'']
   \<and> \<not> str_in ''vkGet'' (c_name vkAcquirePerformanceConfigurationINTEL)"
  by (simp add: isCreate_of_def vkAcquirePerformanceConfigurationINTEL_def)

subsection \<open>Absent containers\<close>

lemma validateMember_struct:
  assumes "validateMember fuel self members prefix k parentName topCommand errorLoc isTopLevelCreate m
             = Inr b"
    and "\<not> in_dict (m_type m) (handles (vk self))"
  shows "b = [] \<or>
         (\<exists>st n body. fuel = Suc n \<and> map_of (structs (vk self)) (m_type m) = Some st
            \<and> validateObjects n self (s_members st) (structPrefix prefix k m) (Suc k) (m_type m)
                 topCommand (structLoc k m) False = Inr body
            \<and> b = wrapStruct prefix k errorLoc m body)"
  using assms
  by (auto simp: validateMember.simps split: if_splits option.splits sum.splits bool.splits nat.splits)

lemma eval_CVar:
  "resolve ix root prefix = Some scope \<Longrightarrow> eval ix root (CVar prefix n) = field scope n"
  by simp

lemma handle_array_absent:
  assumes "validateMember fuel self members prefix k parentName topCommand errorLoc isTopLevelCreate m
             = Inr b"
    and "in_dict (m_type m) (handles (vk self))"
    and "truthy (m_length m)"
    and "resolve ix root prefix = Some scope"
    and "as_u32 (field scope (the (m_length m))) = Some 0
         \<or> (as_u32 (field scope (the (m_length m))) \<noteq> None \<and> field scope (m_name m) = Some VNull)"
  shows "exec_vs db ix root b = Some []"
proof (cases "isTopLevelCreate \<and> m = last members")
  case True
  with assms(1) show ?thesis
    by (simp add: validateMember.simps exec_vs_def)
next
  case False
  with assms(1,2) have "b = validateHandle self members prefix k parentName topCommand errorLoc m"
    using validateMember_handle [of m self isTopLevelCreate members] by simp
  then obtain body where
    b: "b = [VIf (CountAndPtr (CVar prefix (the (m_length m))) (CVar prefix (m_name m))) body]"
    using assms(3) by (simp add: validateHandle_def Let_def)
  have "eval_cond db ix root (CountAndPtr (CVar prefix (the (m_length m))) (CVar prefix (m_name m)))
          = Some False"
    using assms(5) by (auto simp: eval_CVar [OF assms(4)] simp del: eval.simps)
  then show ?thesis
    unfolding b exec_vs_def by simp
qed

lemma struct_container_absent:
  assumes "validateMember fuel self members prefix k parentName topCommand errorLoc isTopLevelCreate m
             = Inr b"
    and "\<not> in_dict (m_type m) (handles (vk self))"
    and "m_length m \<noteq> None \<or> m_pointer m"
    and "resolve ix root prefix = Some scope"
    and "field scope (m_name m) = Some VNull"
  shows "exec_vs db ix root b = Some []"
proof -
  from validateMember_struct [OF assms(1,2)]
  consider "b = []" | body where "b = wrapStruct prefix k errorLoc m body"
    by blast
  then show ?thesis
  proof cases
    case 1
    then show ?thesis by (simp add: exec_vs_def)
  next
    case 2
    have "\<exists>inner. b = [VIf (NonNull (CVar prefix (m_name m))) inner]"
    proof (cases "m_length m = None")
      case True
      with assms(3) 2 show ?thesis by (simp add: wrapStruct_def)
    next
      case False
      with 2 show ?thesis by (simp add: wrapStruct_def)
    qed
    then obtain inner where b: "b = [VIf (NonNull (CVar prefix (m_name m))) inner]"
      by blast
    have "eval_cond db ix root (NonNull (CVar prefix (m_name m))) = Some False"
      using assms(5) by (simp add: eval_CVar [OF assms(4)] del: eval.simps)
    then show ?thesis
      unfolding b exec_vs_def by simp
  qed
qed

lemma inline_struct_always_visited:
  assumes "validateMember fuel self members prefix k parentName topCommand errorLoc isTopLevelCreate m
             = Inr b"
    and "\<not> in_dict (m_type m) (handles (vk self))"
    and "m_length m = None" and "\<not> m_pointer m" and "b \<noteq> []"
  shows "\<exists>st n body. fuel = Suc n \<and> map_of (structs (vk self)) (m_type m) = Some st
            \<and> validateObjects n self (s_members st) (prefix @ [PDot (m_name m)]) (Suc k) (m_type m)
                 topCommand (MemberLoc (m_name m)) False = Inr body
            \<and> exec_vs db ix root b = exec_vs db ix root body"
proof -
  from validateMember_struct [OF assms(1,2)] assms(5)
  obtain st n body where
    f: "fuel = Suc n" and s: "map_of (structs (vk self)) (m_type m) = Some st"
    and v: "validateObjects n self (s_members st) (structPrefix prefix k m) (Suc k) (m_type m)
                 topCommand (structLoc k m) False = Inr body"
    and b: "b = wrapStruct prefix k errorLoc m body"
    by blast
  have "structPrefix prefix k m = prefix @ [PDot (m_name m)]" "structLoc k m = MemberLoc (m_name m)"
    using assms(3,4) by (simp_all add: structPrefix_def structLoc_def)
  moreover have "exec_vs db ix root b = exec_vs db ix root body"
    unfolding b using assms(3,4) by (simp add: wrapStruct_def exec_vs_def split: option.splits)
  ultimately show ?thesis
    using f s v by auto
qed

text \<open>C9. The calls made by the text of a walk are the calls of the blocks of the members, in
  the order of the members. In the structure \<open>scope\<close> that the walk is in: the block of an array of
  handles makes no call when its count is \<open>0\<close> or its pointer is null; the block of an array of
  structures or of a pointer to a structure makes no call when the pointer is null; and a block
  that is not empty of a structure held by value makes the calls of the walk of its members,
  under no condition.\<close>

theorem absent_container_skips_only_its_subtree:
  assumes "validateObjects fuel self members prefix k parentName topCommand errorLoc isTopLevelCreate
             = Inr code"
    and "resolve ix root prefix = Some scope"
  shows "\<exists>blocks.
           map (validateMember fuel self members prefix k parentName topCommand errorLoc isTopLevelCreate)
             members = map Inr blocks
         \<and> code = concat blocks
         \<and> exec_vs db ix root code = concat_opt (map (exec_vs db ix root) blocks)
         \<and> (\<forall>i < length members.
               (in_dict (m_type (members ! i)) (handles (vk self)) \<and> truthy (m_length (members ! i))
                \<and> (as_u32 (field scope (the (m_length (members ! i)))) = Some 0
                    \<or> (as_u32 (field scope (the (m_length (members ! i)))) \<noteq> None
                        \<and> field scope (m_name (members ! i)) = Some VNull))
                \<longrightarrow> exec_vs db ix root (blocks ! i) = Some [])
             \<and> (\<not> in_dict (m_type (members ! i)) (handles (vk self))
                \<and> (m_length (members ! i) \<noteq> None \<or> m_pointer (members ! i))
                \<and> field scope (m_name (members ! i)) = Some VNull
                \<longrightarrow> exec_vs db ix root (blocks ! i) = Some [])
             \<and> (\<not> in_dict (m_type (members ! i)) (handles (vk self))
                \<and> m_length (members ! i) = None \<and> \<not> m_pointer (members ! i) \<and> blocks ! i \<noteq> []
                \<longrightarrow> (\<exists>st n body. fuel = Suc n
                       \<and> map_of (structs (vk self)) (m_type (members ! i)) = Some st
                       \<and> validateObjects n self (s_members st) (prefix @ [PDot (m_name (members ! i))])
                            (Suc k) (m_type (members ! i)) topCommand
                            (MemberLoc (m_name (members ! i))) False = Inr body
                       \<and> exec_vs db ix root (blocks ! i) = exec_vs db ix root body)))"
proof -
  let ?f = "validateMember fuel self members prefix k parentName topCommand errorLoc isTopLevelCreate"
  from validateObjects_blocks [OF assms(1)] obtain blocks where
    m: "map ?f members = map Inr blocks" and c: "code = concat blocks"
    by blast
  from m have len: "length blocks = length members"
    by (metis length_map)
  have nth: "?f (members ! i) = Inr (blocks ! i)" if "i < length members" for i
  proof -
    have "map ?f members ! i = map Inr blocks ! i"
      using m by simp
    then show ?thesis
      using that len by simp
  qed
  have each: "\<forall>i < length members.
               (in_dict (m_type (members ! i)) (handles (vk self)) \<and> truthy (m_length (members ! i))
                \<and> (as_u32 (field scope (the (m_length (members ! i)))) = Some 0
                    \<or> (as_u32 (field scope (the (m_length (members ! i)))) \<noteq> None
                        \<and> field scope (m_name (members ! i)) = Some VNull))
                \<longrightarrow> exec_vs db ix root (blocks ! i) = Some [])
             \<and> (\<not> in_dict (m_type (members ! i)) (handles (vk self))
                \<and> (m_length (members ! i) \<noteq> None \<or> m_pointer (members ! i))
                \<and> field scope (m_name (members ! i)) = Some VNull
                \<longrightarrow> exec_vs db ix root (blocks ! i) = Some [])
             \<and> (\<not> in_dict (m_type (members ! i)) (handles (vk self))
                \<and> m_length (members ! i) = None \<and> \<not> m_pointer (members ! i) \<and> blocks ! i \<noteq> []
                \<longrightarrow> (\<exists>st n body. fuel = Suc n
                       \<and> map_of (structs (vk self)) (m_type (members ! i)) = Some st
                       \<and> validateObjects n self (s_members st) (prefix @ [PDot (m_name (members ! i))])
                            (Suc k) (m_type (members ! i)) topCommand
                            (MemberLoc (m_name (members ! i))) False = Inr body
                       \<and> exec_vs db ix root (blocks ! i) = exec_vs db ix root body))"
  proof (intro allI impI conjI)
    fix i
    assume i: "i < length members"
      and a: "in_dict (m_type (members ! i)) (handles (vk self)) \<and> truthy (m_length (members ! i))
                \<and> (as_u32 (field scope (the (m_length (members ! i)))) = Some 0
                    \<or> (as_u32 (field scope (the (m_length (members ! i)))) \<noteq> None
                        \<and> field scope (m_name (members ! i)) = Some VNull))"
    show "exec_vs db ix root (blocks ! i) = Some []"
      by (rule handle_array_absent [OF nth [OF i] _ _ assms(2)]) (use a in blast)+
  next
    fix i
    assume i: "i < length members"
      and a: "\<not> in_dict (m_type (members ! i)) (handles (vk self))
                \<and> (m_length (members ! i) \<noteq> None \<or> m_pointer (members ! i))
                \<and> field scope (m_name (members ! i)) = Some VNull"
    show "exec_vs db ix root (blocks ! i) = Some []"
      by (rule struct_container_absent [OF nth [OF i] _ _ assms(2)]) (use a in blast)+
  next
    fix i
    assume i: "i < length members"
      and a: "\<not> in_dict (m_type (members ! i)) (handles (vk self))
                \<and> m_length (members ! i) = None \<and> \<not> m_pointer (members ! i) \<and> blocks ! i \<noteq> []"
    show "\<exists>st n body. fuel = Suc n
                       \<and> map_of (structs (vk self)) (m_type (members ! i)) = Some st
                       \<and> validateObjects n self (s_members st) (prefix @ [PDot (m_name (members ! i))])
                            (Suc k) (m_type (members ! i)) topCommand
                            (MemberLoc (m_name (members ! i))) False = Inr body
                       \<and> exec_vs db ix root (blocks ! i) = exec_vs db ix root body"
      by (rule inline_struct_always_visited [OF nth [OF i]]) (use a in blast)+
  qed
  from m c exec_vs_concat [of db ix root blocks] each show ?thesis
    by blast
qed

definition wait_args :: rval where
  "wait_args = VStruct [(''device'', VHandle 1), (''fenceCount'', VU32 2), (''pFences'', VNull)]"

definition compute_args :: "rval \<Rightarrow> rval" where
  "compute_args infos =
     VStruct [(''device'', VHandle 1), (''pipelineCache'', VHandle 2), (''createInfoCount'', VU32 1),
              (''pCreateInfos'', infos)]"

definition compute_info :: rval where
  "compute_info = VStruct [(''stage'', VStruct [(''module'', VHandle 7)])]"

definition compute_info_members :: "Member list" where
  "compute_info_members =
     [mk_member ''sType'' ''VkStructureType'', mk_member ''stage'' ''VkPipelineShaderStageCreateInfo'']"

text \<open>Witness for C9: \<open>vkWaitForFences\<close> with two fences and a null \<open>pFences\<close>,
  \<open>vkCreateComputePipelines\<close> with a null \<open>pCreateInfos\<close>, and the member \<open>stage\<close>, held by value,
  of the first element of \<open>pCreateInfos\<close>.\<close>

theorem absent_container_skips_only_its_subtree_witness:
  "(\<exists>blocks.
      map (validateMember 0 example_gen (c_params vkWaitForFences) [] 0 ''vkWaitForFences''
             ''vkWaitForFences'' ErrorObjLocation False) (c_params vkWaitForFences) = map Inr blocks
    \<and> exec_vs 0 (\<lambda>k. 0) wait_args (blocks ! 2) = Some []
    \<and> exec_vs 0 (\<lambda>k. 0) wait_args (concat blocks)
        = concat_opt (map (exec_vs 0 (\<lambda>k. 0) wait_args) blocks))
   \<and> (\<exists>blocks.
      map (validateMember 2 example_gen (c_params vkCreateComputePipelines) [] 0
             ''vkCreateComputePipelines'' ''vkCreateComputePipelines'' ErrorObjLocation True)
        (c_params vkCreateComputePipelines) = map Inr blocks
    \<and> exec_vs 0 (\<lambda>k. 0) (compute_args VNull) (blocks ! 3) = Some [])
   \<and> (\<exists>blocks.
      map (validateMember 1 example_gen compute_info_members [PIdx ''pCreateInfos'' 0] 1
             ''VkComputePipelineCreateInfo'' ''vkCreateComputePipelines'' (IndexLoc 0) False)
        compute_info_members = map Inr blocks
    \<and> exec_vs 0 (\<lambda>k. 0) (compute_args (VArray [compute_info])) (blocks ! 1)
        = Some [CallValidateObject (VHandle 7) ''kVulkanObjectTypeShaderModule'' True
                  ''kVUIDUndefined'' ''kVUIDUndefined'' (LDot (MemberLoc ''stage'') ''module'')])"
proof (intro conjI)
  let ?ix = "\<lambda>k::nat. 0::nat"
  let ?ms = "c_params vkWaitForFences"
  let ?f = "validateMember 0 example_gen ?ms [] 0 ''vkWaitForFences'' ''vkWaitForFences''
              ErrorObjLocation False"
  have v: "\<exists>code. validateObjects 0 example_gen ?ms [] 0 ''vkWaitForFences''
             ''vkWaitForFences'' ErrorObjLocation False = Inr code"
    by (simp add: generator_defs example_defs command_defs)
  then obtain code where
    c: "validateObjects 0 example_gen ?ms [] 0 ''vkWaitForFences''
             ''vkWaitForFences'' ErrorObjLocation False = Inr code"
    by blast
  have r: "resolve ?ix wait_args [] = Some wait_args"
    by simp
  from absent_container_skips_only_its_subtree [OF c r, where db = 0]
  obtain blocks where
    m: "map ?f ?ms = map Inr blocks"
    and k: "code = concat blocks"
    and x: "exec_vs 0 ?ix wait_args code = concat_opt (map (exec_vs 0 ?ix wait_args) blocks)"
    and a: "\<forall>i < length ?ms.
               (in_dict (m_type (?ms ! i)) (handles (vk example_gen)) \<and> truthy (m_length (?ms ! i))
                \<and> (as_u32 (field wait_args (the (m_length (?ms ! i)))) = Some 0
                    \<or> (as_u32 (field wait_args (the (m_length (?ms ! i)))) \<noteq> None
                        \<and> field wait_args (m_name (?ms ! i)) = Some VNull))
                \<longrightarrow> exec_vs 0 ?ix wait_args (blocks ! i) = Some [])"
    by blast
  from a [rule_format, of 2] have "exec_vs 0 ?ix wait_args (blocks ! 2) = Some []"
    by (simp add: vkWaitForFences_def wait_args_def in_dict_def example_defs mk_member_def)
  then show "\<exists>blocks.
      map ?f ?ms = map Inr blocks
    \<and> exec_vs 0 ?ix wait_args (blocks ! 2) = Some []
    \<and> exec_vs 0 ?ix wait_args (concat blocks)
        = concat_opt (map (exec_vs 0 ?ix wait_args) blocks)"
    using m x unfolding k by (intro exI [of _ blocks]) simp
next
  let ?ix = "\<lambda>k::nat. 0::nat"
  let ?ms = "c_params vkCreateComputePipelines"
  let ?root = "compute_args VNull"
  let ?f = "validateMember 2 example_gen ?ms [] 0 ''vkCreateComputePipelines''
              ''vkCreateComputePipelines'' ErrorObjLocation True"
  have v: "\<exists>code. validateObjects 2 example_gen ?ms [] 0
             ''vkCreateComputePipelines'' ''vkCreateComputePipelines'' ErrorObjLocation True = Inr code"
    by (simp add: generator_defs example_defs command_defs)
  then obtain code where
    c: "validateObjects 2 example_gen ?ms [] 0
             ''vkCreateComputePipelines'' ''vkCreateComputePipelines'' ErrorObjLocation True = Inr code"
    by blast
  have r: "resolve ?ix ?root [] = Some ?root"
    by simp
  from absent_container_skips_only_its_subtree [OF c r, where db = 0]
  obtain blocks where
    m: "map ?f ?ms = map Inr blocks"
    and a: "\<forall>i < length ?ms.
              (\<not> in_dict (m_type (?ms ! i)) (handles (vk example_gen))
                \<and> (m_length (?ms ! i) \<noteq> None \<or> m_pointer (?ms ! i))
                \<and> field ?root (m_name (?ms ! i)) = Some VNull
                \<longrightarrow> exec_vs 0 ?ix ?root (blocks ! i) = Some [])"
    by blast
  from a [rule_format, of 3] have "exec_vs 0 ?ix ?root (blocks ! 3) = Some []"
    by (simp add: vkCreateComputePipelines_def compute_args_def in_dict_def example_defs mk_member_def)
  then show "\<exists>blocks. map ?f ?ms = map Inr blocks \<and> exec_vs 0 ?ix ?root (blocks ! 3) = Some []"
    using m by (intro exI [of _ blocks]) simp
next
  let ?ix = "\<lambda>k::nat. 0::nat"
  let ?ms = "compute_info_members"
  let ?root = "compute_args (VArray [compute_info])"
  let ?f = "validateMember 1 example_gen ?ms [PIdx ''pCreateInfos'' 0] 1
             ''VkComputePipelineCreateInfo'' ''vkCreateComputePipelines'' (IndexLoc 0) False"
  have v: "\<exists>code. validateObjects 1 example_gen ?ms [PIdx ''pCreateInfos'' 0] 1
             ''VkComputePipelineCreateInfo'' ''vkCreateComputePipelines'' (IndexLoc 0) False = Inr code"
    by (simp add: generator_defs example_defs compute_info_members_def mk_member_def)
  then obtain code where
    c: "validateObjects 1 example_gen ?ms [PIdx ''pCreateInfos'' 0] 1
             ''VkComputePipelineCreateInfo'' ''vkCreateComputePipelines'' (IndexLoc 0) False = Inr code"
    by blast
  have r: "resolve ?ix ?root [PIdx ''pCreateInfos'' 0] = Some compute_info"
    by (simp add: compute_args_def)
  from absent_container_skips_only_its_subtree [OF c r, where db = 0]
  obtain blocks where
    m: "map ?f ?ms = map Inr blocks"
    and a: "\<forall>i < length ?ms.
             (\<not> in_dict (m_type (?ms ! i)) (handles (vk example_gen))
                \<and> m_length (?ms ! i) = None \<and> \<not> m_pointer (?ms ! i) \<and> blocks ! i \<noteq> []
                \<longrightarrow> (\<exists>st n body. (1::nat) = Suc n
                       \<and> map_of (structs (vk example_gen)) (m_type (?ms ! i)) = Some st
                       \<and> validateObjects n example_gen (s_members st)
                            ([PIdx ''pCreateInfos'' 0] @ [PDot (m_name (?ms ! i))])
                            (Suc 1) (m_type (?ms ! i)) ''vkCreateComputePipelines''
                            (MemberLoc (m_name (?ms ! i))) False = Inr body
                       \<and> exec_vs 0 ?ix ?root (blocks ! i) = exec_vs 0 ?ix ?root body))"
    by blast
  have "map ?f ?ms ! 1 = map Inr blocks ! 1"
    using m by simp
  moreover have "length (map ?f ?ms) = length (map Inr blocks)"
    using m by simp
  then have "length blocks = 2"
    by (simp add: compute_info_members_def)
  ultimately have b: "?f (?ms ! 1) = Inr (blocks ! 1)"
    by (simp add: compute_info_members_def)
  have n: "blocks ! 1 \<noteq> []"
    using b by (auto simp: generator_defs example_defs compute_info_members_def mk_member_def)
  from a [rule_format, of 1] n
  have "\<exists>st body.
          map_of (structs (vk example_gen)) ''VkPipelineShaderStageCreateInfo'' = Some st
        \<and> validateObjects 0 example_gen (s_members st)
            [PIdx ''pCreateInfos'' 0, PDot ''stage''] 2 ''VkPipelineShaderStageCreateInfo''
            ''vkCreateComputePipelines'' (MemberLoc ''stage'') False = Inr body
        \<and> exec_vs 0 ?ix ?root (blocks ! 1) = exec_vs 0 ?ix ?root body"
    by (simp add: compute_info_members_def in_dict_def example_defs mk_member_def numeral_2_eq_2)
  then obtain st body where
    s: "map_of (structs (vk example_gen)) ''VkPipelineShaderStageCreateInfo'' = Some st"
    and o: "validateObjects 0 example_gen (s_members st)
            [PIdx ''pCreateInfos'' 0, PDot ''stage''] 2 ''VkPipelineShaderStageCreateInfo''
            ''vkCreateComputePipelines'' (MemberLoc ''stage'') False = Inr body"
    and q: "exec_vs 0 ?ix ?root (blocks ! 1) = exec_vs 0 ?ix ?root body"
    by blast
  have st: "st = \<lparr> s_name = ''VkPipelineShaderStageCreateInfo'',
                   s_members = [mk_member ''sType'' ''VkStructureType'',
                                (mk_member ''module'' ''VkShaderModule'')\<lparr> m_optional := True \<rparr>] \<rparr>"
    using s by (simp add: example_defs)
  have "exec_vs 0 ?ix ?root body
        = Some [CallValidateObject (VHandle 7) ''kVulkanObjectTypeShaderModule'' True
                  ''kVUIDUndefined'' ''kVUIDUndefined'' (LDot (MemberLoc ''stage'') ''module'')]"
    using o unfolding st
    by (auto simp: generator_defs example_defs mk_member_def exec_vs_def compute_args_def
          compute_info_def)
  then show "\<exists>blocks.
      map ?f ?ms = map Inr blocks
    \<and> exec_vs 0 ?ix ?root (blocks ! 1)
        = Some [CallValidateObject (VHandle 7) ''kVulkanObjectTypeShaderModule'' True
                  ''kVUIDUndefined'' ''kVUIDUndefined'' (LDot (MemberLoc ''stage'') ''module'')]"
    using m q by (intro exI [of _ blocks]) simp
qed

section \<open>Leaked objects at teardown\<close>

text \<open>Modelled from the spec: the registry holds the live records, here the type and the handle
  of each. \<open>ReportLeakedObjects\<close> and \<open>DestroyUndestroyedObjects\<close> are members of the run-time
  class and are not in the generator: following the specification, the first reports every live
  record of the type under the given identifier and the second removes every live record of the
  type.\<close>

type_synonym registry = "(string \<times> nat) list"

definition ReportLeakedObjects :: "registry \<Rightarrow> string \<Rightarrow> string \<Rightarrow> (string \<times> string \<times> nat) list" where
  "ReportLeakedObjects reg t code = map (\<lambda>r. (code, t, snd r)) (filter (\<lambda>r. fst r = t) reg)"

definition DestroyUndestroyedObjects :: "string \<Rightarrow> registry \<Rightarrow> registry" where
  "DestroyUndestroyedObjects t reg = filter (\<lambda>r. fst r \<noteq> t) reg"

text \<open>The emitted report and destroy functions, run on a registry.\<close>

fun run_line :: "registry \<Rightarrow> string \<Rightarrow> leakline \<Rightarrow> (string \<times> string \<times> nat) list" where
  "run_line reg code (ReportLeaked t) = ReportLeakedObjects reg t code"
| "run_line reg code (CommentedOut t) = []"

definition run_report :: "LeakReport \<Rightarrow> registry \<Rightarrow> (string \<times> string \<times> nat) list" where
  "run_report report reg = concat (map (run_line reg (error_code report)) (report_lines report))"

definition run_destroy :: "string list \<Rightarrow> registry \<Rightarrow> registry" where
  "run_destroy types reg = foldl (\<lambda>r t. DestroyUndestroyedObjects t r) reg types"

text \<open>The handles that are not implicitly destroyed, and the line emitted for a handle.\<close>

definition reported :: "Handle list \<Rightarrow> Handle list" where
  "reported hs = filter (\<lambda>h. h_name h \<notin> {''VkDisplayKHR'', ''VkDisplayModeKHR''}) hs"

definition leak_line :: "string \<Rightarrow> leakline" where
  "leak_line n = (if n \<in> {''VkDisplayKHR'', ''VkDisplayModeKHR''}
                  then CommentedOut (kVulkanObjectType n) else ReportLeaked (kVulkanObjectType n))"

lemma map_results_total:
  "(\<And>x. x \<in> set xs \<Longrightarrow> f x = Inr (g x)) \<Longrightarrow> map_results f xs = Inr (map g xs)"
  by (induction xs) simp_all

lemma reportLine_vulkan:
  "targetApiName self = ''vulkan'' \<Longrightarrow> reportLine self n = Inr (leak_line n)"
  by (simp add: reportLine_def IsImplicitlyDestroyed_def and_then_def leak_line_def)

lemma run_lines:
  "concat (map (run_line reg code) (map (\<lambda>h. leak_line (h_name h)) hs))
   = concat (map (\<lambda>h. ReportLeakedObjects reg (kVulkanObjectType (h_name h)) code) (reported hs))"
  by (induction hs) (simp_all add: reported_def leak_line_def)

lemma run_destroy_filter:
  "run_destroy types reg = filter (\<lambda>r. fst r \<notin> set types) reg"
  unfolding run_destroy_def DestroyUndestroyedObjects_def
  by (induction types arbitrary: reg) (simp_all add: conj_commute)

lemma generateSource_vulkan:
  assumes "generateSource fuel self = Inr src"
  shows "targetApiName self = ''vulkan''"
  using assms
  by (cases "targetApiName self = ''vulkan''")
     (simp_all add: generateSource_def getUndestroyedObjectVUID_def and_then_def)

lemma generateSource_leak_functions:
  assumes "generateSource fuel self = Inr src"
  shows "ReportUndestroyedInstanceObjects src =
           \<lparr> error_code = ''VUID-vkDestroyInstance-instance-00629'',
             report_lines = map (\<lambda>h. leak_line (h_name h)) (instanceHandles self) \<rparr>"
    and "ReportUndestroyedDeviceObjects src =
           \<lparr> error_code = ''VUID-vkDestroyDevice-device-00378'',
             report_lines = ReportLeaked ''kVulkanObjectTypeCommandBuffer''
               # map (\<lambda>h. leak_line (h_name h)) (deviceHandles self) \<rparr>"
    and "DestroyLeakedInstanceObjects src = map (\<lambda>h. kVulkanObjectType (h_name h)) (instanceHandles self)"
    and "DestroyLeakedDeviceObjects src =
           ''kVulkanObjectTypeCommandBuffer'' # map (\<lambda>h. kVulkanObjectType (h_name h)) (deviceHandles self)"
proof -
  note v = generateSource_vulkan [OF assms]
  have lines: "map_results (\<lambda>h. reportLine self (h_name h)) hs = Inr (map (\<lambda>h. leak_line (h_name h)) hs)"
    for hs
    by (rule map_results_total) (simp add: reportLine_vulkan [OF v])
  have cb: "reportLine self ''VkCommandBuffer'' = Inr (ReportLeaked ''kVulkanObjectTypeCommandBuffer'')"
    by (simp add: reportLine_vulkan [OF v] kVulkanObjectType_def leak_line_def)
  have k: "kVulkanObjectType ''VkCommandBuffer'' = ''kVulkanObjectTypeCommandBuffer''"
    by (simp add: kVulkanObjectType_def)
  from assms have
    "\<exists>cmds. src = \<lparr> ReportUndestroyedInstanceObjects =
                 \<lparr> error_code = ''VUID-vkDestroyInstance-instance-00629'',
                   report_lines = map (\<lambda>h. leak_line (h_name h)) (instanceHandles self) \<rparr>,
               ReportUndestroyedDeviceObjects =
                 \<lparr> error_code = ''VUID-vkDestroyDevice-device-00378'',
                   report_lines = ReportLeaked ''kVulkanObjectTypeCommandBuffer''
                     # map (\<lambda>h. leak_line (h_name h)) (deviceHandles self) \<rparr>,
               DestroyLeakedInstanceObjects =
                 map (\<lambda>h. kVulkanObjectType (h_name h)) (instanceHandles self),
               DestroyLeakedDeviceObjects =
                 ''kVulkanObjectTypeCommandBuffer''
                 # map (\<lambda>h. kVulkanObjectType (h_name h)) (deviceHandles self),
               command_sources = cmds \<rparr>"
    unfolding generateSource_def lines cb k
    by (auto simp: getUndestroyedObjectVUID_def v and_then_def split: sum.splits)
  then show "ReportUndestroyedInstanceObjects src =
           \<lparr> error_code = ''VUID-vkDestroyInstance-instance-00629'',
             report_lines = map (\<lambda>h. leak_line (h_name h)) (instanceHandles self) \<rparr>"
    and "ReportUndestroyedDeviceObjects src =
           \<lparr> error_code = ''VUID-vkDestroyDevice-device-00378'',
             report_lines = ReportLeaked ''kVulkanObjectTypeCommandBuffer''
               # map (\<lambda>h. leak_line (h_name h)) (deviceHandles self) \<rparr>"
    and "DestroyLeakedInstanceObjects src = map (\<lambda>h. kVulkanObjectType (h_name h)) (instanceHandles self)"
    and "DestroyLeakedDeviceObjects src =
           ''kVulkanObjectTypeCommandBuffer'' # map (\<lambda>h. kVulkanObjectType (h_name h)) (deviceHandles self)"
    by auto
qed

lemma run_report_lines:
  "run_report \<lparr> error_code = code, report_lines = map (\<lambda>h. leak_line (h_name h)) hs \<rparr> reg
   = concat (map (\<lambda>h. ReportLeakedObjects reg (kVulkanObjectType (h_name h)) code) (reported hs))"
  "run_report \<lparr> error_code = code,
                report_lines = ReportLeaked t # map (\<lambda>h. leak_line (h_name h)) hs \<rparr> reg
   = ReportLeakedObjects reg t code
     @ concat (map (\<lambda>h. ReportLeakedObjects reg (kVulkanObjectType (h_name h)) code) (reported hs))"
  unfolding run_report_def
  by (simp_all only: LeakReport.select_convs run_lines list.map concat.simps run_line.simps)

text \<open>C5. In the generated source, the instance report uses
  \<open>VUID-vkDestroyInstance-instance-00629\<close> and the device report
  \<open>VUID-vkDestroyDevice-device-00378\<close>; the report of a scope reports the live records of every
  handle that is not dispatchable in that scope, but \<open>VkDisplayKHR\<close> and \<open>VkDisplayModeKHR\<close>, and
  the device report starts with the command buffers; the destroy function of a scope removes the
  live records of every handle that is not dispatchable in that scope, those two included, and
  the device one those of the command buffers.\<close>

theorem teardown_reports_and_clears:
  assumes "generateSource fuel self = Inr src"
  shows "error_code (ReportUndestroyedInstanceObjects src) = ''VUID-vkDestroyInstance-instance-00629''
       \<and> error_code (ReportUndestroyedDeviceObjects src) = ''VUID-vkDestroyDevice-device-00378''
       \<and> run_report (ReportUndestroyedInstanceObjects src) reg
           = concat (map (\<lambda>h. ReportLeakedObjects reg (kVulkanObjectType (h_name h))
                                 ''VUID-vkDestroyInstance-instance-00629'')
                       (reported (instanceHandles self)))
       \<and> run_report (ReportUndestroyedDeviceObjects src) reg
           = ReportLeakedObjects reg ''kVulkanObjectTypeCommandBuffer'' ''VUID-vkDestroyDevice-device-00378''
             @ concat (map (\<lambda>h. ReportLeakedObjects reg (kVulkanObjectType (h_name h))
                                   ''VUID-vkDestroyDevice-device-00378'')
                         (reported (deviceHandles self)))
       \<and> run_destroy (DestroyLeakedInstanceObjects src) reg
           = filter (\<lambda>r. fst r \<notin> set (map (\<lambda>h. kVulkanObjectType (h_name h)) (instanceHandles self))) reg
       \<and> run_destroy (DestroyLeakedDeviceObjects src) reg
           = filter (\<lambda>r. fst r \<notin> set (''kVulkanObjectTypeCommandBuffer''
                                        # map (\<lambda>h. kVulkanObjectType (h_name h)) (deviceHandles self))) reg"
  unfolding generateSource_leak_functions [OF assms] run_destroy_filter run_report_lines
  by simp

text \<open>A registry with a surface, a display, a fence and a command buffer, and a generator
  whose handles are those.\<close>

definition example_registry :: registry where
  "example_registry =
     [(''kVulkanObjectTypeSurfaceKHR'', 3), (''kVulkanObjectTypeDisplayKHR'', 4),
      (''kVulkanObjectTypeFence'', 5), (''kVulkanObjectTypeCommandBuffer'', 6)]"

definition surface_fence_handles :: "(string \<times> Handle) list" where
  "surface_fence_handles =
     [(''VkInstance'', VkInstance), (''VkDevice'', VkDevice),
      (''VkSurfaceKHR'', Handle ''VkSurfaceKHR'' False (Some VkInstance)),
      (''VkDisplayKHR'', Handle ''VkDisplayKHR'' False (Some VkPhysicalDevice)),
      (''VkFence'', Handle ''VkFence'' False (Some VkDevice))]"

definition teardown_gen :: Generator where
  "teardown_gen = example_gen \<lparr> vk := \<lparr> handles = surface_fence_handles, structs = [], commands = [] \<rparr> \<rparr>"

lemma teardown_gen_source:
  "\<exists>src. generateSource 0 teardown_gen = Inr src"
  by (simp add: generateSource_def teardown_gen_def example_gen_def getUndestroyedObjectVUID_def
        and_then_def reportLine_def IsImplicitlyDestroyed_def instanceHandles_def deviceHandles_def
        surface_fence_handles_def VkInstance_def VkDevice_def VkPhysicalDevice_def)

text \<open>Witness for C5: the surface is reported and the display is not, both are removed; the
  device report has the command buffer and the fence.\<close>

theorem teardown_reports_and_clears_witness:
  "\<exists>src. generateSource 0 teardown_gen = Inr src
     \<and> run_report (ReportUndestroyedInstanceObjects src) example_registry
         = [(''VUID-vkDestroyInstance-instance-00629'', ''kVulkanObjectTypeSurfaceKHR'', 3)]
     \<and> run_report (ReportUndestroyedDeviceObjects src) example_registry
         = [(''VUID-vkDestroyDevice-device-00378'', ''kVulkanObjectTypeCommandBuffer'', 6),
            (''VUID-vkDestroyDevice-device-00378'', ''kVulkanObjectTypeFence'', 5)]
     \<and> run_destroy (DestroyLeakedInstanceObjects src) example_registry
         = [(''kVulkanObjectTypeFence'', 5), (''kVulkanObjectTypeCommandBuffer'', 6)]
     \<and> run_destroy (DestroyLeakedDeviceObjects src) example_registry
         = [(''kVulkanObjectTypeSurfaceKHR'', 3), (''kVulkanObjectTypeDisplayKHR'', 4)]"
proof -
  obtain src where s: "generateSource 0 teardown_gen = Inr src"
    using teardown_gen_source by blast
  have i: "instanceHandles teardown_gen
             = [Handle ''VkSurfaceKHR'' False (Some VkInstance),
                Handle ''VkDisplayKHR'' False (Some VkPhysicalDevice)]"
    by (simp add: instanceHandles_def teardown_gen_def surface_fence_handles_def VkInstance_def
          VkDevice_def VkPhysicalDevice_def)
  have d: "deviceHandles teardown_gen = [Handle ''VkFence'' False (Some VkDevice)]"
    by (simp add: deviceHandles_def teardown_gen_def surface_fence_handles_def VkInstance_def
          VkDevice_def VkPhysicalDevice_def)
  note t = teardown_reports_and_clears [OF s, of example_registry]
  have "run_report (ReportUndestroyedInstanceObjects src) example_registry
         = [(''VUID-vkDestroyInstance-instance-00629'', ''kVulkanObjectTypeSurfaceKHR'', 3)]"
    using t unfolding i d
    by (simp add: reported_def ReportLeakedObjects_def example_registry_def kVulkanObjectType_def)
  moreover have "run_report (ReportUndestroyedDeviceObjects src) example_registry
         = [(''VUID-vkDestroyDevice-device-00378'', ''kVulkanObjectTypeCommandBuffer'', 6),
            (''VUID-vkDestroyDevice-device-00378'', ''kVulkanObjectTypeFence'', 5)]"
    using t unfolding i d
    by (simp add: reported_def ReportLeakedObjects_def example_registry_def kVulkanObjectType_def)
  moreover have "run_destroy (DestroyLeakedInstanceObjects src) example_registry
         = [(''kVulkanObjectTypeFence'', 5), (''kVulkanObjectTypeCommandBuffer'', 6)]"
    using t unfolding i d
    by (simp add: example_registry_def kVulkanObjectType_def)
  moreover have "run_destroy (DestroyLeakedDeviceObjects src) example_registry
         = [(''kVulkanObjectTypeSurfaceKHR'', 3), (''kVulkanObjectTypeDisplayKHR'', 4)]"
    using t unfolding i d
    by (simp add: example_registry_def kVulkanObjectType_def)
  ultimately show ?thesis
    using s by blast
qed

end
